theory Spec2Isabelle
  imports Main "HOL-Library.Sublist"
begin

section \<open>JavaScript strings\<close>

text \<open>
  Strings are \<^typ>\<open>string\<close> (lists of 8-bit characters): the model covers the code units
  0..255 of a JavaScript string. An index that JavaScript reports as \<open>-1\<close> is \<open>None\<close>.
\<close>

fun indexOf :: "string \<Rightarrow> string \<Rightarrow> nat option" where
  "indexOf [] p = (if p = [] then Some 0 else None)"
| "indexOf (c # cs) p =
     (if prefix p (c # cs) then Some 0 else map_option Suc (indexOf cs p))"

definition lastIndexOf :: "string \<Rightarrow> string \<Rightarrow> nat option" where
  "lastIndexOf s p =
     map_option (\<lambda>i. length s - length p - i) (indexOf (rev s) (rev p))"

definition js_includes :: "string \<Rightarrow> string \<Rightarrow> bool" where
  "js_includes s p = (indexOf s p \<noteq> None)"

definition startsWith :: "string \<Rightarrow> string \<Rightarrow> bool" where
  "startsWith s p = prefix p s"

definition substring :: "string \<Rightarrow> nat \<Rightarrow> nat \<Rightarrow> string" where
  \<comment> \<open>\<open>s.substring(a, b)\<close> for \<open>a \<le> b\<close>; \<open>s.slice(a, b)\<close> agrees there.\<close>
  "substring s a b = take (b - a) (drop a s)"

definition isSpace :: "char \<Rightarrow> bool" where
  \<comment> \<open>the white space and line terminators of \<open>\s\<close> and \<open>trim()\<close> below code unit 256\<close>
  "isSpace c = (of_char c \<in> {9, 10, 11, 12, 13, 32, 160 :: nat})"

definition trimEnd :: "string \<Rightarrow> string" where
  "trimEnd s = rev (dropWhile isSpace (rev s))"

definition trim :: "string \<Rightarrow> string" where
  "trim s = trimEnd (dropWhile isSpace s)"

definition toLowerAscii :: "char \<Rightarrow> char" where
  "toLowerAscii c =
     (let n = (of_char c :: nat) in if 65 \<le> n \<and> n \<le> 90 then char_of (n + 32) else c)"

section \<open>Errors\<close>

text \<open>
  A thrown value is read by the code through \<open>error?.status\<close>, \<open>error?.code\<close> and
  \<open>error?.message\<close>; each may be missing. \<open>new Error(msg)\<close> has only a message.
  A function that may throw returns \<open>js_error + 'a\<close>, \<open>Inl\<close> being the throw.
\<close>

record js_error =
  err_status :: "int option"
  err_code :: "int option"
  err_message :: "string option"

definition new_Error :: "string \<Rightarrow> js_error" where
  "new_Error msg = \<lparr>err_status = None, err_code = None, err_message = Some msg\<rparr>"

definition message_includes :: "js_error \<Rightarrow> string \<Rightarrow> bool" where
  \<comment> \<open>\<open>error?.message && error.message.includes(p)\<close>\<close>
  "message_includes e p =
     (case err_message e of None \<Rightarrow> False | Some m \<Rightarrow> m \<noteq> [] \<and> js_includes m p)"

section \<open>Response normalizer: cleanAndParseJSON\<close>

definition EMPTY_RESPONSE_MSG :: string where
  "EMPTY_RESPONSE_MSG =
     ''A IA retornou uma resposta vazia (sem conte'' @ [CHR 0xFA] @ ''do).''"

definition INVALID_JSON_MSG :: string where
  "INVALID_JSON_MSG =
     ''A resposta da IA n'' @ [CHR 0xE3] @ ''o '' @ [CHR 0xE9] @ '' um JSON v'' @ [CHR 0xE1]
       @ ''lido. Tente novamente.''"

definition FENCE :: string where
  "FENCE = ''```''"

text \<open>
  \<open>cleanText.match(/```(?:json)?\s*([\s\S]*?)\s*```/i)\<close>, the captured group.
  The match starts at the first fence; \<open>json\<close> is skipped in any letter case when it
  follows; the greedy \<open>\s*\<close> skips the white space after it; the lazy group stops at
  the first position from which only white space separates it from the next fence.
  Without a second fence there is no match.
\<close>

definition skipJsonTag :: "string \<Rightarrow> string" where
  \<comment> \<open>\<open>(?:json)?\<close> under the \<open>i\<close> flag\<close>
  "skipJsonTag r = (if map toLowerAscii (take 4 r) = ''json'' then drop 4 r else r)"

definition markdownMatch :: "string \<Rightarrow> string option" where
  "markdownMatch t =
     (case indexOf t FENCE of
        None \<Rightarrow> None
      | Some p \<Rightarrow>
          (let r = dropWhile isSpace (skipJsonTag (drop (p + 3) t))
           in case indexOf r FENCE of
                None \<Rightarrow> None
              | Some q \<Rightarrow> Some (trimEnd (take q r))))"

definition sliceStart :: "string \<Rightarrow> nat option" where
  "sliceStart cleanText =
     (let firstBrace = indexOf cleanText ''{'';
          firstBracket = indexOf cleanText ''[''
      in case (firstBrace, firstBracket) of
           (Some a, Some b) \<Rightarrow> Some (min a b)
         | (Some a, None) \<Rightarrow> Some a
         | (None, b) \<Rightarrow> b)"

definition sliceEnd :: "string \<Rightarrow> nat option" where
  "sliceEnd cleanText =
     (let lastBrace = lastIndexOf cleanText ''}'';
          lastBracket = lastIndexOf cleanText '']''
      in case (lastBrace, lastBracket) of
           (Some a, Some b) \<Rightarrow> Some (max a b)
         | (Some a, None) \<Rightarrow> Some a
         | (None, b) \<Rightarrow> b)"

definition bracketSlice :: "string \<Rightarrow> string" where
  \<comment> \<open>from the first \<open>{\<close> or \<open>[\<close> to the last \<open>}\<close> or \<open>]\<close>, when both exist in that order\<close>
  "bracketSlice cleanText =
     (case (sliceStart cleanText, sliceEnd cleanText) of
        (Some s, Some e) \<Rightarrow>
          if e > s then substring cleanText s (e + 1) else cleanText
      | _ \<Rightarrow> cleanText)"

definition jsonSlice :: "string \<Rightarrow> string" where
  \<comment> \<open>the text handed to \<open>JSON.parse\<close>, for a text that is not blank\<close>
  "jsonSlice t =
     (let cleanText = trim t
      in bracketSlice (case markdownMatch cleanText of
                         Some g \<Rightarrow> trim g
                       | None \<Rightarrow> cleanText))"

definition isBlank :: "string option \<Rightarrow> bool" where
  \<comment> \<open>\<open>!text || !text.trim()\<close>\<close>
  "isBlank text = (case text of None \<Rightarrow> True | Some t \<Rightarrow> t = [] \<or> trim t = [])"

text \<open>
  \<open>JSON.parse\<close> is the platform's parser; it is a parameter that returns \<open>None\<close> where
  the platform throws a SyntaxError.
\<close>

definition cleanAndParseJSON :: "(string \<Rightarrow> 'a option) \<Rightarrow> string option \<Rightarrow> js_error + 'a" where
  "cleanAndParseJSON JSON_parse text =
     (if isBlank text then Inl (new_Error EMPTY_RESPONSE_MSG)
      else case JSON_parse (jsonSlice (the text)) of
             Some v \<Rightarrow> Inr v
           | None \<Rightarrow> Inl (new_Error INVALID_JSON_MSG))"

section \<open>Session state and the generative API\<close>

text \<open>
  A session is what the calls of one page load share: the world outside the browser
  (whatever the generative API answers from), the models requested from the API so far,
  the delays awaited so far, and the module variable \<open>GLOBAL_IMAGE_QUOTA_EXHAUSTED\<close>
  of the circuit-breaker variant (initially false; the other variant never reads it).
  An asynchronous operation takes the session and returns its outcome with the session
  after it.
\<close>

record 'w session =
  world :: 'w
  requests :: "string list"
  slept :: "int list"
  GLOBAL_IMAGE_QUOTA_EXHAUSTED :: bool

definition sleep :: "int \<Rightarrow> 'w session \<Rightarrow> 'w session" where
  \<comment> \<open>\<open>await new Promise(resolve => setTimeout(resolve, ms))\<close>\<close>
  "sleep ms s = s\<lparr>slept := slept s @ [ms]\<rparr>"

text \<open>
  The request configuration, with the keys the call sites set. A key that is set holds an
  object or a non-empty literal, so \<open>if (cleanConfig.k) delete cleanConfig.k\<close> removes it
  exactly when it is set.
\<close>

record config =
  thinkingConfig :: "int option"
  responseSchema :: "string option"
  responseMimeType :: "string option"
  tools :: "string list"
  maxOutputTokens :: "int option"
  imageConfig :: "(string \<times> string option) option"

definition emptyConfig :: config where
  "emptyConfig = \<lparr>thinkingConfig = None, responseSchema = None, responseMimeType = None,
     tools = [], maxOutputTokens = None, imageConfig = None\<rparr>"

datatype contents = Prompt string | ImageAndPrompt string string

text \<open>
  Of a response the code reads \<open>text\<close>; for images
  \<open>candidates?.[0]?.content?.parts\<close> with each part's \<open>inlineData?.data\<close>; and for the
  video search \<open>candidates?.[0]?.groundingMetadata?.groundingChunks\<close> with each chunk's
  \<open>web?.uri\<close>.
\<close>

record response =
  res_text :: "string option"
  res_parts :: "string option list option"
  res_groundingUris :: "string option list option"

type_synonym 'w api = "string \<Rightarrow> string \<Rightarrow> contents \<Rightarrow> config \<Rightarrow> 'w \<Rightarrow> (js_error + response) \<times> 'w"

definition generateContent ::
  "'w api \<Rightarrow> string \<Rightarrow> string \<Rightarrow> contents \<Rightarrow> config \<Rightarrow> 'w session
     \<Rightarrow> (js_error + response) \<times> 'w session" where
  \<comment> \<open>\<open>ai.models.generateContent({ model, contents, config })\<close>, for the client of key \<open>apiKey\<close>\<close>
  "generateContent api apiKey model cts cfg s =
     (case api apiKey model cts cfg (world s) of
        (r, w) \<Rightarrow> (r, s\<lparr>world := w, requests := requests s @ [model]\<rparr>))"

record env =
  API_KEY :: "string option"
  browserApiKey :: string

definition MISSING_KEY_MSG :: string where
  "MISSING_KEY_MSG = ''Chave de API ausente. V'' @ [CHR 0xE1] @ '' em '' @ [CHR 0x27]
     @ ''Configura'' @ [CHR 0xE7, CHR 0xF5] @ ''es'' @ [CHR 0x27] @ '' e insira sua API Key.''"

definition getClient :: "env \<Rightarrow> js_error + string" where
  \<comment> \<open>services/geminiService.ts: \<open>process.env.API_KEY || getBrowserApiKey()\<close>\<close>
  "getClient ev =
     (let apiKey = (case API_KEY ev of
                      Some k \<Rightarrow> if k = [] then browserApiKey ev else k
                    | None \<Rightarrow> browserApiKey ev)
      in if apiKey = [] then Inl (new_Error MISSING_KEY_MSG) else Inr apiKey)"

definition MISSING_KEY_MSG_cb :: string where
  "MISSING_KEY_MSG_cb = ''Chave de API ausente. V'' @ [CHR 0xE1] @ '' em '' @ [CHR 0x27]
     @ ''Configura'' @ [CHR 0xE7, CHR 0xF5] @ ''es'' @ [CHR 0x27]
     @ '' e insira sua API Key para ativar a IA.''"

definition stripQuotes :: "string \<Rightarrow> string" where
  \<comment> \<open>\<open>envKey.replace(/^"|"$/g, '')\<close>\<close>
  "stripQuotes k =
     (let k1 = (if k \<noteq> [] \<and> hd k = CHR 0x22 then tl k else k)
      in if k1 \<noteq> [] \<and> last k1 = CHR 0x22 then butlast k1 else k1)"

definition getClient_cb :: "env \<Rightarrow> js_error + string" where
  \<comment> \<open>unnamed/part_006: the browser key first, then the environment key without quotes\<close>
  "getClient_cb ev =
     (let browserKey = browserApiKey ev;
          cleanEnvKey = (case API_KEY ev of
                           Some k \<Rightarrow> if k = [] then [] else stripQuotes k
                         | None \<Rightarrow> []);
          apiKey = (if browserKey = [] then cleanEnvKey else browserKey)
      in if apiKey = [] then Inl (new_Error MISSING_KEY_MSG_cb) else Inr apiKey)"

section \<open>Backoff and retry: retryWithBackoff\<close>

text \<open>
  Two variants exist. \<open>retryWithBackoff\<close> is the one of services/geminiService.ts;
  \<open>retryWithBackoff_cb\<close> is the one of unnamed/part_006, with the circuit breaker
  and the longer wait on a quota error.
\<close>

definition isRetryable :: "js_error \<Rightarrow> bool" where
  "isRetryable error =
     (err_status error = Some 429 \<or> err_status error = Some 503
      \<or> message_includes error ''429'' \<or> message_includes error ''overloaded''
      \<or> message_includes error ''fetch'' \<or> message_includes error ''quota'')"

function retryWithBackoff ::
  "('w session \<Rightarrow> (js_error + 'a) \<times> 'w session) \<Rightarrow> int \<Rightarrow> int \<Rightarrow> int \<Rightarrow> 'w session
     \<Rightarrow> (js_error + 'a) \<times> 'w session" where
  "retryWithBackoff fn retries delay factor s =
     (case fn s of
        (Inr v, s1) \<Rightarrow> (Inr v, s1)
      | (Inl error, s1) \<Rightarrow>
          if retries > 0 \<and> isRetryable error
          then retryWithBackoff fn (retries - 1) (delay * factor) factor (sleep delay s1)
          else (Inl error, s1))"
  by pat_completeness auto
termination
  by (relation "measure (\<lambda>(fn, retries, delay, factor, s). nat retries)") auto

declare retryWithBackoff.simps [simp del]

definition isQuotaError :: "js_error \<Rightarrow> bool" where
  "isQuotaError error =
     (err_status error = Some 429
      \<or> message_includes error ''429'' \<or> message_includes error ''quota''
      \<or> message_includes error ''RESOURCE_EXHAUSTED'')"

definition isNetworkError :: "js_error \<Rightarrow> bool" where
  "isNetworkError error =
     (err_status error = Some 503
      \<or> message_includes error ''overloaded'' \<or> message_includes error ''fetch''
      \<or> message_includes error ''Empty response'')"

definition IMAGE_QUOTA_MSG :: string where
  "IMAGE_QUOTA_MSG = ''Cota da API do Google (Imagens) excedida. Tente mais tarde.''"

function retryWithBackoff_cb ::
  "('w session \<Rightarrow> (js_error + 'a) \<times> 'w session) \<Rightarrow> int \<Rightarrow> int \<Rightarrow> int \<Rightarrow> bool \<Rightarrow> 'w session
     \<Rightarrow> (js_error + 'a) \<times> 'w session" where
  "retryWithBackoff_cb fn retries delay factor isImageRequest s =
     (case fn s of
        (Inr v, s1) \<Rightarrow> (Inr v, s1)
      | (Inl error, s1) \<Rightarrow>
          if isQuotaError error \<and> isImageRequest
          then (Inl (new_Error IMAGE_QUOTA_MSG), s1\<lparr>GLOBAL_IMAGE_QUOTA_EXHAUSTED := True\<rparr>)
          else if retries > 0 \<and> (isQuotaError error \<or> isNetworkError error)
          then (let waitTime = (if isQuotaError error then max delay 30000 else delay)
                in retryWithBackoff_cb fn (retries - 1) (delay * factor) factor isImageRequest
                     (sleep waitTime s1))
          else (Inl error, s1))"
  by pat_completeness auto
termination
  by (relation "measure (\<lambda>(fn, retries, delay, factor, isImageRequest, s). nat retries)") auto

declare retryWithBackoff_cb.simps [simp del]

section \<open>Model fallback dispatcher: generateSmartContent\<close>

definition MODEL_FALLBACK_TEXT :: string where
  "MODEL_FALLBACK_TEXT = ''gemini-flash-latest''"

definition MODEL_FALLBACK_TEXT_cb :: string where
  "MODEL_FALLBACK_TEXT_cb = ''gemini-3-flash-preview''"

definition isRecoverableError :: "js_error \<Rightarrow> bool" where
  "isRecoverableError error =
     (err_status error = Some 429 \<or> err_code error = Some 429
      \<or> err_status error = Some 404 \<or> err_code error = Some 404
      \<or> message_includes error ''429'' \<or> message_includes error ''quota''
      \<or> message_includes error ''RESOURCE_EXHAUSTED'' \<or> message_includes error ''NOT_FOUND''
      \<or> err_status error = Some 503)"

definition runRequest ::
  "'w api \<Rightarrow> string \<Rightarrow> contents \<Rightarrow> string \<Rightarrow> config \<Rightarrow> 'w session
     \<Rightarrow> (js_error + response) \<times> 'w session" where
  "runRequest api apiKey cts targetModel targetConfig s =
     generateContent api apiKey targetModel cts targetConfig s"

definition generateSmartContent ::
  "'w api \<Rightarrow> env \<Rightarrow> string \<Rightarrow> contents \<Rightarrow> config \<Rightarrow> string \<Rightarrow> 'w session
     \<Rightarrow> (js_error + response) \<times> 'w session" where
  "generateSmartContent api ev model cts cfg fallbackModel s =
     (case getClient ev of
        Inl e \<Rightarrow> (Inl e, s)
      | Inr ai \<Rightarrow>
          (case retryWithBackoff (runRequest api ai cts model cfg) 2 2000 2 s of
             (Inr res, s1) \<Rightarrow> (Inr res, s1)
           | (Inl error, s1) \<Rightarrow>
               if isRecoverableError error \<and> model \<noteq> fallbackModel
               then (let cleanConfig = cfg\<lparr>thinkingConfig := None\<rparr>
                     in retryWithBackoff (runRequest api ai cts fallbackModel cleanConfig)
                          2 4000 2 s1)
               else (Inl error, s1)))"

definition EMPTY_MODEL_RESPONSE_MSG :: string where
  "EMPTY_MODEL_RESPONSE_MSG = ''Empty response from AI model''"

definition isRecoverableError_cb :: "js_error \<Rightarrow> bool" where
  "isRecoverableError_cb error =
     (err_status error = Some 429 \<or> err_code error = Some 429
      \<or> err_status error = Some 404 \<or> err_code error = Some 404
      \<or> message_includes error ''429'' \<or> message_includes error ''quota''
      \<or> message_includes error ''RESOURCE_EXHAUSTED'' \<or> message_includes error ''NOT_FOUND''
      \<or> message_includes error ''Empty response''
      \<or> err_status error = Some 503)"

definition runRequest_cb ::
  "'w api \<Rightarrow> string \<Rightarrow> contents \<Rightarrow> string \<Rightarrow> config \<Rightarrow> 'w session
     \<Rightarrow> (js_error + response) \<times> 'w session" where
  "runRequest_cb api apiKey cts targetModel targetConfig s =
     (case generateContent api apiKey targetModel cts targetConfig s of
        (Inl e, s1) \<Rightarrow> (Inl e, s1)
      | (Inr res, s1) \<Rightarrow>
          if isBlank (res_text res) then (Inl (new_Error EMPTY_MODEL_RESPONSE_MSG), s1)
          else (Inr res, s1))"

definition generateSmartContent_cb ::
  "'w api \<Rightarrow> env \<Rightarrow> string \<Rightarrow> contents \<Rightarrow> config \<Rightarrow> string \<Rightarrow> 'w session
     \<Rightarrow> (js_error + response) \<times> 'w session" where
  "generateSmartContent_cb api ev model cts cfg fallbackModel s =
     (case getClient_cb ev of
        Inl e \<Rightarrow> (Inl e, s)
      | Inr ai \<Rightarrow>
          (case retryWithBackoff_cb (runRequest_cb api ai cts model cfg) 2 4000 2 False s of
             (Inr res, s1) \<Rightarrow> (Inr res, s1)
           | (Inl error, s1) \<Rightarrow>
               if isRecoverableError_cb error \<and> model \<noteq> fallbackModel
               then (let cleanConfig = cfg\<lparr>thinkingConfig := None, responseSchema := None\<rparr>
                     in retryWithBackoff_cb (runRequest_cb api ai cts fallbackModel cleanConfig)
                          2 6000 2 False (sleep 6000 s1))
               else (Inl error, s1)))"

section \<open>Image generation and the quota circuit breaker (unnamed/part_006)\<close>

definition isUnreserved :: "char \<Rightarrow> bool" where
  \<comment> \<open>the characters \<open>encodeURIComponent\<close> leaves as they are\<close>
  "isUnreserved c =
     (let n = (of_char c :: nat)
      in (65 \<le> n \<and> n \<le> 90) \<or> (97 \<le> n \<and> n \<le> 122) \<or> (48 \<le> n \<and> n \<le> 57)
         \<or> c \<in> set (''-_.!~*()'' @ [CHR 0x27]))"

definition hexDigit :: "nat \<Rightarrow> char" where
  "hexDigit n = ''0123456789ABCDEF'' ! (n mod 16)"

definition percent :: "nat \<Rightarrow> string" where
  "percent n = [CHR ''%'', hexDigit (n div 16), hexDigit (n mod 16)]"

definition encodeChar :: "char \<Rightarrow> string" where
  \<comment> \<open>the UTF-8 bytes of a code unit below 256, percent-encoded\<close>
  "encodeChar c =
     (let n = (of_char c :: nat)
      in if isUnreserved c then [c]
         else if n < 128 then percent n
         else percent (192 + n div 64) @ percent (128 + n mod 64))"

definition encodeURIComponent :: "string \<Rightarrow> string" where
  "encodeURIComponent s = concat (map encodeChar s)"

definition MODEL_IMAGE_FLASH :: string where
  "MODEL_IMAGE_FLASH = ''gemini-2.5-flash-image''"

definition MODEL_IMAGE_BACKUP :: string where
  "MODEL_IMAGE_BACKUP = ''gemini-2.5-flash-image''"

definition supportedRatios :: "string list" where
  "supportedRatios = [''1:1'', ''3:4'', ''4:3'', ''9:16'', ''16:9'']"

definition sanitizeAspectRatio :: "string \<Rightarrow> string" where
  "sanitizeAspectRatio aspectRatio =
     (if aspectRatio \<in> set supportedRatios then aspectRatio
      else if aspectRatio = ''2:3'' then ''3:4''
      else if aspectRatio = ''3:2'' then ''4:3''
      else if aspectRatio = ''21:9'' then ''16:9''
      else ''1:1'')"

definition breakerPlaceholder :: "string \<Rightarrow> string" where
  \<comment> \<open>the reference returned while the breaker is set\<close>
  "breakerPlaceholder prompt =
     ''https://placehold.co/1200x800/1e293b/ffffff?text=''
       @ encodeURIComponent (substring prompt 0 50) @ ''...''"

definition quotaPlaceholder :: "string \<Rightarrow> string" where
  \<comment> \<open>the reference returned by the call that runs into the quota error\<close>
  "quotaPlaceholder validAspectRatio =
     (let width = (if validAspectRatio = ''16:9'' then ''1200'' else ''1024'');
          height = (if validAspectRatio = ''16:9'' then ''675'' else ''1024'')
      in ''https://placehold.co/'' @ width @ ''x'' @ height @ ''/EEE/31343C?text=''
           @ encodeURIComponent ''Quota Exceeded - Placeholder'')"

definition firstInlineData :: "response \<Rightarrow> string option" where
  \<comment> \<open>the first part with a non-empty \<open>inlineData.data\<close>\<close>
  "firstInlineData res =
     (case res_parts res of
        None \<Rightarrow> None
      | Some parts \<Rightarrow>
          (case filter (\<lambda>p. p \<noteq> None \<and> p \<noteq> Some []) parts of
             [] \<Rightarrow> None
           | p # _ \<Rightarrow> p))"

definition NO_IMAGE_DATA_MSG :: string where
  "NO_IMAGE_DATA_MSG = ''A IA n'' @ [CHR 0xE3] @ ''o retornou dados de imagem v''
     @ [CHR 0xE1] @ ''lidos (inlineData missing).''"

definition PROMPT_STYLE :: string where
  "PROMPT_STYLE = '' . Professional Photojournalism, Realistic Camera Photo, 8k, Highly Detailed, Natural Lighting.''"

definition generateImageFromPrompt ::
  "'w api \<Rightarrow> env \<Rightarrow> string \<Rightarrow> string \<Rightarrow> string \<Rightarrow> string \<Rightarrow> 'w session
     \<Rightarrow> (js_error + string) \<times> 'w session" where
  "generateImageFromPrompt api ev prompt aspectRatio model resolution s =
     (if GLOBAL_IMAGE_QUOTA_EXHAUSTED s then (Inr (breakerPlaceholder prompt), s)
      else case getClient_cb ev of
        Inl e \<Rightarrow> (Inl e, s)
      | Inr ai \<Rightarrow>
          (let actualModel = (if model = ''gemini-2.5-flash-image'' then MODEL_IMAGE_FLASH else model);
               validAspectRatio = sanitizeAspectRatio aspectRatio;
               cfg = emptyConfig\<lparr>imageConfig :=
                       Some (validAspectRatio,
                             if actualModel = ''gemini-3-pro-image-preview'' then Some resolution
                             else None)\<rparr>;
               enhancedPrompt = prompt @ PROMPT_STYLE;
               attempt =
                 (case retryWithBackoff_cb
                         (generateContent api ai actualModel (Prompt enhancedPrompt) cfg)
                         1 4000 2 True s of
                    (Inl e, s1) \<Rightarrow> (Inl e, s1)
                  | (Inr res, s1) \<Rightarrow>
                      (case firstInlineData res of
                         Some d \<Rightarrow> (Inr d, s1)
                       | None \<Rightarrow> (Inl (new_Error NO_IMAGE_DATA_MSG), s1)))
           in case attempt of
                (Inr d, s1) \<Rightarrow> (Inr d, s1)
              | (Inl error, s1) \<Rightarrow>
                  (let msg = (case err_message error of Some m \<Rightarrow> m | None \<Rightarrow> [])
                   in if js_includes msg ''429'' \<or> js_includes msg ''quota''
                         \<or> js_includes msg ''RESOURCE_EXHAUSTED''
                         \<or> GLOBAL_IMAGE_QUOTA_EXHAUSTED s1
                      then (let s2 =
                                  (if actualModel \<noteq> MODEL_IMAGE_BACKUP
                                      \<and> \<not> GLOBAL_IMAGE_QUOTA_EXHAUSTED s1
                                   then snd (generateContent api ai MODEL_IMAGE_BACKUP
                                               (Prompt prompt) cfg s1)
                                   else s1)
                            in (Inr (quotaPlaceholder validAspectRatio), s2))
                      else (Inl error, s1))))"

definition stripDataUrlPrefix :: "string \<Rightarrow> string" where
  \<comment> \<open>\<open>replace(/^data:image\/(png|jpeg|jpg|webp);base64,/, "")\<close>\<close>
  "stripDataUrlPrefix u =
     (case filter (\<lambda>p. prefix p u)
             (map (\<lambda>t. ''data:image/'' @ t @ '';base64,'') [''png'', ''jpeg'', ''jpg'', ''webp'']) of
        [] \<Rightarrow> u
      | p # _ \<Rightarrow> drop (length p) u)"

definition BREAKER_EDIT_MSG :: string where
  "BREAKER_EDIT_MSG = ''Cota de imagem esgotada na sess'' @ [CHR 0xE3] @ ''o.''"

definition EDIT_FAILED_MSG :: string where
  "EDIT_FAILED_MSG = ''Falha ao editar imagem (dados inv'' @ [CHR 0xE1] @ ''lidos retornados).''"

definition editGeneratedImage ::
  "'w api \<Rightarrow> env \<Rightarrow> string \<Rightarrow> string \<Rightarrow> 'w session \<Rightarrow> (js_error + string) \<times> 'w session" where
  "editGeneratedImage api ev base64Image editPrompt s =
     (if GLOBAL_IMAGE_QUOTA_EXHAUSTED s then (Inl (new_Error BREAKER_EDIT_MSG), s)
      else case getClient_cb ev of
        Inl e \<Rightarrow> (Inl e, s)
      | Inr ai \<Rightarrow>
          (case retryWithBackoff_cb
                  (generateContent api ai MODEL_IMAGE_FLASH
                     (ImageAndPrompt (stripDataUrlPrefix base64Image) editPrompt) emptyConfig)
                  3 3000 2 True s of
             (Inl e, s1) \<Rightarrow> (Inl e, s1)
           | (Inr res, s1) \<Rightarrow>
               (case firstInlineData res of
                  Some d \<Rightarrow> (Inr d, s1)
                | None \<Rightarrow> (Inl (new_Error EDIT_FAILED_MSG), s1))))"

section \<open>Metadata generation: generateMetadata\<close>

record SeoOpportunities =
  featuredSnippet :: string
  paa :: "string list"
  googleNews :: string

record SeoData =
  seoTitle :: string
  metaDescription :: string
  slug :: string
  targetKeyword :: string
  synonyms :: "string list"
  relatedKeyphrase :: string
  tags :: "string list"
  lsiKeywords :: "string list"
  opportunities :: SeoOpportunities
  wordpressExcerpt :: "string option"

definition MODEL_PRIMARY_TEXT :: string where
  "MODEL_PRIMARY_TEXT = ''gemini-3-flash-preview''"

definition jsonConfig :: "string \<Rightarrow> config" where
  \<comment> \<open>\<open>{ responseMimeType: "application/json", responseSchema: ... }\<close>; the schema object is
    kept by name\<close>
  "jsonConfig schema =
     emptyConfig\<lparr>responseMimeType := Some ''application/json'', responseSchema := Some schema\<rparr>"

definition spacesToDashes :: "string \<Rightarrow> string" where
  \<comment> \<open>\<open>replace(/ /g, '-')\<close>\<close>
  "spacesToDashes k = map (\<lambda>c. if c = CHR '' '' then CHR ''-'' else c) k"

definition toLowerCase :: "string \<Rightarrow> string" where
  \<comment> \<open>\<open>toLowerCase()\<close> on the code units below 256\<close>
  "toLowerCase k =
     map (\<lambda>c. let n = (of_char c :: nat)
              in if (65 \<le> n \<and> n \<le> 90) \<or> (192 \<le> n \<and> n \<le> 222 \<and> n \<noteq> 215)
                 then char_of (n + 32) else c) k"

definition noOpportunities :: SeoOpportunities where
  "noOpportunities = \<lparr>featuredSnippet = [], paa = [], googleNews = []\<rparr>"

definition metadataPrompt :: "string \<Rightarrow> string" where
  "metadataPrompt topic =
     ''Gere SEO JSON para '' @ [CHR 0x22] @ topic
     @ [CHR 0x22] @ ''. MetaDesc m'' @ [CHR 0xE1] @ ''x 156 chars. SeoTitle m'' @ [CHR 0xE1]
       @ ''x 60 chars.''"

definition metadataFallback :: "string \<Rightarrow> SeoData" where
  \<comment> \<open>services/geminiService.ts, the value returned from the \<open>catch\<close>\<close>
  "metadataFallback keyword =
     \<lparr>seoTitle = keyword, metaDescription = ''Artigo sobre '' @ keyword,
      slug = spacesToDashes keyword, targetKeyword = keyword, synonyms = [],
      relatedKeyphrase = [], tags = [], lsiKeywords = [], opportunities = noOpportunities,
      wordpressExcerpt = None\<rparr>"

definition generateMetadata ::
  "'w api \<Rightarrow> env \<Rightarrow> (string \<Rightarrow> SeoData option) \<Rightarrow> string \<Rightarrow> string \<Rightarrow> string \<Rightarrow> string
     \<Rightarrow> 'w session \<Rightarrow> SeoData \<times> 'w session" where
  "generateMetadata api ev JSON_parse topic keyword htmlContent language s =
     (case generateSmartContent api ev MODEL_PRIMARY_TEXT (Prompt (metadataPrompt topic))
             (jsonConfig ''SeoData'') MODEL_FALLBACK_TEXT s of
        (Inl e, s1) \<Rightarrow> (metadataFallback keyword, s1)
      | (Inr res, s1) \<Rightarrow>
          (case cleanAndParseJSON JSON_parse (res_text res) of
             Inl e \<Rightarrow> (metadataFallback keyword, s1)
           | Inr v \<Rightarrow> (v, s1)))"

definition metadataPrompt_v1 :: "string \<Rightarrow> string \<Rightarrow> string \<Rightarrow> string" where
  "metadataPrompt_v1 topic keyword language =
     (''Gere SEO JSON (yoast) para artigo '' @ [CHR 0x22]) @ topic
     @ ([CHR 0x22] @ '', keyword '' @ [CHR 0x22]) @ keyword
     @ ([CHR 0x22] @ '', idioma '') @ language
     @ (''.'' @ [CHR 0x0A] @ ''            '' @ [CHR 0x0A] @ ''            REGRAS CR''
        @ [CHR 0xCD] @ ''TICAS DE TAMANHO (OBRIGAT'' @ [CHR 0xD3] @ ''RIO):'' @ [CHR 0x0A]
        @ ''            1. metaDescription: DEVE ter no M'' @ [CHR 0xC1]
        @ ''XIMO 156 CARACTERES (letras/espa'' @ [CHR 0xE7] @ ''os). N'' @ [CHR 0xC3]
        @ ''O ultrapasse. Seja conciso.'' @ [CHR 0x0A] @ ''            2. seoTitle: M''
        @ [CHR 0xE1] @ ''ximo 60 caracteres.'' @ [CHR 0x0A] @ ''            '' @ [CHR 0x0A]
        @ ''            Exemplo Bom de Meta (140 chars): '' @ [CHR 0x22]
        @ ''Saiba tudo sobre Energia Solar. Descubra como economizar na ''
        @ ''conta de luz e valorizar seu im'' @ [CHR 0xF3] @ ''vel com pain'' @ [CHR 0xE9]
        @ ''is fotovoltaicos em 2025.'' @ [CHR 0x22, CHR 0x0A] @ ''            '')"

definition metadataFallback_v1 :: "string \<Rightarrow> SeoData" where
  \<comment> \<open>unnamed/part_001, the "fallback safe" value\<close>
  "metadataFallback_v1 keyword =
     \<lparr>seoTitle = substring (keyword @ '': Guia Completo'') 0 60,
      metaDescription = substring (''Saiba tudo sobre '' @ keyword @ ''. Guia completo.'') 0 156,
      slug = spacesToDashes (toLowerCase keyword), targetKeyword = keyword, synonyms = [],
      relatedKeyphrase = [], tags = [], lsiKeywords = [], opportunities = noOpportunities,
      wordpressExcerpt = None\<rparr>"

definition generateMetadata_v1 ::
  "'w api \<Rightarrow> env \<Rightarrow> (string \<Rightarrow> SeoData option) \<Rightarrow> string \<Rightarrow> string \<Rightarrow> string \<Rightarrow> string
     \<Rightarrow> 'w session \<Rightarrow> SeoData \<times> 'w session" where
  \<comment> \<open>unnamed/part_001\<close>
  "generateMetadata_v1 api ev JSON_parse topic keyword htmlContent language s =
     (case generateSmartContent api ev MODEL_PRIMARY_TEXT
             (Prompt (metadataPrompt_v1 topic keyword language))
             (jsonConfig ''SeoData'') MODEL_FALLBACK_TEXT s of
        (Inl e, s1) \<Rightarrow> (metadataFallback_v1 keyword, s1)
      | (Inr res, s1) \<Rightarrow>
          (case cleanAndParseJSON JSON_parse (res_text res) of
             Inl e \<Rightarrow> (metadataFallback_v1 keyword, s1)
           | Inr v \<Rightarrow> (v, s1)))"

section \<open>Regular expressions\<close>

text \<open>
  The regular expressions of the video resolver are run by a backtracking matcher:
  \<open>paths r (input, capture)\<close> lists, in the order in which JavaScript tries them, the
  ways \<open>r\<close> matches a prefix of the input, each as the rest of the input and the text
  of capture group 1. \<open>Star\<close> is the greedy \<open>*\<close> and \<open>LazyStar\<close> the lazy \<open>*?\<close>; an
  iteration consumes at least one character. \<open>res_match\<close> is \<open>String.prototype.match\<close> without the \<open>g\<close> flag: the
  first path from the leftmost position that has one.
\<close>

datatype re =
  Lit string
  | Cls "char \<Rightarrow> bool"
  | Seq re re
  | Alt re re
  | Star re
  | LazyStar re
  | Rep nat re
  | Group re

type_synonym mstate = "string \<times> string option"

primrec star :: "nat \<Rightarrow> (mstate \<Rightarrow> mstate list) \<Rightarrow> mstate \<Rightarrow> mstate list" where
  "star 0 f st = [st]"
| "star (Suc n) f st =
     concat (map (\<lambda>st'. if length (fst st') < length (fst st) then star n f st' else [])
               (f st)) @ [st]"

primrec lazyStar :: "nat \<Rightarrow> (mstate \<Rightarrow> mstate list) \<Rightarrow> mstate \<Rightarrow> mstate list" where
  "lazyStar 0 f st = [st]"
| "lazyStar (Suc n) f st =
     st # concat (map (\<lambda>st'. if length (fst st') < length (fst st) then lazyStar n f st' else [])
                    (f st))"

primrec rep :: "nat \<Rightarrow> (mstate \<Rightarrow> mstate list) \<Rightarrow> mstate \<Rightarrow> mstate list" where
  "rep 0 f st = [st]"
| "rep (Suc n) f st = concat (map (rep n f) (f st))"

primrec paths :: "re \<Rightarrow> mstate \<Rightarrow> mstate list" where
  "paths (Lit p) st =
     (if prefix p (fst st) then [(drop (length p) (fst st), snd st)] else [])"
| "paths (Cls P) st =
     (case fst st of [] \<Rightarrow> [] | c # cs \<Rightarrow> if P c then [(cs, snd st)] else [])"
| "paths (Seq a b) st = concat (map (paths b) (paths a st))"
| "paths (Alt a b) st = paths a st @ paths b st"
| "paths (Star a) st = star (length (fst st)) (paths a) st"
| "paths (LazyStar a) st = lazyStar (length (fst st)) (paths a) st"
| "paths (Rep n a) st = rep n (paths a) st"
| "paths (Group a) st =
     map (\<lambda>st'. (fst st', Some (take (length (fst st) - length (fst st')) (fst st))))
       (paths a st)"

fun res_match :: "re \<Rightarrow> string \<Rightarrow> (string \<times> string option) option" where
  "res_match r [] =
     (case paths r ([], None) of [] \<Rightarrow> None | st # _ \<Rightarrow> Some ([], snd st))"
| "res_match r (c # cs) =
     (case paths r (c # cs, None) of
        [] \<Rightarrow> res_match r cs
      | st # _ \<Rightarrow> Some (take (length (c # cs) - length (fst st)) (c # cs), snd st))"

fun replaceAll :: "re \<Rightarrow> nat \<Rightarrow> string \<Rightarrow> string" where
  \<comment> \<open>\<open>s.replace(/r/g, '')\<close> for an \<open>r\<close> that matches no empty text; the number counts the
    characters of the current match still to drop\<close>
  "replaceAll r n [] = []"
| "replaceAll r (Suc n) (c # cs) = replaceAll r n cs"
| "replaceAll r 0 (c # cs) =
     (case paths r (c # cs, None) of
        [] \<Rightarrow> c # replaceAll r 0 cs
      | st # _ \<Rightarrow>
          (let len = length (c # cs) - length (fst st)
           in if len = 0 then c # replaceAll r 0 cs else replaceAll r (len - 1) cs))"

definition Plus :: "re \<Rightarrow> re" where
  "Plus a = Seq a (Star a)"

definition Opt :: "re \<Rightarrow> re" where
  "Opt a = Alt a (Lit [])"

definition anyChar :: re where
  \<comment> \<open>\<open>.\<close>: any character but a line terminator\<close>
  "anyChar = Cls (\<lambda>c. c \<noteq> CHR 0x0A \<and> c \<noteq> CHR 0x0D)"

definition notSlash :: re where
  \<comment> \<open>\<open>[^\/]\<close>\<close>
  "notSlash = Cls (\<lambda>c. c \<noteq> CHR ''/'')"

definition isWordChar :: "char \<Rightarrow> bool" where
  \<comment> \<open>\<open>\w\<close>\<close>
  "isWordChar c =
     (let n = (of_char c :: nat)
      in (65 \<le> n \<and> n \<le> 90) \<or> (97 \<le> n \<and> n \<le> 122) \<or> (48 \<le> n \<and> n \<le> 57) \<or> c = CHR ''_'')"

section \<open>Video asset resolver: findRealYoutubeVideo\<close>

definition youtubeHostPaths :: re where
  \<comment> \<open>\<open>youtube\.com\/(?:[^\/]+\/.+\/|(?:v|e(?:mbed)?)\/|.*[?&]v=)\<close>\<close>
  "youtubeHostPaths =
     Seq (Lit ''youtube.com/'')
       (Alt (Seq (Plus notSlash) (Seq (Lit ''/'') (Seq (Plus anyChar) (Lit ''/''))))
         (Alt (Seq (Alt (Lit ''v'') (Seq (Lit ''e'') (Opt (Lit ''mbed'')))) (Lit ''/''))
              (Seq (Star anyChar)
                 (Seq (Cls (\<lambda>c. c = CHR ''?'' \<or> c = CHR ''&'')) (Lit ''v='')))))"

definition regExp :: re where
  \<comment> \<open>services/geminiService.ts:
    \<open>/(?:youtube\.com\/(?:[^\/]+\/.+\/|(?:v|e(?:mbed)?)\/|.*[?&]v=)|youtu\.be\/)([^"&?\/\s]{11})/\<close>\<close>
  "regExp =
     Seq (Alt youtubeHostPaths (Lit ''youtu.be/''))
       (Group (Rep 11 (Cls (\<lambda>c. c \<noteq> CHR 0x22 \<and> c \<noteq> CHR ''&'' \<and> c \<noteq> CHR ''?''
                                \<and> c \<noteq> CHR ''/'' \<and> \<not> isSpace c))))"

definition regExp_cb :: re where
  \<comment> \<open>unnamed/part_006:
    \<open>/(?:youtube\.com\/(?:[^\/]+\/.+\/|(?:v|e(?:mbed)?)\/|.*[?&]v=)|youtu\.be\/|youtube\.com\/shorts\/)([\w-]{11})/\<close>\<close>
  "regExp_cb =
     Seq (Alt youtubeHostPaths (Alt (Lit ''youtu.be/'') (Lit ''youtube.com/shorts/'')))
       (Group (Rep 11 (Cls (\<lambda>c. isWordChar c \<or> c = CHR ''-''))))"

definition urlInText :: re where
  \<comment> \<open>unnamed/part_006:
    \<open>/https?:\/\/(?:www\.)?(?:youtube\.com\/watch\?v=|youtu\.be\/)([\w-]{11})/\<close>\<close>
  "urlInText =
     Seq (Lit ''http'') (Seq (Opt (Lit ''s'')) (Seq (Lit ''://'') (Seq (Opt (Lit ''www.''))
       (Seq (Alt (Lit ''youtube.com/watch?v='') (Lit ''youtu.be/''))
            (Group (Rep 11 (Cls (\<lambda>c. isWordChar c \<or> c = CHR ''-''))))))))"

definition videoId :: "re \<Rightarrow> string \<Rightarrow> string option" where
  \<comment> \<open>\<open>const match = url.match(regExp); const videoId = match ? match[1] : null\<close>\<close>
  "videoId r url = (case res_match r url of None \<Rightarrow> None | Some (whole, g) \<Rightarrow> g)"

record VideoData =
  query :: string
  v_title :: string
  channel :: string
  v_url :: string
  embedHtml :: string
  thumbnailUrl :: "string option"
  v_caption :: "string option"
  altText :: "string option"

text \<open>What the code reads of the parsed model response; a missing or empty field is \<open>None\<close>
  or \<open>Some []\<close>, and \<open>orElse\<close> is \<open>x || d\<close>.\<close>

record videoResult =
  r_title :: "string option"
  r_channel :: "string option"
  r_url :: "string option"
  r_caption :: "string option"
  r_altText :: "string option"

definition orElse :: "string option \<Rightarrow> string \<Rightarrow> string" where
  "orElse x d = (case x of None \<Rightarrow> d | Some v \<Rightarrow> if v = [] then d else v)"

definition interpolate :: "string option \<Rightarrow> string" where
  \<comment> \<open>\<open>${x}\<close> in a template\<close>
  "interpolate x = (case x of None \<Rightarrow> ''undefined'' | Some v \<Rightarrow> v)"

definition iframe :: "string \<Rightarrow> string \<Rightarrow> string" where
  "iframe vid ttl =
     (''<iframe width='' @ [CHR 0x22] @ ''100%'' @ [CHR 0x22] @ '' height='' @ [CHR 0x22]
        @ ''100%'' @ [CHR 0x22] @ '' src='' @ [CHR 0x22]
        @ ''https://www.youtube-nocookie.com/embed/'') @ vid
     @ ([CHR 0x22] @ '' title='' @ [CHR 0x22]) @ ttl
     @ ([CHR 0x22] @ '' frameborder='' @ [CHR 0x22] @ ''0'' @ [CHR 0x22] @ '' allow=''
        @ [CHR 0x22]
        @ ''accelerometer; autoplay; clipboard-write; encrypted-media; gyroscope; ''
        @ ''picture-in-picture'' @ [CHR 0x22] @ '' allowfullscreen></iframe>'')"

definition thumbnail :: "string \<Rightarrow> string" where
  "thumbnail vid = ''https://img.youtube.com/vi/'' @ vid @ ''/maxresdefault.jpg''"

definition videoPrompt :: "string \<Rightarrow> string" where
  "videoPrompt q =
     ([CHR 0x0A] @ ''    Context: You are a helpful news assistant.'' @ [CHR 0x0A]
        @ ''    Task: Search specifically for a YouTube video URL about: '' @ [CHR 0x22]) @ q
     @ ([CHR 0x22] @ ''.'' @ [CHR 0x0A] @ ''    INSTRUCTIONS:'' @ [CHR 0x0A]
        @ ''    1. Use the search tool to find a YouTube video.'' @ [CHR 0x0A]
        @ ''    2. The URL MUST be a standard watch URL.'' @ [CHR 0x0A]
        @ ''    3. Prefer high-quality, relevant content.'' @ [CHR 0x0A]
        @ ''    Response format (JSON only): { '' @ [CHR 0x22] @ ''title'' @ [CHR 0x22] @ '': ''
        @ [CHR 0x22] @ ''Video Title'' @ [CHR 0x22] @ '', '' @ [CHR 0x22] @ ''channel''
        @ [CHR 0x22] @ '': '' @ [CHR 0x22] @ ''Channel Name'' @ [CHR 0x22] @ '', '' @ [CHR 0x22]
        @ ''url'' @ [CHR 0x22] @ '': '' @ [CHR 0x22]
        @ ''https://www.youtube.com/watch?v=VIDEO_ID'' @ [CHR 0x22] @ '', '' @ [CHR 0x22]
        @ ''caption'' @ [CHR 0x22] @ '': '' @ [CHR 0x22] @ ''Brief description.'' @ [CHR 0x22]
        @ '', '' @ [CHR 0x22] @ ''altText'' @ [CHR 0x22] @ '': '' @ [CHR 0x22]
        @ ''Accessibility.'' @ [CHR 0x22] @ '' }'' @ [CHR 0x0A] @ ''  '')"

definition searchConfig :: config where
  \<comment> \<open>\<open>{ tools: [{ googleSearch: {} }] }\<close>\<close>
  "searchConfig = emptyConfig\<lparr>tools := [''googleSearch'']\<rparr>"

definition findRealYoutubeVideo ::
  "'w api \<Rightarrow> env \<Rightarrow> (string \<Rightarrow> videoResult option) \<Rightarrow> string \<Rightarrow> 'w session
     \<Rightarrow> (js_error + VideoData) \<times> 'w session" where
  \<comment> \<open>services/geminiService.ts\<close>
  "findRealYoutubeVideo api ev JSON_parse q s =
     (case retryWithBackoff
             (generateSmartContent api ev MODEL_FALLBACK_TEXT (Prompt (videoPrompt q))
                searchConfig MODEL_FALLBACK_TEXT) 3 3000 2 s of
        (Inl e, s1) \<Rightarrow> (Inl e, s1)
      | (Inr res, s1) \<Rightarrow>
          (case cleanAndParseJSON JSON_parse (res_text res) of
             Inl e \<Rightarrow> (Inl e, s1)
           | Inr result \<Rightarrow>
               if orElse (r_url result) [] = []
               then (Inl (new_Error ''No URL found for the video.''), s1)
               else (case videoId regExp (the (r_url result)) of
                       Some vid \<Rightarrow>
                         (Inr \<lparr>query = q,
                               v_title = orElse (r_title result) ''Video'',
                               channel = orElse (r_channel result) ''YouTube'',
                               v_url = the (r_url result),
                               embedHtml = iframe vid (interpolate (r_title result)),
                               thumbnailUrl = Some (thumbnail vid),
                               v_caption = Some (orElse (r_caption result)
                                                   (''Assista ao v'' @ [CHR 0xED] @ ''deo: '' @ q)),
                               altText = Some (orElse (r_altText result)
                                                 (''V'' @ [CHR 0xED] @ ''deo sobre '' @ q))\<rparr>, s1)
                     | None \<Rightarrow> (Inl (new_Error ''Invalid YouTube URL format.''), s1))))"

definition MODEL_TOOL_USE :: string where
  "MODEL_TOOL_USE = ''gemini-3-flash-preview''"

definition videoPrompt_cb :: "string \<Rightarrow> string" where
  "videoPrompt_cb q =
     ([CHR 0x0A] @ ''    TASK: Find the single most relevant, authoritative, and ''
        @ ''high-quality YouTube video about: '' @ [CHR 0x22]) @ q
     @ ([CHR 0x22] @ ''.'' @ [CHR 0x0A] @ ''    '' @ [CHR 0x0A] @ ''    INSTRUCTIONS:''
        @ [CHR 0x0A] @ ''    1. Use Google Search to find a REAL, working YouTube URL. ''
        @ [CHR 0x0A] @ ''    2. PRIORITIZE: Official news channels (BBC, CNN, G1, etc), ''
        @ ''Educational Institutions, TED Talks, or highly verified creators.'' @ [CHR 0x0A]
        @ ''    3. AVOID: Low quality vlogs, clickbait, or unverified sources.'' @ [CHR 0x0A]
        @ ''    4. The video should be in Portuguese if the query is in '' @ ''Portuguese.''
        @ [CHR 0x0A] @ ''    '' @ [CHR 0x0A] @ ''    OUTPUT:'' @ [CHR 0x0A]
        @ ''    Return a JSON object with:'' @ [CHR 0x0A] @ ''    - title: Exact video title.''
        @ [CHR 0x0A] @ ''    - channel: Channel name.'' @ [CHR 0x0A]
        @ ''    - url: The full, valid YouTube URL (e.g., https://www.youtube.com/watch?v=...).''
        @ [CHR 0x0A] @ ''    - caption: A professional, journalistic caption in Portuguese ''
        @ ''explaining why this video is valuable for the reader.'' @ [CHR 0x0A]
        @ ''    - altText: SEO-optimized accessibility description (e.g., '' @ [CHR 0x22]
        @ ''V'' @ [CHR 0xED] @ ''deo explicativo do canal X sobre Y'' @ [CHR 0x22] @ '').''
        @ [CHR 0x0A] @ ''  '')"

definition videoConfig_cb :: config where
  "videoConfig_cb =
     emptyConfig\<lparr>tools := [''googleSearch''], responseMimeType := Some ''application/json'',
       responseSchema := Some ''VideoResult''\<rparr>"

definition isYoutubeUrl :: "string \<Rightarrow> bool" where
  "isYoutubeUrl u = (js_includes u ''youtube.com'' \<or> js_includes u ''youtu.be'')"

definition urlFromResponse :: "response \<Rightarrow> string" where
  \<comment> \<open>unnamed/part_006, after the JSON failed: the first grounding chunk with a YouTube
    address, else the first YouTube address in the text, else the empty string\<close>
  "urlFromResponse res =
     (let foundUrl =
            (case res_groundingUris res of
               None \<Rightarrow> []
             | Some chunks \<Rightarrow>
                 (case filter (\<lambda>u. isYoutubeUrl (orElse u [])) chunks of
                    [] \<Rightarrow> []
                  | u # _ \<Rightarrow> orElse u []))
      in if foundUrl = []
         then (case res_text res of
                 None \<Rightarrow> []
               | Some t \<Rightarrow> (case res_match urlInText t of None \<Rightarrow> [] | Some (whole, g) \<Rightarrow> whole))
         else foundUrl)"

definition findRealYoutubeVideo_cb ::
  "'w api \<Rightarrow> env \<Rightarrow> (string \<Rightarrow> videoResult option) \<Rightarrow> string \<Rightarrow> 'w session
     \<Rightarrow> (js_error + VideoData) \<times> 'w session" where
  \<comment> \<open>unnamed/part_006\<close>
  "findRealYoutubeVideo_cb api ev JSON_parse q s =
     (case retryWithBackoff_cb
             (generateSmartContent_cb api ev MODEL_TOOL_USE (Prompt (videoPrompt_cb q))
                videoConfig_cb MODEL_FALLBACK_TEXT_cb) 3 2000 2 False s of
        (Inl e, s1) \<Rightarrow> (Inl e, s1)
      | (Inr res, s1) \<Rightarrow>
          (case (case cleanAndParseJSON JSON_parse (res_text res) of
                   Inr result \<Rightarrow> Inr result
                 | Inl e \<Rightarrow>
                     (let foundUrl = urlFromResponse res
                      in if foundUrl \<noteq> []
                         then Inr \<lparr>r_title = Some q, r_channel = Some ''YouTube'',
                                   r_url = Some foundUrl,
                                   r_caption = Some (''V'' @ [CHR 0xED] @ ''deo selecionado sobre: '' @ q),
                                   r_altText = Some (''V'' @ [CHR 0xED] @ ''deo explicativo sobre '' @ q)\<rparr>
                         else Inl (new_Error ''Could not find a valid YouTube URL in the response.''))) of
             Inl e \<Rightarrow> (Inl e, s1)
           | Inr result \<Rightarrow>
               if orElse (r_url result) [] = [] \<or> \<not> isYoutubeUrl (orElse (r_url result) [])
               then (Inl (new_Error ''Invalid URL returned by AI.''), s1)
               else (case videoId regExp_cb (the (r_url result)) of
                       Some vid \<Rightarrow>
                         (let embedTitle = orElse (r_altText result)
                                             (orElse (r_title result) ''Video Player'')
                          in (Inr \<lparr>query = q,
                                    v_title = orElse (r_title result)
                                                (''V'' @ [CHR 0xED] @ ''deo Recomendado''),
                                    channel = orElse (r_channel result) ''YouTube'',
                                    v_url = the (r_url result),
                                    embedHtml = iframe vid embedTitle,
                                    thumbnailUrl = Some (thumbnail vid),
                                    v_caption = Some (orElse (r_caption result)
                                                        (''Assista: '' @ interpolate (r_title result))),
                                    altText = Some (orElse (r_altText result)
                                                      (''V'' @ [CHR 0xED] @ ''deo sobre '' @ q))\<rparr>, s1))
                     | None \<Rightarrow> (Inl (new_Error ''Invalid YouTube ID extracted.''), s1))))"

section \<open>Video injection: injectVideoIntoHtml (unnamed/part_006 and unnamed/part_004)\<close>

definition VIDEO_OPEN :: string where
  "VIDEO_OPEN = ''<div id='' @ [CHR 0x22] @ ''featured-video-container'' @ [CHR 0x22]"

definition VIDEO_END :: string where
  "VIDEO_END = ''<!-- video-end -->''"

definition videoBlock :: re where
  \<comment> \<open>\<open>/<div id="featured-video-container"[\s\S]*?<!-- video-end -->/\<close>\<close>
  "videoBlock = Seq (Lit VIDEO_OPEN) (Seq (LazyStar (Cls (\<lambda>c. True))) (Lit VIDEO_END))"

definition lazyThen :: "string \<Rightarrow> string option \<Rightarrow> string \<Rightarrow> mstate list" where
  \<comment> \<open>the paths of \<open>[\s\S]*?\<close> followed by the literal \<open>e\<close>, written over the suffixes of the
    input from the longest to the empty one\<close>
  "lazyThen e cap t = concat (map (\<lambda>u. paths (Lit e) (u, cap)) (rev (suffixes t)))"

definition videoSection :: "VideoData \<Rightarrow> string" where
  "videoSection videoData =
     ([CHR 0x0A] @ ''<div id='' @ [CHR 0x22] @ ''featured-video-container'' @ [CHR 0x22]
        @ '' class='' @ [CHR 0x22] @ ''video-container my-8'' @ [CHR 0x22] @ ''>'' @ [CHR 0x0A]
        @ ''  <h3 class='' @ [CHR 0x22] @ ''text-lg font-bold mb-2 flex items-center gap-2''
        @ [CHR 0x22] @ ''>'' @ [CHR 0x0A] @ ''    <svg xmlns='' @ [CHR 0x22]
        @ ''http://www.w3.org/2000/svg'' @ [CHR 0x22] @ '' width='' @ [CHR 0x22] @ ''24''
        @ [CHR 0x22] @ '' height='' @ [CHR 0x22] @ ''24'' @ [CHR 0x22] @ '' viewBox=''
        @ [CHR 0x22] @ ''0 0 24 24'' @ [CHR 0x22] @ '' fill='' @ [CHR 0x22] @ ''none''
        @ [CHR 0x22] @ '' stroke='' @ [CHR 0x22] @ ''currentColor'' @ [CHR 0x22]
        @ '' stroke-width='' @ [CHR 0x22] @ ''2'' @ [CHR 0x22] @ '' stroke-linecap=''
        @ [CHR 0x22] @ ''round'' @ [CHR 0x22] @ '' stroke-linejoin='' @ [CHR 0x22] @ ''round''
        @ [CHR 0x22] @ '' class='' @ [CHR 0x22] @ ''text-red-600'' @ [CHR 0x22]
        @ ''><rect width='' @ [CHR 0x22] @ ''20'' @ [CHR 0x22] @ '' height='' @ [CHR 0x22]
        @ ''15'' @ [CHR 0x22] @ '' x='' @ [CHR 0x22] @ ''2'' @ [CHR 0x22] @ '' y='' @ [CHR 0x22]
        @ ''7'' @ [CHR 0x22] @ '' rx='' @ [CHR 0x22] @ ''2'' @ [CHR 0x22] @ '' ry=''
        @ [CHR 0x22] @ ''2'' @ [CHR 0x22] @ ''/><polyline points='' @ [CHR 0x22]
        @ ''17 12 12 7 12 17'' @ [CHR 0x22] @ ''/></svg>'' @ [CHR 0x0A] @ ''    Assista: '') @ v_title videoData
     @ ([CHR 0x0A] @ ''  </h3>'' @ [CHR 0x0A] @ ''  <div class='' @ [CHR 0x22]
        @ ''aspect-video bg-slate-100 rounded-xl overflow-hidden shadow-sm'' @ [CHR 0x22]
        @ ''>'' @ [CHR 0x0A] @ ''    '') @ embedHtml videoData
     @ ([CHR 0x0A] @ ''  </div>'' @ [CHR 0x0A] @ ''  '')
     @ (if orElse (v_caption videoData) [] \<noteq> []
        then (''<p class='' @ [CHR 0x22] @ ''text-sm text-slate-500 mt-2 italic'' @ [CHR 0x22] @ ''>'') @ orElse (v_caption videoData) []
             @ (''</p>'')
        else [])
     @ ([CHR 0x0A] @ ''</div><!-- video-end -->'')"

definition injectVideoIntoHtml :: "string \<Rightarrow> VideoData option \<Rightarrow> string" where
  "injectVideoIntoHtml html videoData =
     (case videoData of
        None \<Rightarrow> html
      | Some v \<Rightarrow>
          if embedHtml v = [] then html
          else (let cleanHtml = replaceAll videoBlock 0 html
                in case indexOf cleanHtml ''</p>'' of
                     Some leadCloseIndex \<Rightarrow>
                       substring cleanHtml 0 (leadCloseIndex + 4) @ [CHR 0x0A] @ videoSection v
                         @ drop (leadCloseIndex + 4) cleanHtml
                   | None \<Rightarrow>
                       (case indexOf cleanHtml ''</h1>'' of
                          Some h1CloseIndex \<Rightarrow>
                            substring cleanHtml 0 (h1CloseIndex + 5) @ [CHR 0x0A] @ videoSection v
                              @ drop (h1CloseIndex + 5) cleanHtml
                        | None \<Rightarrow> videoSection v @ [CHR 0x0A] @ cleanHtml)))"

definition countOccurrences :: "string \<Rightarrow> string \<Rightarrow> nat" where
  \<comment> \<open>the number of positions of \<open>s\<close> where \<open>p\<close> starts\<close>
  "countOccurrences s p = length (filter (\<lambda>i. prefix p (drop i s)) [0..<length s])"

section \<open>Articles\<close>

text \<open>
  The records of types.ts. A field that TypeScript marks optional is an option. Fields
  whose names other records use carry a prefix: \<open>a_\<close> for the article, \<open>i_\<close> for an image
  specification, \<open>au_\<close> for an author.
\<close>

record AdvancedOptions =
  includeToc :: bool
  includeGlossary :: bool
  includeTables :: bool
  includeLists :: bool
  secureSources :: bool
  authorCredits :: bool

record ImageSpec =
  i_role :: string
  i_aspectRatio :: string
  i_prompt :: string
  i_alt :: string
  i_title :: string
  i_caption :: string
  i_filename :: string
  i_url :: string
  i_generatedWith :: "string option"
  i_resolution :: "string option"

record SerpAnalysisResult =
  competitorTitles :: "string list"
  contentGaps :: "string list"
  strategy :: string
  questions :: "string list"
  serp_lsiKeywords :: "string list"

record ImageSettings =
  settings_model :: string
  settings_resolution :: string

datatype article_status = Draft | Generating | Completed | Published

record ArticleData =
  a_id :: string
  a_topic :: string
  a_targetKeyword :: string
  a_language :: string
  a_wordCount :: string
  a_siteUrl :: "string option"
  a_authorId :: "string option"
  a_advancedOptions :: AdvancedOptions
  a_title :: "string option"
  a_subtitle :: "string option"
  a_htmlContent :: "string option"
  a_metaDescription :: "string option"
  a_metaKeywords :: "string list option"
  a_seoData :: "SeoData option"
  a_schemaJsonLd :: "string option"
  a_wordpressPostJson :: "string option"
  a_videoData :: "VideoData option"
  a_imageSpecs :: "ImageSpec list option"
  a_imageSettings :: "ImageSettings option"
  a_serpAnalysis :: "SerpAnalysisResult option"
  a_seoScore :: "int option"
  a_eeatScore :: "int option"
  a_status :: article_status
  a_createdAt :: string

record Author =
  au_id :: string
  au_name :: string
  au_bio :: string
  au_photoUrl :: string
  au_expertise :: "string list"

section \<open>JSON.stringify\<close>

text \<open>
  The values that the technical SEO builder serialises, and \<open>JSON.stringify(v, null, 2)\<close>
  on them: two spaces per level, a property whose value is \<open>undefined\<close> left out.
\<close>

datatype json =
  JString string
  | JNumber nat
  | JArray "json list"
  | JObject "(string \<times> json) list"
  | JUndefined

definition hexLower :: "nat \<Rightarrow> char" where
  "hexLower n = ''0123456789abcdef'' ! (n mod 16)"

definition escapeChar :: "char \<Rightarrow> string" where
  "escapeChar c =
     (let n = (of_char c :: nat)
      in if n = 0x22 then [CHR 0x5C, CHR 0x22]
         else if n = 0x5C then [CHR 0x5C, CHR 0x5C]
         else if n = 8 then [CHR 0x5C, CHR ''b'']
         else if n = 12 then [CHR 0x5C, CHR ''f'']
         else if n = 10 then [CHR 0x5C, CHR ''n'']
         else if n = 13 then [CHR 0x5C, CHR ''r'']
         else if n = 9 then [CHR 0x5C, CHR ''t'']
         else if n < 32 then [CHR 0x5C, CHR ''u'', CHR ''0'', CHR ''0'', hexLower (n div 16), hexLower n]
         else [c])"

definition quoteJSON :: "string \<Rightarrow> string" where
  "quoteJSON s = [CHR 0x22] @ concat (map escapeChar s) @ [CHR 0x22]"

fun showNat :: "nat \<Rightarrow> string" where
  "showNat n =
     (if n < 10 then [''0123456789'' ! n]
      else showNat (n div 10) @ [''0123456789'' ! (n mod 10)])"

declare showNat.simps [simp del]

definition indent :: "nat \<Rightarrow> string" where
  "indent d = replicate (2 * d) (CHR '' '')"

fun joinLines :: "nat \<Rightarrow> string list \<Rightarrow> string" where
  \<comment> \<open>the members of an array or object at depth \<open>d\<close>, one per line\<close>
  "joinLines d [] = []"
| "joinLines d [e] = indent d @ e"
| "joinLines d (e # es) = indent d @ e @ '','' @ [CHR 0x0A] @ joinLines d es"

fun stringify :: "nat \<Rightarrow> json \<Rightarrow> string"
  and elements :: "nat \<Rightarrow> json list \<Rightarrow> string list"
  and properties :: "nat \<Rightarrow> (string \<times> json) list \<Rightarrow> string list" where
  "stringify d (JString s) = quoteJSON s"
| "stringify d (JNumber n) = showNat n"
| "stringify d JUndefined = ''null''"
| "stringify d (JArray xs) =
     (case elements (Suc d) xs of
        [] \<Rightarrow> ''[]''
      | es \<Rightarrow> ''['' @ [CHR 0x0A] @ joinLines (Suc d) es @ [CHR 0x0A] @ indent d @ '']'')"
| "stringify d (JObject ps) =
     (case properties (Suc d) ps of
        [] \<Rightarrow> ''{}''
      | es \<Rightarrow> ''{'' @ [CHR 0x0A] @ joinLines (Suc d) es @ [CHR 0x0A] @ indent d @ ''}'')"
| "elements d [] = []"
| "elements d (x # xs) = stringify d x # elements d xs"
| "properties d [] = []"
| "properties d ((k, JUndefined) # ps) = properties d ps"
| "properties d ((k, v) # ps) = (quoteJSON k @ '': '' @ stringify d v) # properties d ps"

definition JSON_stringify :: "json \<Rightarrow> string" where
  "JSON_stringify v = stringify 0 v"

definition optString :: "string option \<Rightarrow> json" where
  \<comment> \<open>a value that may be \<open>undefined\<close>\<close>
  "optString x = (case x of None \<Rightarrow> JUndefined | Some v \<Rightarrow> JString v)"

section \<open>Technical SEO payload: generateTechnicalSeo\<close>

text \<open>
  The same text in services/geminiService.ts and unnamed/part_006. \<open>now\<close> is what
  \<open>new Date().toISOString()\<close> returns when the function runs.
\<close>

definition heroImageUrl :: "ArticleData \<Rightarrow> string \<Rightarrow> string" where
  "heroImageUrl article siteUrl =
     (let heroImage = (case a_imageSpecs article of
                         None \<Rightarrow> None
                       | Some specs \<Rightarrow> find (\<lambda>i. i_role i = ''hero'') specs)
      in case heroImage of
           None \<Rightarrow> siteUrl @ ''/default-image.jpg''
         | Some h \<Rightarrow>
             if i_url h \<noteq> [] \<and> \<not> startsWith (i_url h) ''data:'' then i_url h
             else siteUrl @ ''/default-image.jpg'')"

definition schemaGraph :: "string \<Rightarrow> ArticleData \<Rightarrow> Author option \<Rightarrow> json" where
  "schemaGraph now article author =
     (let siteUrl = orElse (a_siteUrl article) ''https://example.com'';
          permalink = siteUrl @ ''/'' @ interpolate (map_option slug (a_seoData article));
          imageUrl = heroImageUrl article siteUrl;
          organization = JObject [(''@id'', JString (siteUrl @ ''/#organization''))]
      in JObject
           [(''@context'', JString ''https://schema.org''),
            (''@graph'', JArray
               [JObject [(''@type'', JString ''Organization''),
                         (''@id'', JString (siteUrl @ ''/#organization'')),
                         (''name'', JString (''ArtigoG'' @ [CHR 0xEA] @ ''nio Publisher'')),
                         (''url'', JString siteUrl)],
                JObject [(''@type'', JString ''WebSite''),
                         (''@id'', JString (siteUrl @ ''/#website'')),
                         (''url'', JString siteUrl),
                         (''publisher'', organization)],
                JObject [(''@type'', JString ''ImageObject''),
                         (''@id'', JString (permalink @ ''/#primaryimage'')),
                         (''url'', JString imageUrl),
                         (''width'', JNumber 1200),
                         (''height'', JNumber 675)],
                JObject [(''@type'', JArray [JString ''Article'', JString ''NewsArticle'']),
                         (''@id'', JString (permalink @ ''/#article'')),
                         (''isPartOf'', JObject [(''@id'', JString permalink)]),
                         (''author'', JObject
                            [(''@type'', JString ''Person''),
                             (''name'', JString (orElse (map_option au_name author)
                                                  (''Reda'' @ [CHR 0xE7, CHR 0xE3] @ ''o'')))]),
                         (''headline'', optString (map_option seoTitle (a_seoData article))),
                         (''datePublished'', JString now),
                         (''dateModified'', JString now),
                         (''mainEntityOfPage'', JObject [(''@id'', JString permalink)]),
                         (''publisher'', organization),
                         (''image'', JObject [(''@id'', JString (permalink @ ''/#primaryimage''))])]])])"

definition wpPayload :: "ArticleData \<Rightarrow> json" where
  "wpPayload article =
     JObject
       [(''title'', optString (a_title article)),
        (''content'', optString (a_htmlContent article)),
        (''status'', JString ''draft''),
        (''slug'', optString (map_option slug (a_seoData article))),
        (''excerpt'', optString (map_option metaDescription (a_seoData article))),
        (''meta'', JObject
           [(''yoast_wpseo_title'', optString (map_option seoTitle (a_seoData article))),
            (''yoast_wpseo_metadesc'',
               optString (map_option metaDescription (a_seoData article)))])]"

record TechnicalSeo =
  schemaJsonLd :: string
  wordpressPostJson :: string

definition generateTechnicalSeo :: "string \<Rightarrow> ArticleData \<Rightarrow> Author option \<Rightarrow> TechnicalSeo" where
  "generateTechnicalSeo now article author =
     \<lparr>schemaJsonLd = JSON_stringify (schemaGraph now article author),
      wordpressPostJson = JSON_stringify (wpPayload article)\<rparr>"

section \<open>Publishing to WordPress: publishToWordPress (unnamed/part_000)\<close>

text \<open>
  The browser's \<open>fetch\<close> is a function of the request and the world outside, which answers
  with a response or throws; the requests issued are kept in order. \<open>atob\<close> and
  \<open>btoa\<close> are the platform's; \<open>atob\<close> returns \<open>None\<close> where the platform throws.
  A JSON body is kept as the object that \<open>JSON.stringify\<close> is applied to. Of a response,
  \<open>resp_json\<close> is what \<open>await res.json()\<close> gives: a throw, \<open>null\<close> (\<open>None\<close>, on which
  reading a property throws a TypeError) or a value with the properties the code reads.
\<close>

record blob =
  blob_bytes :: string
  blob_type :: string

record postData =
  pd_title :: string
  pd_content :: "string option"
  pd_status :: string
  pd_slug :: string
  pd_excerpt :: "string option"
  featured_media :: "int option"
  comment_status :: string
  ping_status :: string

record mediaMeta =
  alt_text :: string
  mm_title :: "string option"
  mm_description :: string

datatype http_body = BlobBody blob | PostBody postData | MetaBody mediaMeta

record http_request =
  req_method :: string
  req_url :: string
  req_headers :: "(string \<times> string) list"
  req_body :: http_body

record wp_body =
  wp_id :: "int option"
  wp_link :: "string option"
  wp_message :: "string option"

record http_response =
  resp_ok :: bool
  resp_status :: nat
  resp_json :: "js_error + wp_body option"
  resp_text :: "js_error + string"

record 'w http =
  h_world :: 'w
  h_requests :: "http_request list"

type_synonym 'w fetcher = "http_request \<Rightarrow> 'w \<Rightarrow> (js_error + http_response) \<times> 'w"

definition do_fetch :: "'w fetcher \<Rightarrow> http_request \<Rightarrow> 'w http \<Rightarrow> (js_error + http_response) \<times> 'w http" where
  \<comment> \<open>\<open>await fetch(url, { method, headers, body })\<close>\<close>
  "do_fetch fetcher req s =
     (case fetcher req (h_world s) of
        (r, w) \<Rightarrow> (r, \<lparr>h_world = w, h_requests = h_requests s @ [req]\<rparr>))"

record WordPressConfig =
  endpoint :: string
  username :: string
  applicationPassword :: string

record PublishResult =
  pr_id :: "int option"
  pr_link :: "string option"

fun splitOn :: "char \<Rightarrow> string \<Rightarrow> string list" where
  \<comment> \<open>\<open>s.split(c)\<close>\<close>
  "splitOn c [] = [[]]"
| "splitOn c (x # xs) =
     (if x = c then [] # splitOn c xs
      else (case splitOn c xs of
              [] \<Rightarrow> [[x]]
            | seg # segs \<Rightarrow> (x # seg) # segs))"

definition TYPE_ERROR :: js_error where
  \<comment> \<open>the TypeError of reading a property of \<open>undefined\<close>\<close>
  "TYPE_ERROR = new_Error ''Cannot read properties of undefined''"

definition INVALID_CHARACTER_ERROR :: js_error where
  \<comment> \<open>what \<open>atob\<close> throws\<close>
  "INVALID_CHARACTER_ERROR = new_Error ''The string to be decoded is not correctly encoded.''"

definition dataURItoBlob :: "(string \<Rightarrow> string option) \<Rightarrow> string \<Rightarrow> js_error + blob" where
  "dataURItoBlob atob dataURI =
     (let byPart = splitOn (CHR '','') dataURI
      in case atob (if length byPart > 1 then byPart ! 1 else ''undefined'') of
           None \<Rightarrow> Inl INVALID_CHARACTER_ERROR
         | Some byteString \<Rightarrow>
             (let byColon = splitOn (CHR '':'') (hd byPart)
              in if length byColon > 1
                 then Inr \<lparr>blob_bytes = byteString,
                           blob_type = hd (splitOn (CHR '';'') (byColon ! 1))\<rparr>
                 else Inl TYPE_ERROR))"

definition INCOMPLETE_CONFIG_MSG :: string where
  "INCOMPLETE_CONFIG_MSG = ''Configura'' @ [CHR 0xE7, CHR 0xE3] @ ''o do WordPress incompleta. V'' @ [CHR 0xE1]
       @ '' em Configura'' @ [CHR 0xE7, CHR 0xF5] @ ''es > WordPress.''"

definition PERMISSION_MSG :: string where
  "PERMISSION_MSG = ''Erro de Permiss'' @ [CHR 0xE3] @ ''o: Verifique seu usu'' @ [CHR 0xE1]
       @ ''rio e Senha de Aplicativo.''"

definition CONNECTION_MSG :: string where
  "CONNECTION_MSG = ''Erro de Conex'' @ [CHR 0xE3] @ ''o: Verifique se a URL do site est'' @ [CHR 0xE1]
       @ '' correta e se o site permite conex'' @ [CHR 0xF5] @ ''es externas (CORS).''"

definition apiBase :: "WordPressConfig \<Rightarrow> string" where
  "apiBase cfg =
     (let e = endpoint cfg;
          baseUrl = (if e \<noteq> [] \<and> last e = CHR ''/'' then butlast e else e)
      in if js_includes baseUrl ''wp-json'' then baseUrl else baseUrl @ ''/wp-json'')"

definition authorization :: "(string \<Rightarrow> string) \<Rightarrow> WordPressConfig \<Rightarrow> string" where
  "authorization btoa cfg = ''Basic '' @ btoa (username cfg @ '':'' @ applicationPassword cfg)"

definition findHero :: "ArticleData \<Rightarrow> ImageSpec option" where
  \<comment> \<open>the image of role \<open>hero\<close> that holds a data URL\<close>
  "findHero article =
     (case a_imageSpecs article of
        None \<Rightarrow> None
      | Some specs \<Rightarrow>
          find (\<lambda>s. i_role s = ''hero'' \<and> i_url s \<noteq> [] \<and> startsWith (i_url s) ''data:'') specs)"

definition mediaRequest :: "string \<Rightarrow> string \<Rightarrow> ArticleData \<Rightarrow> ImageSpec \<Rightarrow> blob \<Rightarrow> http_request" where
  "mediaRequest baseUrl auth article heroImage b =
     (let filename = (if i_filename heroImage \<noteq> [] then i_filename heroImage
                      else ''article-'' @ a_id article @ ''-hero.jpg'')
      in \<lparr>req_method = ''POST'', req_url = baseUrl @ ''/wp/v2/media'',
          req_headers = [(''Authorization'', auth),
                         (''Content-Disposition'',
                            ''attachment; filename='' @ [CHR 0x22] @ filename @ [CHR 0x22]),
                         (''Content-Type'', blob_type b)],
          req_body = BlobBody b\<rparr>)"

definition metaRequest :: "string \<Rightarrow> string \<Rightarrow> ArticleData \<Rightarrow> ImageSpec \<Rightarrow> int option \<Rightarrow> http_request" where
  "metaRequest baseUrl auth article heroImage mediaId =
     \<lparr>req_method = ''POST'',
      req_url = baseUrl @ ''/wp/v2/media/''
                  @ (case mediaId of None \<Rightarrow> ''undefined''
                     | Some n \<Rightarrow> (if n < 0 then ''-'' else []) @ showNat (nat \<bar>n\<bar>)),
      req_headers = [(''Authorization'', auth), (''Content-Type'', ''application/json'')],
      req_body = MetaBody \<lparr>alt_text = i_alt heroImage,
                            mm_title = (if i_title heroImage \<noteq> [] then Some (i_title heroImage)
                                        else a_title article),
                            mm_description = i_caption heroImage\<rparr>\<rparr>"

definition uploadHero ::
  "'w fetcher \<Rightarrow> (string \<Rightarrow> string option) \<Rightarrow> string \<Rightarrow> string \<Rightarrow> ArticleData \<Rightarrow> 'w http
     \<Rightarrow> int option \<times> 'w http" where
  \<comment> \<open>step 4 of the source, with its own \<open>try\<close> and \<open>catch\<close>: the value of
    \<open>featuredMediaId\<close> after it, \<open>None\<close> for \<open>undefined\<close>\<close>
  "uploadHero fetcher atob baseUrl auth article s =
     (case findHero article of
        None \<Rightarrow> (Some 0, s)
      | Some heroImage \<Rightarrow>
          (case dataURItoBlob atob (i_url heroImage) of
             Inl imgError \<Rightarrow> (Some 0, s)
           | Inr b \<Rightarrow>
               (case do_fetch fetcher (mediaRequest baseUrl auth article heroImage b) s of
                  (Inl imgError, s1) \<Rightarrow> (Some 0, s1)
                | (Inr mediaRes, s1) \<Rightarrow>
                    if resp_ok mediaRes
                    then (case resp_json mediaRes of
                            Inl imgError \<Rightarrow> (Some 0, s1)
                          | Inr None \<Rightarrow> (Some 0, s1)
                          | Inr (Some mediaData) \<Rightarrow>
                              if i_alt heroImage \<noteq> []
                              then (wp_id mediaData,
                                    snd (do_fetch fetcher
                                           (metaRequest baseUrl auth article heroImage
                                              (wp_id mediaData)) s1))
                              else (wp_id mediaData, s1))
                    else (Some 0, s1))))"

definition postRequest :: "string \<Rightarrow> string \<Rightarrow> ArticleData \<Rightarrow> int option \<Rightarrow> http_request" where
  "postRequest baseUrl auth article featuredMediaId =
     \<lparr>req_method = ''POST'', req_url = baseUrl @ ''/wp/v2/posts'',
      req_headers = [(''Authorization'', auth), (''Content-Type'', ''application/json'')],
      req_body = PostBody
        \<lparr>pd_title = orElse (a_title article) (a_topic article),
         pd_content = a_htmlContent article,
         pd_status = ''draft'',
         pd_slug = orElse (map_option slug (a_seoData article))
                     (toLowerCase (spacesToDashes (a_targetKeyword article))),
         pd_excerpt = a_metaDescription article,
         featured_media = (case featuredMediaId of
                             None \<Rightarrow> None
                           | Some n \<Rightarrow> if n > 0 then Some n else None),
         comment_status = ''open'',
         ping_status = ''open''\<rparr>\<rparr>"

definition readPost :: "js_error + http_response \<Rightarrow> js_error + PublishResult" where
  \<comment> \<open>step 5 of the source after the \<open>fetch\<close>\<close>
  "readPost r =
     (case r of
        Inl e \<Rightarrow> Inl e
      | Inr response \<Rightarrow>
          if \<not> resp_ok response
          then (case resp_json response of
                  Inl e \<Rightarrow> Inl e
                | Inr errorData \<Rightarrow>
                    if resp_status response = 401 \<or> resp_status response = 403
                    then Inl (new_Error PERMISSION_MSG)
                    else (case errorData of
                            None \<Rightarrow> Inl TYPE_ERROR
                          | Some d \<Rightarrow>
                              Inl (new_Error (orElse (wp_message d)
                                     (''Erro HTTP: '' @ showNat (resp_status response))))))
          else (case resp_json response of
                  Inl e \<Rightarrow> Inl e
                | Inr None \<Rightarrow> Inl TYPE_ERROR
                | Inr (Some d) \<Rightarrow> Inr \<lparr>pr_id = wp_id d, pr_link = wp_link d\<rparr>))"

definition friendlyError :: "js_error \<Rightarrow> js_error" where
  \<comment> \<open>the outer \<open>catch\<close>\<close>
  "friendlyError error =
     (case err_message error of
        None \<Rightarrow> TYPE_ERROR
      | Some m \<Rightarrow>
          if js_includes m ''Failed to fetch'' then new_Error CONNECTION_MSG else new_Error m)"

definition createPost ::
  "'w fetcher \<Rightarrow> string \<Rightarrow> string \<Rightarrow> ArticleData \<Rightarrow> int option \<Rightarrow> 'w http
     \<Rightarrow> (js_error + PublishResult) \<times> 'w http" where
  "createPost fetcher baseUrl auth article featuredMediaId s =
     (case do_fetch fetcher (postRequest baseUrl auth article featuredMediaId) s of
        (r, s1) \<Rightarrow>
          (case readPost r of
             Inl e \<Rightarrow> (Inl (friendlyError e), s1)
           | Inr v \<Rightarrow> (Inr v, s1)))"

definition publishToWordPress ::
  "'w fetcher \<Rightarrow> (string \<Rightarrow> string option) \<Rightarrow> (string \<Rightarrow> string) \<Rightarrow> ArticleData \<Rightarrow> WordPressConfig
     \<Rightarrow> 'w http \<Rightarrow> (js_error + PublishResult) \<times> 'w http" where
  "publishToWordPress fetcher atob btoa article cfg s =
     (if endpoint cfg = [] \<or> username cfg = [] \<or> applicationPassword cfg = []
      then (Inl (new_Error INCOMPLETE_CONFIG_MSG), s)
      else (let baseUrl = apiBase cfg;
                auth = authorization btoa cfg
            in case uploadHero fetcher atob baseUrl auth article s of
                 (featuredMediaId, s1) \<Rightarrow>
                   createPost fetcher baseUrl auth article featuredMediaId s1))"

section \<open>Constants of the examples\<close>





definition E429 :: js_error where
  "E429 = \<lparr>err_status = Some 429, err_code = None, err_message = None\<rparr>"

definition session0 :: "nat session" where
  "session0 = \<lparr>world = 0, requests = [], slept = [], GLOBAL_IMAGE_QUOTA_EXHAUSTED = False\<rparr>"

definition always_quota :: "nat session \<Rightarrow> (js_error + unit) \<times> nat session" where
  "always_quota s = (Inl E429, s\<lparr>world := Suc (world s)\<rparr>)"

definition env0 :: env where
  "env0 = \<lparr>API_KEY = Some ''key'', browserApiKey = []\<rparr>"

definition OK_RESPONSE :: response where
  "OK_RESPONSE = \<lparr>res_text = Some ''{}'', res_parts = None, res_groundingUris = None\<rparr>"

definition api_primary_down :: "nat api" where
  "api_primary_down apiKey model cts cfg w =
     (if model = ''primary'' then (Inl E429, Suc w) else (Inr OK_RESPONSE, Suc w))"

definition cfgT :: config where
  "cfgT = emptyConfig\<lparr>thinkingConfig := Some 1024, responseSchema := Some ''schema''\<rparr>"

definition after_primary :: "nat session" where
  "after_primary = \<lparr>world = 3, requests = [''primary'', ''primary'', ''primary''],
     slept = [2000, 4000], GLOBAL_IMAGE_QUOTA_EXHAUSTED = False\<rparr>"

definition after_primary_cb :: "nat session" where
  "after_primary_cb = \<lparr>world = 3, requests = [''primary'', ''primary'', ''primary''],
     slept = [30000, 30000], GLOBAL_IMAGE_QUOTA_EXHAUSTED = False\<rparr>"

definition api_always_429 :: "nat api" where
  "api_always_429 apiKey model cts cfg w = (Inl E429, Suc w)"

definition session_exhausted :: "nat session" where
  "session_exhausted = \<lparr>world = 1, requests = [''gemini-2.5-flash-image''], slept = [],
     GLOBAL_IMAGE_QUOTA_EXHAUSTED = True\<rparr>"

definition reject_all :: "string \<Rightarrow> SeoData option" where
  "reject_all s = None"

definition long_keyword :: string where
  "long_keyword = replicate 61 (CHR ''a'')"

definition WATCH_URL :: string where
  "WATCH_URL = ''https://www.youtube.com/watch?v=dQw4w9WgXcQ''"

definition SHORT_LINK_URL :: string where
  "SHORT_LINK_URL = ''https://youtu.be/dQw4w9WgXcQ''"

definition SHORTS_URL :: string where
  "SHORTS_URL = ''https://www.youtube.com/shorts/dQw4w9WgXcQ''"

definition OTHER_URL :: string where
  "OTHER_URL = ''https://example.com/video''"

definition SHORTS_RESPONSE :: response where
  \<open>SHORTS_RESPONSE =
     \<lparr>res_text = Some (''{"title":"T","url":"'' @ SHORTS_URL @ ''"}''), res_parts = None,
      res_groundingUris = None\<rparr>\<close>

definition api_finds_shorts :: "nat api" where
  "api_finds_shorts apiKey model cts cfg w = (Inr SHORTS_RESPONSE, Suc w)"

definition parse_video :: "string \<Rightarrow> videoResult option" where
  \<comment> \<open>a parser that knows the text of \<open>SHORTS_RESPONSE\<close>\<close>
  "parse_video s =
     (if Some s = res_text SHORTS_RESPONSE
      then Some \<lparr>r_title = Some ''T'', r_channel = None, r_url = Some SHORTS_URL,
                  r_caption = None, r_altText = None\<rparr>
      else None)"

definition SAMPLE_VIDEO :: VideoData where
  "SAMPLE_VIDEO = \<lparr>query = ''q'', v_title = ''T'', channel = ''YouTube'',
     v_url = ''https://youtu.be/dQw4w9WgXcQ'', embedHtml = ''<iframe></iframe>'',
     thumbnailUrl = None, v_caption = None, altText = None\<rparr>"

definition SAMPLE_HTML :: string where
  "SAMPLE_HTML = ''<h1>A</h1><p>Lead</p><p>Body</p>''"

definition SAMPLE_OPTIONS :: AdvancedOptions where
  "SAMPLE_OPTIONS = \<lparr>includeToc = True, includeGlossary = False, includeTables = True,
     includeLists = True, secureSources = True, authorCredits = True\<rparr>"

definition SAMPLE_SEO :: SeoData where
  "SAMPLE_SEO = \<lparr>seoTitle = ''Solar'', metaDescription = ''About solar'', slug = ''solar'',
     targetKeyword = ''solar'', synonyms = [], relatedKeyphrase = [], tags = [],
     lsiKeywords = [], opportunities = noOpportunities, wordpressExcerpt = None\<rparr>"

definition SAMPLE_ARTICLE :: ArticleData where
  "SAMPLE_ARTICLE = \<lparr>a_id = ''id-1'', a_topic = ''Solar energy'', a_targetKeyword = ''solar'',
     a_language = ''English'', a_wordCount = ''800'', a_siteUrl = None, a_authorId = None,
     a_advancedOptions = SAMPLE_OPTIONS, a_title = Some ''Solar'', a_subtitle = None,
     a_htmlContent = Some ''<p>x</p>'', a_metaDescription = None, a_metaKeywords = None,
     a_seoData = Some SAMPLE_SEO, a_schemaJsonLd = None, a_wordpressPostJson = None,
     a_videoData = None, a_imageSpecs = None, a_imageSettings = None, a_serpAnalysis = None,
     a_seoScore = None, a_eeatScore = None, a_status = Draft,
     a_createdAt = ''2025-01-01T00:00:00.000Z''\<rparr>"

definition SAMPLE_AUTHOR :: Author where
  "SAMPLE_AUTHOR = \<lparr>au_id = ''au-1'', au_name = ''Ana'', au_bio = [], au_photoUrl = [],
     au_expertise = []\<rparr>"

definition NOON :: string where
  "NOON = ''2025-01-01T12:00:00.000Z''"

definition MIDNIGHT :: string where
  "MIDNIGHT = ''2025-01-02T00:00:00.000Z''"

definition HERO_IMAGE :: ImageSpec where
  "HERO_IMAGE = \<lparr>i_role = ''hero'', i_aspectRatio = ''16:9'', i_prompt = ''a cat'',
     i_alt = ''A cat'', i_title = ''Cat'', i_caption = ''The cat'', i_filename = ''cat.jpg'',
     i_url = ''data:image/jpeg;base64,AAAA'', i_generatedWith = None, i_resolution = None\<rparr>"

definition HERO_ARTICLE :: ArticleData where
  "HERO_ARTICLE = SAMPLE_ARTICLE\<lparr>a_imageSpecs := Some [HERO_IMAGE]\<rparr>"

definition WP_CONFIG :: WordPressConfig where
  "WP_CONFIG = \<lparr>endpoint = ''https://blog.example/'', username = ''ana'',
     applicationPassword = ''abcd 1234''\<rparr>"

definition SERVER_ERROR :: http_response where
  "SERVER_ERROR = \<lparr>resp_ok = False, resp_status = 500, resp_json = Inr None,
     resp_text = Inr ''upload failed''\<rparr>"

definition POST_CREATED :: http_response where
  "POST_CREATED = \<lparr>resp_ok = True, resp_status = 201,
     resp_json = Inr (Some \<lparr>wp_id = Some 7, wp_link = Some ''https://blog.example/?p=7'',
                             wp_message = None\<rparr>),
     resp_text = Inr []\<rparr>"

definition media_down :: "nat fetcher" where
  \<comment> \<open>a site whose media endpoint answers 500 and whose posts endpoint creates the post\<close>
  "media_down req w =
     (if req_url req = ''https://blog.example/wp-json/wp/v2/media'' then (Inr SERVER_ERROR, Suc w)
      else (Inr POST_CREATED, Suc w))"

definition atob_id :: "string \<Rightarrow> string option" where
  \<comment> \<open>stands for \<open>atob\<close> on well-formed input\<close>
  "atob_id x = Some x"

definition btoa_id :: "string \<Rightarrow> string" where
  \<comment> \<open>stands for \<open>btoa\<close>\<close>
  "btoa_id x = x"

definition HERO_BLOB :: blob where
  "HERO_BLOB = \<lparr>blob_bytes = ''AAAA'', blob_type = ''image/jpeg''\<rparr>"

definition WP_BASE :: string where
  "WP_BASE = ''https://blog.example/wp-json''"

definition WP_AUTH :: string where
  "WP_AUTH = ''Basic ana:abcd 1234''"

definition http0 :: "nat http" where
  "http0 = \<lparr>h_world = 0, h_requests = []\<rparr>"

section \<open>The article wizard: handleGenerate\<close>

text \<open>
  \<open>handleGenerate\<close> of ArticleWizard.tsx runs the five stages of geminiService one after
  the other, assembles the article and saves it. The stages are the functions that the
  component imports; here they are the fields of a record, each a function of the world
  \<open>'w\<close> that returns its result or the error it throws, so that what is proved of the
  wizard holds for every version of the service.

  The state of the wizard holds the React state that \<open>handleGenerate\<close> reads and sets
  (\<open>article\<close>, \<open>authors\<close>, \<open>error\<close>, \<open>isGenerating\<close>, \<open>currentStep\<close>, \<open>progress\<close>), the
  callbacks it hands to \<open>setTimeout\<close> as pairs of a delay and the step they set, the
  list of articles in \<open>localStorage\<close>, and \<open>saved\<close>, the arguments of the calls of
  \<open>saveArticle\<close> in order. \<open>handleGenerate\<close> returns the error that escapes it, if one
  does, and the state it leaves.

  \<open>saveArticle\<close> is the one of storageService that writes the list with one
  \<open>localStorage.setItem\<close>; \<open>setItem\<close> tells whether the browser accepts the list, and the
  write throws when it does not. \<open>spread old new\<close> is \<open>{...old, ...new}\<close>: a property that
  \<open>new\<close> does not have keeps the value of \<open>old\<close>.

  The \<open>catch\<close> block looks for a JSON object inside the message of the error. What
  \<open>JSON.parse\<close> returns is a \<open>js_value\<close> (\<open>None\<close> when it throws); an object lists each of
  its properties once. \<open>getProperty v k\<close> is \<open>v.k\<close> for the two names read here, \<open>error\<close> and
  \<open>message\<close>, which only an object can have: \<open>None\<close> is the \<open>TypeError\<close> of a read on \<open>null\<close>
  or \<open>undefined\<close>. The block takes \<open>errorObj.error.message\<close> as the message whenever it
  is truthy, whatever its type, so the \<open>error\<close> state holds a \<open>js_value\<close>.
  \<open>value_includes v p\<close> is \<open>v.includes(p)\<close>: a string searches for the substring, an array
  for the element, and every other value has no such method, which is \<open>None\<close>, the
  \<open>TypeError\<close> that the call throws. Of a number only whether it is zero is read.
  \<open>String.prototype.substring\<close> swaps its arguments when the first is the larger.
  \<open>replaceFirst s p r\<close> is \<open>s.replace(p, r)\<close> for a string pattern, with the patterns
  \<open>$$\<close>, \<open>$&\<close>, \<open>$`\<close> and \<open>$'\<close> of the replacement expanded.
\<close>

fun expandReplacement :: "string \<Rightarrow> string \<Rightarrow> string \<Rightarrow> string \<Rightarrow> string" where
  "expandReplacement [] m before after = []"
| "expandReplacement [c] m before after = [c]"
| "expandReplacement (c # d # r) m before after =
     (if c = CHR ''$'' \<and> d = CHR ''$'' then CHR ''$'' # expandReplacement r m before after
      else if c = CHR ''$'' \<and> d = CHR ''&'' then m @ expandReplacement r m before after
      else if c = CHR ''$'' \<and> d = CHR 0x60 then before @ expandReplacement r m before after
      else if c = CHR ''$'' \<and> d = CHR 0x27 then after @ expandReplacement r m before after
      else c # expandReplacement (d # r) m before after)"

definition replaceFirst :: "string \<Rightarrow> string \<Rightarrow> string \<Rightarrow> string" where
  "replaceFirst s p r =
     (case indexOf s p of
        None \<Rightarrow> s
      | Some i \<Rightarrow>
          take i s @ expandReplacement r p (take i s) (drop (i + length p) s)
            @ drop (i + length p) s)"

record ArticleStructure =
  st_title :: string
  st_subtitle :: string
  st_lead :: string

record MediaStrategy =
  md_videoData :: VideoData
  md_imageSpecs :: "ImageSpec list"

record 'w geminiService =
  gs_analyzeSerp :: "string \<Rightarrow> string \<Rightarrow> 'w \<Rightarrow> (js_error + SerpAnalysisResult) \<times> 'w"
  gs_generateArticleStructure ::
    "string \<Rightarrow> string \<Rightarrow> SerpAnalysisResult \<Rightarrow> string \<Rightarrow> 'w \<Rightarrow> (js_error + ArticleStructure) \<times> 'w"
  gs_generateMainContent ::
    "string \<Rightarrow> string \<Rightarrow> ArticleStructure \<Rightarrow> SerpAnalysisResult \<Rightarrow> string \<Rightarrow> AdvancedOptions
       \<Rightarrow> string \<Rightarrow> string option \<Rightarrow> string option \<Rightarrow> 'w \<Rightarrow> (js_error + string) \<times> 'w"
  gs_generateMediaStrategy ::
    "string \<Rightarrow> string \<Rightarrow> string \<Rightarrow> 'w \<Rightarrow> (js_error + MediaStrategy) \<times> 'w"
  gs_generateMetadata ::
    "string \<Rightarrow> string \<Rightarrow> string \<Rightarrow> string \<Rightarrow> 'w \<Rightarrow> (js_error + SeoData) \<times> 'w"

datatype js_value =
  VUndefined
  | VNull
  | VBool bool
  | VNumber int
  | VString string
  | VArray "js_value list"
  | VObject "(string \<times> js_value) list"

fun truthy :: "js_value \<Rightarrow> bool" where
  "truthy VUndefined = False"
| "truthy VNull = False"
| "truthy (VBool b) = b"
| "truthy (VNumber n) = (n \<noteq> 0)"
| "truthy (VString s) = (s \<noteq> [])"
| "truthy (VArray xs) = True"
| "truthy (VObject ps) = True"

fun getProperty :: "js_value \<Rightarrow> string \<Rightarrow> js_value option" where
  "getProperty VUndefined k = None"
| "getProperty VNull k = None"
| "getProperty (VObject ps) k = Some (case map_of ps k of None \<Rightarrow> VUndefined | Some v \<Rightarrow> v)"
| "getProperty v k = Some VUndefined"

fun value_includes :: "js_value \<Rightarrow> string \<Rightarrow> bool option" where
  "value_includes (VString s) p = Some (js_includes s p)"
| "value_includes (VArray xs) p = Some (VString p \<in> set xs)"
| "value_includes v p = None"

definition NOT_A_FUNCTION :: js_error where
  "NOT_A_FUNCTION = new_Error ''errorMessage.includes is not a function''"

record 'w wizard =
  wz_world :: 'w
  wz_article :: ArticleData
  wz_authors :: "Author list"
  wz_error :: "js_value option"
  isGenerating :: bool
  currentStep :: nat
  progress :: "string \<times> nat"
  timeouts :: "(nat \<times> nat) list"
  localStorage :: "ArticleData list"
  saved :: "ArticleData list"

definition findIndex :: "('a \<Rightarrow> bool) \<Rightarrow> 'a list \<Rightarrow> nat option" where
  "findIndex P xs = (if \<exists>x \<in> set xs. P x then Some (length (takeWhile (\<lambda>x. \<not> P x) xs)) else None)"

definition keep :: "'a option \<Rightarrow> 'a option \<Rightarrow> 'a option" where
  "keep old new = (case new of None \<Rightarrow> old | Some v \<Rightarrow> Some v)"

definition spread :: "ArticleData \<Rightarrow> ArticleData \<Rightarrow> ArticleData" where
  "spread old new =
     new\<lparr>a_siteUrl := keep (a_siteUrl old) (a_siteUrl new),
         a_authorId := keep (a_authorId old) (a_authorId new),
         a_title := keep (a_title old) (a_title new),
         a_subtitle := keep (a_subtitle old) (a_subtitle new),
         a_htmlContent := keep (a_htmlContent old) (a_htmlContent new),
         a_metaDescription := keep (a_metaDescription old) (a_metaDescription new),
         a_metaKeywords := keep (a_metaKeywords old) (a_metaKeywords new),
         a_seoData := keep (a_seoData old) (a_seoData new),
         a_schemaJsonLd := keep (a_schemaJsonLd old) (a_schemaJsonLd new),
         a_wordpressPostJson := keep (a_wordpressPostJson old) (a_wordpressPostJson new),
         a_videoData := keep (a_videoData old) (a_videoData new),
         a_imageSpecs := keep (a_imageSpecs old) (a_imageSpecs new),
         a_imageSettings := keep (a_imageSettings old) (a_imageSettings new),
         a_serpAnalysis := keep (a_serpAnalysis old) (a_serpAnalysis new),
         a_seoScore := keep (a_seoScore old) (a_seoScore new),
         a_eeatScore := keep (a_eeatScore old) (a_eeatScore new)\<rparr>"

definition QUOTA_EXCEEDED :: js_error where
  "QUOTA_EXCEEDED = \<lparr>err_status = None, err_code = Some 22,
     err_message = Some ''The quota has been exceeded.''\<rparr>"

definition saveArticle ::
  "(ArticleData list \<Rightarrow> bool) \<Rightarrow> ArticleData \<Rightarrow> ArticleData list \<Rightarrow> js_error + ArticleData list" where
  "saveArticle setItem article articles =
     (let updated = (case findIndex (\<lambda>a. a_id a = a_id article) articles of
                       Some index \<Rightarrow> articles[index := spread (articles ! index) article]
                     | None \<Rightarrow> article # articles)
      in if setItem updated then Inr updated else Inl QUOTA_EXCEEDED)"

definition FILL_IN_MSG :: string where
  "FILL_IN_MSG = ''Por favor, preencha o t'' @ [CHR 0xF3] @ ''pico e a palavra-chave.''"

definition QUOTA_MSG :: string where
  "QUOTA_MSG =
     ''Limite de cota excedido (Erro 429). O sistema tentou recuperar ''
     @ ''mas a demanda est'' @ [CHR 0xE1]
     @ '' alta. Por favor, aguarde alguns instantes ou verifique sua '' @ ''API Key.''"

definition embeddedMessage :: "(string \<Rightarrow> js_value option) \<Rightarrow> string \<Rightarrow> js_value option" where
  "embeddedMessage JSON_parse errorMessage =
     (case (indexOf errorMessage ''{'', lastIndexOf errorMessage ''}'') of
        (Some jsonStart, Some jsonEnd) \<Rightarrow>
          (case JSON_parse (substring errorMessage (min jsonStart (jsonEnd + 1))
                              (max jsonStart (jsonEnd + 1))) of
             None \<Rightarrow> None
           | Some errorObj \<Rightarrow>
               (case getProperty errorObj ''error'' of
                  None \<Rightarrow> None
                | Some err \<Rightarrow>
                    if truthy err
                    then (case getProperty err ''message'' of
                            None \<Rightarrow> None
                          | Some m \<Rightarrow> if truthy m then Some m else None)
                    else None))
      | _ \<Rightarrow> None)"

definition errorMessage :: "(string \<Rightarrow> js_value option) \<Rightarrow> js_error \<Rightarrow> js_error + js_value" where
  "errorMessage JSON_parse e =
     (let original = orElse (err_message e) ''Erro desconhecido'';
          msg = (case embeddedMessage JSON_parse original of
                   Some m \<Rightarrow> m
                 | None \<Rightarrow> VString original)
      in case value_includes msg ''429'' of
           None \<Rightarrow> Inl NOT_A_FUNCTION
         | Some a \<Rightarrow>
             if a then Inr (VString QUOTA_MSG)
             else (case value_includes msg ''quota'' of
                     None \<Rightarrow> Inl NOT_A_FUNCTION
                   | Some b \<Rightarrow>
                       if b then Inr (VString QUOTA_MSG)
                       else (case value_includes msg ''RESOURCE_EXHAUSTED'' of
                               None \<Rightarrow> Inl NOT_A_FUNCTION
                             | Some c \<Rightarrow> if c then Inr (VString QUOTA_MSG) else Inr msg)))"

definition wizardVideoSection :: "VideoData \<Rightarrow> string" where
  "wizardVideoSection v =
     (''<div class='' @ [CHR 0x22] @ ''video-container my-8'' @ [CHR 0x22] @ ''>''
        @ [CHR 0x0A] @ ''<h3 class='' @ [CHR 0x22]
        @ ''text-lg font-bold mb-2 flex items-center gap-2'' @ [CHR 0x22] @ ''>Assista: '')
     @ v_title v
     @ (''</h3>'' @ [CHR 0x0A] @ ''<div class='' @ [CHR 0x22]
        @ ''aspect-w-16 aspect-h-9 bg-slate-100 rounded-xl overflow-hidden '' @ ''shadow-sm''
        @ [CHR 0x22] @ ''>'' @ [CHR 0x0A])
     @ embedHtml v
     @ ([CHR 0x0A] @ ''</div>'' @ [CHR 0x0A])
     @ (if orElse (v_caption v) [] \<noteq> []
        then (''<p class='' @ [CHR 0x22] @ ''text-sm text-slate-500 mt-2 italic''
                @ [CHR 0x22] @ ''>'') @ orElse (v_caption v) [] @ ''</p>''
        else [])
     @ ([CHR 0x0A] @ ''</div>'')"

definition combineHtml :: "string \<Rightarrow> VideoData \<Rightarrow> string" where
  "combineHtml htmlBody v =
     trim (if embedHtml v = [] then htmlBody
           else (case indexOf htmlBody ''</p>'' of
                   Some leadCloseIndex \<Rightarrow>
                     take (leadCloseIndex + 4) htmlBody @ [CHR 0x0A] @ wizardVideoSection v
                       @ drop (leadCloseIndex + 4) htmlBody
                 | None \<Rightarrow>
                     replaceFirst htmlBody ''<article>''
                       (''<article>'' @ [CHR 0x0A] @ wizardVideoSection v)))"

definition completedArticle ::
  "string \<Rightarrow> string \<Rightarrow> ArticleData \<Rightarrow> Author option \<Rightarrow> SerpAnalysisResult \<Rightarrow> ArticleStructure
     \<Rightarrow> string \<Rightarrow> MediaStrategy \<Rightarrow> SeoData \<Rightarrow> ArticleData" where
  "completedArticle now now' article currentAuthor serpData structure htmlBody mediaData seoData =
     (let fullHtml = combineHtml htmlBody (md_videoData mediaData);
          tempArticle = article\<lparr>a_title := Some (st_title structure),
                                a_htmlContent := Some fullHtml,
                                a_seoData := Some seoData,
                                a_videoData := Some (md_videoData mediaData),
                                a_imageSpecs := Some (md_imageSpecs mediaData)\<rparr>;
          techSeo = generateTechnicalSeo now tempArticle currentAuthor
      in tempArticle\<lparr>a_subtitle := Some (st_subtitle structure),
                      a_metaDescription := Some (metaDescription seoData),
                      a_metaKeywords := Some (tags seoData),
                      a_serpAnalysis := Some serpData,
                      a_schemaJsonLd := Some (schemaJsonLd techSeo),
                      a_wordpressPostJson := Some (wordpressPostJson techSeo),
                      a_status := Completed,
                      a_seoScore := Some 95,
                      a_eeatScore := Some 88,
                      a_createdAt := (if a_createdAt article \<noteq> [] then a_createdAt article
                                      else now')\<rparr>)"

definition handleGenerate_try ::
  "'w geminiService \<Rightarrow> (ArticleData list \<Rightarrow> bool) \<Rightarrow> string \<Rightarrow> string \<Rightarrow> 'w wizard
     \<Rightarrow> js_error option \<times> 'w wizard" where
  "handleGenerate_try svc setItem now now' s =
     (let article = wz_article s;
          currentAuthor = find (\<lambda>a. Some (au_id a) = a_authorId article) (wz_authors s);
          s = s\<lparr>progress := (''Analisando SERP ('' @ a_language article @ '')...'', 10)\<rparr>
      in case gs_analyzeSerp svc (a_targetKeyword article) (a_language article) (wz_world s) of
           (Inl e, w) \<Rightarrow> (Some e, s\<lparr>wz_world := w\<rparr>)
         | (Inr serpData, w) \<Rightarrow>
     (let s = s\<lparr>wz_world := w, progress := (''Criando estrutura otimizada (E-E-A-T)...'', 25)\<rparr>
      in case gs_generateArticleStructure svc (a_topic article) (a_targetKeyword article)
                serpData (a_language article) (wz_world s) of
           (Inl e, w) \<Rightarrow> (Some e, s\<lparr>wz_world := w\<rparr>)
         | (Inr structure, w) \<Rightarrow>
     (let s = s\<lparr>wz_world := w,
                 progress := (''Escrevendo conte'' @ [CHR 0xFA]
                                @ ''do e criando Links Internos...'', 50)\<rparr>
      in case gs_generateMainContent svc (a_topic article) (a_targetKeyword article) structure
                serpData (a_wordCount article) (a_advancedOptions article) (a_language article)
                (a_siteUrl article) (map_option au_name currentAuthor) (wz_world s) of
           (Inl e, w) \<Rightarrow> (Some e, s\<lparr>wz_world := w\<rparr>)
         | (Inr htmlBody, w) \<Rightarrow>
     (let s = s\<lparr>wz_world := w,
                 progress := (''Planejando M'' @ [CHR 0xED] @ ''dia (V'' @ [CHR 0xED]
                                @ ''deo e Imagens SEO)...'', 75)\<rparr>
      in case gs_generateMediaStrategy svc (st_title structure) (a_targetKeyword article)
                (a_language article) (wz_world s) of
           (Inl e, w) \<Rightarrow> (Some e, s\<lparr>wz_world := w\<rparr>)
         | (Inr mediaData, w) \<Rightarrow>
     (let s = s\<lparr>wz_world := w, progress := (''Gerando metadados e schema JSON-LD...'', 90)\<rparr>
      in case gs_generateMetadata svc (a_topic article) (a_targetKeyword article) htmlBody
                (a_language article) (wz_world s) of
           (Inl e, w) \<Rightarrow> (Some e, s\<lparr>wz_world := w\<rparr>)
         | (Inr seoData, w) \<Rightarrow>
     (let completed = completedArticle now now' article currentAuthor serpData structure
                        htmlBody mediaData seoData;
          s = s\<lparr>wz_world := w, wz_article := completed, saved := saved s @ [completed]\<rparr>
      in case saveArticle setItem completed (localStorage s) of
           Inl e \<Rightarrow> (Some e, s)
         | Inr articles \<Rightarrow>
             (None, s\<lparr>localStorage := articles,
                      progress := (''Conclu'' @ [CHR 0xED] @ ''do!'', 100),
                      timeouts := timeouts s @ [(1000, 3)]\<rparr>)))))))"

definition handleGenerate ::
  "'w geminiService \<Rightarrow> (string \<Rightarrow> js_value option) \<Rightarrow> (ArticleData list \<Rightarrow> bool) \<Rightarrow> string
     \<Rightarrow> string \<Rightarrow> 'w wizard \<Rightarrow> js_error option \<times> 'w wizard" where
  "handleGenerate svc JSON_parse setItem now now' s =
     (if a_topic (wz_article s) = [] \<or> a_targetKeyword (wz_article s) = []
      then (None, s\<lparr>wz_error := Some (VString FILL_IN_MSG)\<rparr>)
      else (case handleGenerate_try svc setItem now now'
                   (s\<lparr>isGenerating := True, wz_error := None, currentStep := 2\<rparr>) of
              (None, s') \<Rightarrow> (None, s'\<lparr>isGenerating := False\<rparr>)
            | (Some e, s') \<Rightarrow>
                (case errorMessage JSON_parse e of
                   Inr msg \<Rightarrow>
                     (None, s'\<lparr>wz_error := Some msg, currentStep := 1, isGenerating := False\<rparr>)
                 | Inl typeError \<Rightarrow> (Some typeError, s'\<lparr>isGenerating := False\<rparr>))))"

text \<open>A wizard with a draft article, services that succeed, services whose structure
  stage throws, and services whose body stage throws an error with an embedded object
  whose message is a number.\<close>

definition SAMPLE_SERP :: SerpAnalysisResult where
  "SAMPLE_SERP = \<lparr>competitorTitles = [], contentGaps = [], strategy = ''Be concrete'',
     questions = [], serp_lsiKeywords = []\<rparr>"

definition SAMPLE_STRUCTURE :: ArticleStructure where
  "SAMPLE_STRUCTURE = \<lparr>st_title = ''Solar energy at home'', st_subtitle = ''A guide'',
     st_lead = ''Lead''\<rparr>"

definition SAMPLE_MEDIA :: MediaStrategy where
  "SAMPLE_MEDIA = \<lparr>md_videoData = SAMPLE_VIDEO, md_imageSpecs = []\<rparr>"

definition stages_ok :: "string list geminiService" where
  "stages_ok =
     \<lparr>gs_analyzeSerp = (\<lambda>keyword language w. (Inr SAMPLE_SERP, w @ [''analyzeSerp''])),
      gs_generateArticleStructure =
        (\<lambda>topic keyword serpData language w.
           (Inr SAMPLE_STRUCTURE, w @ [''generateArticleStructure''])),
      gs_generateMainContent =
        (\<lambda>topic keyword structure serpData wordCount options language siteUrl authorName w.
           (Inr SAMPLE_HTML, w @ [''generateMainContent''])),
      gs_generateMediaStrategy =
        (\<lambda>title keyword language w. (Inr SAMPLE_MEDIA, w @ [''generateMediaStrategy''])),
      gs_generateMetadata =
        (\<lambda>topic keyword htmlContent language w. (Inr SAMPLE_SEO, w @ [''generateMetadata'']))\<rparr>"

definition structure_down :: "string list geminiService" where
  "structure_down =
     stages_ok\<lparr>gs_generateArticleStructure :=
       (\<lambda>topic keyword serpData language w.
          (Inl (new_Error INVALID_JSON_MSG), w @ [''generateArticleStructure'']))\<rparr>"

definition DRAFT_ARTICLE :: ArticleData where
  "DRAFT_ARTICLE = \<lparr>a_id = ''id-2'', a_topic = ''Solar energy'', a_targetKeyword = ''solar'',
     a_language = ''English'', a_wordCount = ''800'', a_siteUrl = Some [], a_authorId = Some [],
     a_advancedOptions = SAMPLE_OPTIONS, a_title = None, a_subtitle = None,
     a_htmlContent = None, a_metaDescription = None, a_metaKeywords = None,
     a_seoData = None, a_schemaJsonLd = None, a_wordpressPostJson = None,
     a_videoData = None, a_imageSpecs = None, a_imageSettings = None, a_serpAnalysis = None,
     a_seoScore = None, a_eeatScore = None, a_status = Draft,
     a_createdAt = ''2025-01-01T00:00:00.000Z''\<rparr>"

definition wizard0 :: "string list wizard" where
  "wizard0 = \<lparr>wz_world = [], wz_article = DRAFT_ARTICLE, wz_authors = [SAMPLE_AUTHOR],
     wz_error = None, isGenerating = False, currentStep = 1, progress = ([], 0),
     timeouts = [], localStorage = [], saved = []\<rparr>"

definition no_embedded_json :: "string \<Rightarrow> js_value option" where
  "no_embedded_json jsonStr = None"

definition storage_has_room :: "ArticleData list \<Rightarrow> bool" where
  "storage_has_room articles = True"

definition STATUS_500_MSG :: string where
  "STATUS_500_MSG =
     ''fail {'' @ [CHR 0x22] @ ''error'' @ [CHR 0x22] @ '':{'' @ [CHR 0x22] @ ''message''
     @ [CHR 0x22] @ '':500}}''"

definition parse_status_500 :: "string \<Rightarrow> js_value option" where
  "parse_status_500 jsonStr =
     (if jsonStr = ''{'' @ [CHR 0x22] @ ''error'' @ [CHR 0x22] @ '':{'' @ [CHR 0x22] @ ''message''
                    @ [CHR 0x22] @ '':500}}''
      then Some (VObject [(''error'', VObject [(''message'', VNumber 500)])])
      else None)"

definition body_down :: "string list geminiService" where
  "body_down =
     stages_ok\<lparr>gs_generateMainContent :=
       (\<lambda>topic keyword structure serpData wordCount options language siteUrl authorName w.
          (Inl (new_Error STATUS_500_MSG), w @ [''generateMainContent'']))\<rparr>"

(*MODEL-END*)

section \<open>Properties of the string functions\<close>









section \<open>Properties of the response normalizer\<close>













section \<open>Properties of retryWithBackoff and generateSmartContent\<close>

lemma retryWithBackoff_Inr:
  "fn s = (Inr v, s1) \<Longrightarrow> retryWithBackoff fn r d f s = (Inr v, s1)"
  by (subst retryWithBackoff.simps) simp

lemma retryWithBackoff_retry:
  "fn s = (Inl e, s1) \<Longrightarrow> r > 0 \<Longrightarrow> isRetryable e \<Longrightarrow>
     retryWithBackoff fn r d f s = retryWithBackoff fn (r - 1) (d * f) f (sleep d s1)"
  by (subst retryWithBackoff.simps) simp

lemma retryWithBackoff_throw:
  "fn s = (Inl e, s1) \<Longrightarrow> \<not> (r > 0 \<and> isRetryable e) \<Longrightarrow>
     retryWithBackoff fn r d f s = (Inl e, s1)"
  by (subst retryWithBackoff.simps) auto

lemma retryWithBackoff_cb_Inr:
  "fn s = (Inr v, s1) \<Longrightarrow> retryWithBackoff_cb fn r d f img s = (Inr v, s1)"
  by (subst retryWithBackoff_cb.simps) simp

lemma retryWithBackoff_cb_breaker:
  "fn s = (Inl e, s1) \<Longrightarrow> isQuotaError e \<Longrightarrow> img \<Longrightarrow>
     retryWithBackoff_cb fn r d f img s
       = (Inl (new_Error IMAGE_QUOTA_MSG), s1\<lparr>GLOBAL_IMAGE_QUOTA_EXHAUSTED := True\<rparr>)"
  by (subst retryWithBackoff_cb.simps) simp

lemma retryWithBackoff_cb_retry:
  "fn s = (Inl e, s1) \<Longrightarrow> \<not> (isQuotaError e \<and> img) \<Longrightarrow> r > 0 \<Longrightarrow>
   isQuotaError e \<or> isNetworkError e \<Longrightarrow>
     retryWithBackoff_cb fn r d f img s
       = retryWithBackoff_cb fn (r - 1) (d * f) f img
           (sleep (if isQuotaError e then max d 30000 else d) s1)"
  by (subst retryWithBackoff_cb.simps) auto

lemma retryWithBackoff_cb_throw:
  "fn s = (Inl e, s1) \<Longrightarrow> \<not> (isQuotaError e \<and> img) \<Longrightarrow>
   \<not> (r > 0 \<and> (isQuotaError e \<or> isNetworkError e)) \<Longrightarrow>
     retryWithBackoff_cb fn r d f img s = (Inl e, s1)"
  by (subst retryWithBackoff_cb.simps) auto

lemma retryWithBackoff_error_from_fn:
  "retryWithBackoff fn r d f s = (Inl e, s') \<Longrightarrow> \<exists>s0. fn s0 = (Inl e, s')"
proof (induction fn r d f s rule: retryWithBackoff.induct)
  case (1 fn retries delay factor s)
  obtain res s1 where fs: "fn s = (res, s1)" by (cases "fn s")
  show ?case
  proof (cases res)
    case (Inr v)
    with fs "1.prems" show ?thesis by (simp add: retryWithBackoff_Inr)
  next
    case (Inl err)
    show ?thesis
    proof (cases "retries > 0 \<and> isRetryable err")
      case True
      with fs Inl "1.prems"
      have "retryWithBackoff fn (retries - 1) (delay * factor) factor (sleep delay s1) = (Inl e, s')"
        by (simp add: retryWithBackoff_retry)
      from "1.IH" [OF fs [symmetric] Inl True this] show ?thesis .
    next
      case False
      with fs Inl "1.prems" have "e = err \<and> s' = s1"
        using retryWithBackoff_throw [of fn s err s1 retries delay factor] by auto
      with fs Inl show ?thesis by auto
    qed
  qed
qed

lemma requests_sleep: "requests (sleep d s) = requests s"
  by (simp add: sleep_def)

lemma retryWithBackoff_requests:
  assumes fn: "\<And>s. requests (snd (fn s)) = requests s @ [m]"
  shows "\<exists>n. 1 \<le> n \<and> n \<le> nat r + 1
           \<and> requests (snd (retryWithBackoff fn r d f s)) = requests s @ replicate n m"
  using fn
proof (induction fn r d f s rule: retryWithBackoff.induct)
  case (1 fn retries delay factor s)
  obtain res s1 where fs: "fn s = (res, s1)" by (cases "fn s")
  have rq: "requests s1 = requests s @ [m]" using "1.prems" [of s] fs by simp
  show ?case
  proof (cases res)
    case (Inr v)
    with fs rq have "requests (snd (retryWithBackoff fn retries delay factor s)) = requests s @ replicate 1 m"
      by (simp add: retryWithBackoff_Inr)
    then show ?thesis by (intro exI [of _ 1]) simp
  next
    case (Inl err)
    show ?thesis
    proof (cases "retries > 0 \<and> isRetryable err")
      case True
      from "1.IH" [OF fs [symmetric] Inl True "1.prems"]
      obtain n where n: "1 \<le> n" "n \<le> nat (retries - 1) + 1"
        "requests (snd (retryWithBackoff fn (retries - 1) (delay * factor) factor (sleep delay s1)))
           = requests (sleep delay s1) @ replicate n m"
        by blast
      have "requests (snd (retryWithBackoff fn retries delay factor s))
              = requests s @ replicate (Suc n) m"
        using fs Inl True n(3) rq
        by (simp add: retryWithBackoff_retry requests_sleep replicate_app_Cons_same)
      moreover have "Suc n \<le> nat retries + 1" using n(2) True by arith
      ultimately show ?thesis by (intro exI [of _ "Suc n"]) simp
    next
      case False
      with fs Inl rq have "requests (snd (retryWithBackoff fn retries delay factor s)) = requests s @ replicate 1 m"
        using retryWithBackoff_throw [of fn s err s1 retries delay factor] by simp
      then show ?thesis by (intro exI [of _ 1]) simp
    qed
  qed
qed

lemma retryWithBackoff_cb_requests:
  assumes fn: "\<And>s. requests (snd (fn s)) = requests s @ [m]"
  shows "\<exists>n. 1 \<le> n \<and> n \<le> nat r + 1
           \<and> requests (snd (retryWithBackoff_cb fn r d f img s)) = requests s @ replicate n m"
  using fn
proof (induction fn r d f img s rule: retryWithBackoff_cb.induct)
  case (1 fn retries delay factor img s)
  obtain res s1 where fs: "fn s = (res, s1)" by (cases "fn s")
  have rq: "requests s1 = requests s @ [m]" using "1.prems" [of s] fs by simp
  show ?case
  proof (cases res)
    case (Inr v)
    with fs rq have "requests (snd (retryWithBackoff_cb fn retries delay factor img s)) = requests s @ replicate 1 m"
      by (simp add: retryWithBackoff_cb_Inr)
    then show ?thesis by (intro exI [of _ 1]) simp
  next
    case (Inl err)
    show ?thesis
    proof (cases "isQuotaError err \<and> img")
      case True
      with fs Inl rq have "requests (snd (retryWithBackoff_cb fn retries delay factor img s)) = requests s @ replicate 1 m"
        by (simp add: retryWithBackoff_cb_breaker)
      then show ?thesis by (intro exI [of _ 1]) simp
    next
      case nq: False
      show ?thesis
      proof (cases "retries > 0 \<and> (isQuotaError err \<or> isNetworkError err)")
        case True
        from "1.IH" [OF fs [symmetric] Inl nq True refl "1.prems"]
        obtain n where n: "1 \<le> n" "n \<le> nat (retries - 1) + 1"
          "requests (snd (retryWithBackoff_cb fn (retries - 1) (delay * factor) factor img
             (sleep (if isQuotaError err then max delay 30000 else delay) s1)))
           = requests (sleep (if isQuotaError err then max delay 30000 else delay) s1) @ replicate n m"
          by blast
        have "requests (snd (retryWithBackoff_cb fn retries delay factor img s))
                = requests s @ replicate (Suc n) m"
          using fs Inl True nq n(3) rq retryWithBackoff_cb_retry [of fn s err s1 img retries delay factor]
          by (simp add: requests_sleep replicate_app_Cons_same)
        moreover have "Suc n \<le> nat retries + 1" using n(2) True by arith
        ultimately show ?thesis by (intro exI [of _ "Suc n"]) simp
      next
        case False
        with fs Inl rq nq have "requests (snd (retryWithBackoff_cb fn retries delay factor img s)) = requests s @ replicate 1 m"
          using retryWithBackoff_cb_throw [of fn s err s1 img retries delay factor] by simp
        then show ?thesis by (intro exI [of _ 1]) simp
      qed
    qed
  qed
qed

lemma runRequest_requests:
  "requests (snd (runRequest api k c m cfg s)) = requests s @ [m]"
  by (simp add: runRequest_def generateContent_def split: prod.splits)

lemma runRequest_cb_requests:
  "requests (snd (runRequest_cb api k c m cfg s)) = requests s @ [m]"
  by (auto simp: runRequest_cb_def generateContent_def split: prod.splits sum.splits)

text \<open>
  Claim C6, as amended. \<open>retryWithBackoff\<close> of services/geminiService.ts does what the
  claim says: a success is returned; a failure classified retryable with retries left is
  followed by a sleep of \<open>delay\<close> and a call with \<open>retries - 1\<close> and \<open>delay * factor\<close>;
  every other failure is thrown unchanged, so an error that comes out is one that the
  operation threw. The variant of unnamed/part_006 differs in two places: a failure
  classified as quota of an image request sets the circuit breaker and throws a new error
  without retrying, and the sleep before a retry after a quota failure is
  \<open>max delay 30000\<close>.
\<close>

theorem retryWithBackoff_behaviour:
  "(fn s = (Inr v, s1) \<longrightarrow>
      retryWithBackoff fn r d f s = (Inr v, s1)
      \<and> retryWithBackoff_cb fn r d f img s = (Inr v, s1))
   \<and> (fn s = (Inl e, s1) \<and> r > 0 \<and> isRetryable e \<longrightarrow>
      retryWithBackoff fn r d f s
        = retryWithBackoff fn (r - 1) (d * f) f (sleep d s1))
   \<and> (fn s = (Inl e, s1) \<and> \<not> (r > 0 \<and> isRetryable e) \<longrightarrow>
      retryWithBackoff fn r d f s = (Inl e, s1))
   \<and> (retryWithBackoff fn r d f s = (Inl e', s') \<longrightarrow> (\<exists>s0. fn s0 = (Inl e', s')))
   \<and> (fn s = (Inl e, s1) \<and> isQuotaError e \<and> img \<longrightarrow>
      retryWithBackoff_cb fn r d f img s
        = (Inl (new_Error IMAGE_QUOTA_MSG), s1\<lparr>GLOBAL_IMAGE_QUOTA_EXHAUSTED := True\<rparr>))
   \<and> (fn s = (Inl e, s1) \<and> \<not> (isQuotaError e \<and> img) \<and> r > 0
        \<and> (isQuotaError e \<or> isNetworkError e) \<longrightarrow>
      retryWithBackoff_cb fn r d f img s
        = retryWithBackoff_cb fn (r - 1) (d * f) f img
            (sleep (if isQuotaError e then max d 30000 else d) s1))
   \<and> (fn s = (Inl e, s1) \<and> \<not> (isQuotaError e \<and> img)
        \<and> \<not> (r > 0 \<and> (isQuotaError e \<or> isNetworkError e)) \<longrightarrow>
      retryWithBackoff_cb fn r d f img s = (Inl e, s1))"
  using retryWithBackoff_Inr [of fn s v s1 r d f]
    retryWithBackoff_cb_Inr [of fn s v s1 r d f img]
    retryWithBackoff_retry [of fn s e s1 r d f]
    retryWithBackoff_throw [of fn s e s1 r d f]
    retryWithBackoff_error_from_fn [of fn r d f s e' s']
    retryWithBackoff_cb_breaker [of fn s e s1 img r d f]
    retryWithBackoff_cb_retry [of fn s e s1 img r d f]
    retryWithBackoff_cb_throw [of fn s e s1 img r d f]
  by blast

lemma E429_classes: "isRetryable E429" "isQuotaError E429" "isRecoverableError E429" "isRecoverableError_cb E429"
  by (simp_all add: isRetryable_def isQuotaError_def isRecoverableError_def isRecoverableError_cb_def E429_def)

theorem retryWithBackoff_behaviour_witness:
  "retryWithBackoff always_quota 1 4000 2 session0
     = (Inl E429, \<lparr>world = 2, requests = [], slept = [4000], GLOBAL_IMAGE_QUOTA_EXHAUSTED = False\<rparr>)
   \<and> retryWithBackoff_cb always_quota 1 4000 2 False session0
     = (Inl E429, \<lparr>world = 2, requests = [], slept = [30000], GLOBAL_IMAGE_QUOTA_EXHAUSTED = False\<rparr>)
   \<and> retryWithBackoff_cb always_quota 1 4000 2 True session0
     = (Inl (new_Error IMAGE_QUOTA_MSG),
        \<lparr>world = 1, requests = [], slept = [], GLOBAL_IMAGE_QUOTA_EXHAUSTED = True\<rparr>)"
proof -
  let ?s1 = "\<lparr>world = 1, requests = [], slept = [], GLOBAL_IMAGE_QUOTA_EXHAUSTED = False\<rparr> :: nat session"
  let ?s2 = "\<lparr>world = 2, requests = [], slept = [4000], GLOBAL_IMAGE_QUOTA_EXHAUSTED = False\<rparr> :: nat session"
  let ?s2' = "\<lparr>world = 2, requests = [], slept = [30000], GLOBAL_IMAGE_QUOTA_EXHAUSTED = False\<rparr> :: nat session"
  have f1: "always_quota session0 = (Inl E429, ?s1)"
    by (simp add: always_quota_def session0_def)
  have f2: "always_quota (sleep 4000 ?s1) = (Inl E429, ?s2)"
    by (simp add: always_quota_def sleep_def)
  have f2': "always_quota (sleep 30000 ?s1) = (Inl E429, ?s2')"
    by (simp add: always_quota_def sleep_def)
  note a = retryWithBackoff_behaviour [of always_quota session0 _ ?s1 1 4000 2 False E429]
  note b = retryWithBackoff_behaviour [of always_quota "sleep 4000 ?s1" _ ?s2 0 8000 2 False E429]
  note b' = retryWithBackoff_behaviour [of always_quota "sleep 30000 ?s1" _ ?s2' 0 8000 2 False E429]
  note c = retryWithBackoff_behaviour [of always_quota session0 _ ?s1 1 4000 2 True E429]
  have "retryWithBackoff always_quota 1 4000 2 session0 = (Inl E429, ?s2)"
    using a b f1 f2 E429_classes by simp
  moreover have "retryWithBackoff_cb always_quota 1 4000 2 False session0 = (Inl E429, ?s2')"
    using a b' f1 f2' E429_classes by simp
  moreover have "retryWithBackoff_cb always_quota 1 4000 2 True session0
     = (Inl (new_Error IMAGE_QUOTA_MSG),
        \<lparr>world = 1, requests = [], slept = [], GLOBAL_IMAGE_QUOTA_EXHAUSTED = True\<rparr>)"
    using c f1 E429_classes by simp
  ultimately show ?thesis by blast
qed

text \<open>
  Claim C6 as stated fails on the variant of unnamed/part_006: an image request whose
  operation fails with status 429 and one retry left is not invoked again, and the error
  thrown is not the one caught; a text request in the same situation sleeps 30000 ms,
  not the 4000 ms of \<open>delay\<close>.
\<close>

theorem retryWithBackoff_cb_replaces_error:
  "retryWithBackoff_cb always_quota 1 4000 2 True session0
     = (Inl (new_Error IMAGE_QUOTA_MSG),
        \<lparr>world = 1, requests = [], slept = [], GLOBAL_IMAGE_QUOTA_EXHAUSTED = True\<rparr>)
   \<and> always_quota session0
     = (Inl E429, \<lparr>world = 1, requests = [], slept = [], GLOBAL_IMAGE_QUOTA_EXHAUSTED = False\<rparr>)
   \<and> isQuotaError E429
   \<and> new_Error IMAGE_QUOTA_MSG \<noteq> E429
   \<and> slept (snd (retryWithBackoff_cb always_quota 1 4000 2 False session0)) = [30000]"
  by (simp add: retryWithBackoff_cb.simps always_quota_def session0_def E429_classes sleep_def
      new_Error_def E429_def isQuotaError_def isNetworkError_def message_includes_def)

lemma generateSmartContent_requests:
  "\<exists>n k. n \<le> 3 \<and> k \<le> 3
     \<and> requests (snd (generateSmartContent api ev model cts cfg fb s))
         = requests s @ replicate n model @ replicate k fb"
proof (cases "getClient ev")
  case (Inl e)
  then have "requests (snd (generateSmartContent api ev model cts cfg fb s))
         = requests s @ replicate 0 model @ replicate 0 fb"
    by (simp add: generateSmartContent_def)
  then show ?thesis by (metis zero_le)
next
  case (Inr ai)
  let ?p = "retryWithBackoff (runRequest api ai cts model cfg) 2 2000 2 s"
  obtain res s1 where p: "?p = (res, s1)" by (cases ?p)
  obtain n where n: "n \<le> 3" "requests s1 = requests s @ replicate n model"
    using retryWithBackoff_requests [of "runRequest api ai cts model cfg" model 2 2000 2 s] p
    by (auto simp: runRequest_requests)
  show ?thesis
  proof (cases "\<exists>e. res = Inl e \<and> isRecoverableError e \<and> model \<noteq> fb")
    case True
    let ?c = "cfg\<lparr>thinkingConfig := None\<rparr>"
    obtain k where k: "k \<le> 3"
      "requests (snd (retryWithBackoff (runRequest api ai cts fb ?c) 2 4000 2 s1))
         = requests s1 @ replicate k fb"
      using retryWithBackoff_requests [of "runRequest api ai cts fb ?c" fb 2 4000 2 s1]
      by (auto simp: runRequest_requests)
    from True Inr p have "generateSmartContent api ev model cts cfg fb s
        = retryWithBackoff (runRequest api ai cts fb ?c) 2 4000 2 s1"
      by (auto simp: generateSmartContent_def)
    with k n show ?thesis by auto
  next
    case False
    with Inr p have "snd (generateSmartContent api ev model cts cfg fb s) = s1"
      by (cases res) (auto simp: generateSmartContent_def)
    with n have "requests (snd (generateSmartContent api ev model cts cfg fb s))
         = requests s @ replicate n model @ replicate 0 fb" by simp
    with n(1) show ?thesis by (metis zero_le)
  qed
qed

lemma generateSmartContent_cb_requests:
  "\<exists>n k. n \<le> 3 \<and> k \<le> 3
     \<and> requests (snd (generateSmartContent_cb api ev model cts cfg fb s))
         = requests s @ replicate n model @ replicate k fb"
proof (cases "getClient_cb ev")
  case (Inl e)
  then have "requests (snd (generateSmartContent_cb api ev model cts cfg fb s))
         = requests s @ replicate 0 model @ replicate 0 fb"
    by (simp add: generateSmartContent_cb_def)
  then show ?thesis by (metis zero_le)
next
  case (Inr ai)
  let ?p = "retryWithBackoff_cb (runRequest_cb api ai cts model cfg) 2 4000 2 False s"
  obtain res s1 where p: "?p = (res, s1)" by (cases ?p)
  obtain n where n: "n \<le> 3" "requests s1 = requests s @ replicate n model"
    using retryWithBackoff_cb_requests [of "runRequest_cb api ai cts model cfg" model 2 4000 2 False s] p
    by (auto simp: runRequest_cb_requests)
  show ?thesis
  proof (cases "\<exists>e. res = Inl e \<and> isRecoverableError_cb e \<and> model \<noteq> fb")
    case True
    let ?c = "cfg\<lparr>thinkingConfig := None, responseSchema := None\<rparr>"
    obtain k where k: "k \<le> 3"
      "requests (snd (retryWithBackoff_cb (runRequest_cb api ai cts fb ?c) 2 6000 2 False (sleep 6000 s1)))
         = requests s1 @ replicate k fb"
      using retryWithBackoff_cb_requests [of "runRequest_cb api ai cts fb ?c" fb 2 6000 2 False "sleep 6000 s1"]
      by (auto simp: runRequest_cb_requests requests_sleep)
    from True Inr p have "generateSmartContent_cb api ev model cts cfg fb s
        = retryWithBackoff_cb (runRequest_cb api ai cts fb ?c) 2 6000 2 False (sleep 6000 s1)"
      by (auto simp: generateSmartContent_cb_def)
    with k n show ?thesis by auto
  next
    case False
    with Inr p have "snd (generateSmartContent_cb api ev model cts cfg fb s) = s1"
      by (cases res) (auto simp: generateSmartContent_cb_def)
    with n have "requests (snd (generateSmartContent_cb api ev model cts cfg fb s))
         = requests s @ replicate n model @ replicate 0 fb" by simp
    with n(1) show ?thesis by (metis zero_le)
  qed
qed

text \<open>
  Claim C4. In both variants of \<open>generateSmartContent\<close>: when the preferred model's
  attempt succeeds its response is returned; when it fails with a recoverable error and
  the fallback model is another model, the result is that of one \<open>retryWithBackoff\<close>
  against the fallback model, with \<open>thinkingConfig\<close> (and in unnamed/part_006
  \<open>responseSchema\<close>) removed from the configuration and with the fallback's own retry
  count and delay; in every other case the error of the preferred attempt is thrown.
  Only the two models are ever requested, each at most three times. The statuses 429, 404
  and 503 are recoverable, and in unnamed/part_006 so is the error that \<open>runRequest\<close>
  throws for a blank response text.
\<close>

theorem generateSmartContent_two_tier:
  "(getClient ev = Inr ai
      \<and> retryWithBackoff (runRequest api ai cts model cfg) 2 2000 2 s = (Inr res, s1)
    \<longrightarrow> generateSmartContent api ev model cts cfg fb s = (Inr res, s1))
   \<and> (getClient ev = Inr ai
      \<and> retryWithBackoff (runRequest api ai cts model cfg) 2 2000 2 s = (Inl error, s1)
      \<and> isRecoverableError error \<and> model \<noteq> fb
    \<longrightarrow> generateSmartContent api ev model cts cfg fb s
          = retryWithBackoff (runRequest api ai cts fb (cfg\<lparr>thinkingConfig := None\<rparr>)) 2 4000 2 s1)
   \<and> (getClient ev = Inr ai
      \<and> retryWithBackoff (runRequest api ai cts model cfg) 2 2000 2 s = (Inl error, s1)
      \<and> \<not> (isRecoverableError error \<and> model \<noteq> fb)
    \<longrightarrow> generateSmartContent api ev model cts cfg fb s = (Inl error, s1))
   \<and> (\<exists>n k. n \<le> 3 \<and> k \<le> 3
        \<and> requests (snd (generateSmartContent api ev model cts cfg fb s))
            = requests s @ replicate n model @ replicate k fb)
   \<and> (getClient_cb ev = Inr ai
      \<and> retryWithBackoff_cb (runRequest_cb api ai cts model cfg) 2 4000 2 False s = (Inr res, s1)
    \<longrightarrow> generateSmartContent_cb api ev model cts cfg fb s = (Inr res, s1))
   \<and> (getClient_cb ev = Inr ai
      \<and> retryWithBackoff_cb (runRequest_cb api ai cts model cfg) 2 4000 2 False s = (Inl error, s1)
      \<and> isRecoverableError_cb error \<and> model \<noteq> fb
    \<longrightarrow> generateSmartContent_cb api ev model cts cfg fb s
          = retryWithBackoff_cb
              (runRequest_cb api ai cts fb (cfg\<lparr>thinkingConfig := None, responseSchema := None\<rparr>))
              2 6000 2 False (sleep 6000 s1))
   \<and> (getClient_cb ev = Inr ai
      \<and> retryWithBackoff_cb (runRequest_cb api ai cts model cfg) 2 4000 2 False s = (Inl error, s1)
      \<and> \<not> (isRecoverableError_cb error \<and> model \<noteq> fb)
    \<longrightarrow> generateSmartContent_cb api ev model cts cfg fb s = (Inl error, s1))
   \<and> (\<exists>n k. n \<le> 3 \<and> k \<le> 3
        \<and> requests (snd (generateSmartContent_cb api ev model cts cfg fb s))
            = requests s @ replicate n model @ replicate k fb)
   \<and> (err_status e = Some 429 \<or> err_status e = Some 404 \<or> err_status e = Some 503
    \<longrightarrow> isRecoverableError e \<and> isRecoverableError_cb e)
   \<and> (generateContent api ai model cts cfg s = (Inr res, s1) \<and> isBlank (res_text res)
    \<longrightarrow> runRequest_cb api ai cts model cfg s = (Inl (new_Error EMPTY_MODEL_RESPONSE_MSG), s1)
        \<and> isRecoverableError_cb (new_Error EMPTY_MODEL_RESPONSE_MSG))"
proof -
  have rec: "err_status e = Some 429 \<or> err_status e = Some 404 \<or> err_status e = Some 503
    \<longrightarrow> isRecoverableError e \<and> isRecoverableError_cb e"
    by (auto simp: isRecoverableError_def isRecoverableError_cb_def)
  have emp: "isRecoverableError_cb (new_Error EMPTY_MODEL_RESPONSE_MSG)"
    by (simp add: isRecoverableError_cb_def new_Error_def message_includes_def
        js_includes_def EMPTY_MODEL_RESPONSE_MSG_def)
  have blank: "generateContent api ai model cts cfg s = (Inr res, s1) \<and> isBlank (res_text res)
    \<longrightarrow> runRequest_cb api ai cts model cfg s = (Inl (new_Error EMPTY_MODEL_RESPONSE_MSG), s1)"
    by (simp add: runRequest_cb_def)
  show ?thesis
    using generateSmartContent_requests [of api ev model cts cfg fb s]
      generateSmartContent_cb_requests [of api ev model cts cfg fb s] rec emp blank
    by (simp add: generateSmartContent_def generateSmartContent_cb_def)
qed

lemma primary_fails:
  "retryWithBackoff (runRequest api_primary_down ''key'' (Prompt ''x'') ''primary'' cfgT) 2 2000 2 session0
     = (Inl E429, after_primary)"
  by (simp add: retryWithBackoff.simps runRequest_def generateContent_def api_primary_down_def
      session0_def after_primary_def E429_classes sleep_def)

lemma primary_fails_cb:
  "retryWithBackoff_cb (runRequest_cb api_primary_down ''key'' (Prompt ''x'') ''primary'' cfgT) 2 4000 2 False session0
     = (Inl E429, after_primary_cb)"
  by (simp add: retryWithBackoff_cb.simps runRequest_cb_def generateContent_def api_primary_down_def
      session0_def after_primary_cb_def E429_classes sleep_def)

lemma fallback_succeeds:
  "retryWithBackoff (runRequest api_primary_down ''key'' (Prompt ''x'') ''fallback''
       (cfgT\<lparr>thinkingConfig := None\<rparr>)) 2 4000 2 after_primary
     = (Inr OK_RESPONSE, \<lparr>world = 4, requests = [''primary'', ''primary'', ''primary'', ''fallback''],
          slept = [2000, 4000], GLOBAL_IMAGE_QUOTA_EXHAUSTED = False\<rparr>)"
  by (simp add: retryWithBackoff.simps runRequest_def generateContent_def api_primary_down_def
      after_primary_def)

lemma fallback_succeeds_cb:
  "retryWithBackoff_cb (runRequest_cb api_primary_down ''key'' (Prompt ''x'') ''fallback''
       (cfgT\<lparr>thinkingConfig := None, responseSchema := None\<rparr>)) 2 6000 2 False (sleep 6000 after_primary_cb)
     = (Inr OK_RESPONSE, \<lparr>world = 4, requests = [''primary'', ''primary'', ''primary'', ''fallback''],
          slept = [30000, 30000, 6000], GLOBAL_IMAGE_QUOTA_EXHAUSTED = False\<rparr>)"
  by (simp add: retryWithBackoff_cb.simps runRequest_cb_def generateContent_def api_primary_down_def
      after_primary_cb_def sleep_def OK_RESPONSE_def isBlank_def trim_def trimEnd_def isSpace_def)

theorem generateSmartContent_two_tier_witness:
  "generateSmartContent api_primary_down env0 ''primary'' (Prompt ''x'') cfgT ''fallback'' session0
     = (Inr OK_RESPONSE, \<lparr>world = 4, requests = [''primary'', ''primary'', ''primary'', ''fallback''],
          slept = [2000, 4000], GLOBAL_IMAGE_QUOTA_EXHAUSTED = False\<rparr>)
   \<and> generateSmartContent_cb api_primary_down env0 ''primary'' (Prompt ''x'') cfgT ''fallback'' session0
     = (Inr OK_RESPONSE, \<lparr>world = 4, requests = [''primary'', ''primary'', ''primary'', ''fallback''],
          slept = [30000, 30000, 6000], GLOBAL_IMAGE_QUOTA_EXHAUSTED = False\<rparr>)"
proof -
  have k: "getClient env0 = Inr ''key''" "getClient_cb env0 = Inr ''key''"
    by (simp_all add: getClient_def getClient_cb_def env0_def stripQuotes_def)
  note t1 = generateSmartContent_two_tier
    [of env0 "''key''" api_primary_down "Prompt ''x''" "''primary''" cfgT session0 _ after_primary
        "''fallback''" E429]
  note t2 = generateSmartContent_two_tier
    [of env0 "''key''" api_primary_down "Prompt ''x''" "''primary''" cfgT session0 _ after_primary_cb
        "''fallback''" E429]
  have "generateSmartContent api_primary_down env0 ''primary'' (Prompt ''x'') cfgT ''fallback'' session0
     = retryWithBackoff (runRequest api_primary_down ''key'' (Prompt ''x'') ''fallback''
         (cfgT\<lparr>thinkingConfig := None\<rparr>)) 2 4000 2 after_primary"
    using t1 k primary_fails E429_classes by simp
  moreover have "generateSmartContent_cb api_primary_down env0 ''primary'' (Prompt ''x'') cfgT ''fallback'' session0
     = retryWithBackoff_cb (runRequest_cb api_primary_down ''key'' (Prompt ''x'') ''fallback''
         (cfgT\<lparr>thinkingConfig := None, responseSchema := None\<rparr>)) 2 6000 2 False (sleep 6000 after_primary_cb)"
    using t2 k primary_fails_cb E429_classes by simp
  ultimately show ?thesis by (simp add: fallback_succeeds fallback_succeeds_cb)
qed

section \<open>Properties of the quota circuit breaker\<close>

lemma flag_sleep: "GLOBAL_IMAGE_QUOTA_EXHAUSTED (sleep d s) = GLOBAL_IMAGE_QUOTA_EXHAUSTED s"
  by (simp add: sleep_def)

lemma flag_generateContent:
  "GLOBAL_IMAGE_QUOTA_EXHAUSTED (snd (generateContent api k m c cfg s)) = GLOBAL_IMAGE_QUOTA_EXHAUSTED s"
  by (simp add: generateContent_def split: prod.splits)

lemma flag_runRequest_cb:
  "GLOBAL_IMAGE_QUOTA_EXHAUSTED (snd (runRequest_cb api k c m cfg s)) = GLOBAL_IMAGE_QUOTA_EXHAUSTED s"
  by (auto simp: runRequest_cb_def generateContent_def split: prod.splits sum.splits)

lemma flag_retryWithBackoff_cb:
  "(\<And>s. GLOBAL_IMAGE_QUOTA_EXHAUSTED s \<Longrightarrow> GLOBAL_IMAGE_QUOTA_EXHAUSTED (snd (fn s))) \<Longrightarrow>
   GLOBAL_IMAGE_QUOTA_EXHAUSTED s \<Longrightarrow>
   GLOBAL_IMAGE_QUOTA_EXHAUSTED (snd (retryWithBackoff_cb fn r d f img s))"
proof (induction fn r d f img s rule: retryWithBackoff_cb.induct)
  case (1 fn retries delay factor img s)
  obtain res s1 where fs: "fn s = (res, s1)" by (cases "fn s")
  have s1: "GLOBAL_IMAGE_QUOTA_EXHAUSTED s1" using "1.prems" (1) [OF "1.prems" (2)] fs by simp
  show ?case
  proof (cases res)
    case (Inr v)
    with fs s1 show ?thesis by (simp add: retryWithBackoff_cb_Inr)
  next
    case (Inl err)
    show ?thesis
    proof (cases "isQuotaError err \<and> img")
      case True
      with fs Inl show ?thesis by (simp add: retryWithBackoff_cb_breaker)
    next
      case nq: False
      show ?thesis
      proof (cases "retries > 0 \<and> (isQuotaError err \<or> isNetworkError err)")
        case True
        have "GLOBAL_IMAGE_QUOTA_EXHAUSTED (sleep (if isQuotaError err then max delay 30000 else delay) s1)"
          using s1 by (simp add: flag_sleep)
        from "1.IH" [OF fs [symmetric] Inl nq True refl "1.prems" (1) this]
        show ?thesis
          using fs Inl True nq retryWithBackoff_cb_retry [of fn s err s1 img retries delay factor]
          by simp
      next
        case False
        with fs Inl nq s1 show ?thesis
          using retryWithBackoff_cb_throw [of fn s err s1 img retries delay factor] by simp
      qed
    qed
  qed
qed

lemma breaker_set_on_image_quota:
  "fn s = (Inl e, s1) \<Longrightarrow> isQuotaError e \<Longrightarrow>
   GLOBAL_IMAGE_QUOTA_EXHAUSTED (snd (retryWithBackoff_cb fn r d f True s))"
  by (simp add: retryWithBackoff_cb_breaker)

lemma breaker_short_circuit:
  "GLOBAL_IMAGE_QUOTA_EXHAUSTED s \<Longrightarrow>
   generateImageFromPrompt api ev prompt aspectRatio model resolution s
     = (Inr (breakerPlaceholder prompt), s)"
  by (simp add: generateImageFromPrompt_def)

lemma breaker_stays_generateImageFromPrompt:
  "GLOBAL_IMAGE_QUOTA_EXHAUSTED s \<Longrightarrow>
   GLOBAL_IMAGE_QUOTA_EXHAUSTED (snd (generateImageFromPrompt api ev prompt aspectRatio model resolution s))"
  by (simp add: breaker_short_circuit)

lemma breaker_stays_editGeneratedImage:
  "GLOBAL_IMAGE_QUOTA_EXHAUSTED s \<Longrightarrow>
   GLOBAL_IMAGE_QUOTA_EXHAUSTED (snd (editGeneratedImage api ev img p s))"
  by (simp add: editGeneratedImage_def)

lemma breaker_stays_generateSmartContent_cb:
  assumes "GLOBAL_IMAGE_QUOTA_EXHAUSTED s"
  shows "GLOBAL_IMAGE_QUOTA_EXHAUSTED (snd (generateSmartContent_cb api ev model cts cfg fb s))"
proof (cases "getClient_cb ev")
  case (Inl e)
  with assms show ?thesis by (simp add: generateSmartContent_cb_def)
next
  case (Inr ai)
  let ?p = "retryWithBackoff_cb (runRequest_cb api ai cts model cfg) 2 4000 2 False s"
  obtain res s1 where p: "?p = (res, s1)" by (cases ?p)
  have s1: "GLOBAL_IMAGE_QUOTA_EXHAUSTED s1"
    using flag_retryWithBackoff_cb [of "runRequest_cb api ai cts model cfg" s 2 4000 2 False] assms p
    by (simp add: flag_runRequest_cb)
  let ?c = "cfg\<lparr>thinkingConfig := None, responseSchema := None\<rparr>"
  have s2: "GLOBAL_IMAGE_QUOTA_EXHAUSTED
      (snd (retryWithBackoff_cb (runRequest_cb api ai cts fb ?c) 2 6000 2 False (sleep 6000 s1)))"
    using flag_retryWithBackoff_cb [of "runRequest_cb api ai cts fb ?c" "sleep 6000 s1" 2 6000 2 False] s1
    by (simp add: flag_runRequest_cb flag_sleep)
  show ?thesis
    using Inr p s1 s2 by (cases res) (auto simp: generateSmartContent_cb_def)
qed

text \<open>
  Claim C3, evaluated. The API answers every image request with status 429. The first
  call for a 16:9 image sets the breaker and returns the 1200x675 reference of the quota
  path. The next calls issue no request and leave the session as it is; the reference
  they return carries the encoded start of the prompt, and its size is 1200x800 for the
  requested ratio 16:9 and for 1:1 alike.
\<close>

theorem generateImageFromPrompt_breaker_placeholder:
  "generateImageFromPrompt api_always_429 env0 ''a cat'' ''16:9'' ''gemini-2.5-flash-image'' ''1K'' session0
     = (Inr ''https://placehold.co/1200x675/EEE/31343C?text=Quota%20Exceeded%20-%20Placeholder'',
        session_exhausted)
   \<and> generateImageFromPrompt api_always_429 env0 ''a cat'' ''16:9'' ''gemini-2.5-flash-image'' ''1K''
       session_exhausted
     = (Inr ''https://placehold.co/1200x800/1e293b/ffffff?text=a%20cat...'', session_exhausted)
   \<and> generateImageFromPrompt api_always_429 env0 ''a cat'' ''1:1'' ''gemini-2.5-flash-image'' ''1K''
       session_exhausted
     = (Inr ''https://placehold.co/1200x800/1e293b/ffffff?text=a%20cat...'', session_exhausted)"
  by code_simp

section \<open>Properties of generateMetadata\<close>

lemma metadataFallback_v1_bounds:
  "length (seoTitle (metadataFallback_v1 keyword)) \<le> 60
   \<and> length (metaDescription (metadataFallback_v1 keyword)) \<le> 156
   \<and> seoTitle (metadataFallback_v1 keyword) \<noteq> []
   \<and> metaDescription (metadataFallback_v1 keyword) \<noteq> []"
  by (auto simp: metadataFallback_v1_def substring_def)

lemma generateMetadata_failure_gives_fallback:
  "fst (generateSmartContent api ev MODEL_PRIMARY_TEXT (Prompt (metadataPrompt topic))
          (jsonConfig ''SeoData'') MODEL_FALLBACK_TEXT s) = Inl e \<Longrightarrow>
   fst (generateMetadata api ev JSON_parse topic keyword htmlContent language s)
     = metadataFallback keyword"
  by (auto simp: generateMetadata_def split: prod.splits sum.splits)

lemma generateMetadata_v1_failure_gives_fallback:
  "fst (generateSmartContent api ev MODEL_PRIMARY_TEXT
          (Prompt (metadataPrompt_v1 topic keyword language))
          (jsonConfig ''SeoData'') MODEL_FALLBACK_TEXT s) = Inl e \<Longrightarrow>
   fst (generateMetadata_v1 api ev JSON_parse topic keyword htmlContent language s)
     = metadataFallback_v1 keyword"
  by (auto simp: generateMetadata_v1_def split: prod.splits sum.splits)

text \<open>
  Claim C8, evaluated. With an API that answers every request with status 429,
  \<open>generateMetadata\<close> of services/geminiService.ts returns its fallback, whose
  \<open>seoTitle\<close> is the keyword itself: 61 characters for a keyword of 61 characters.
  The fallback of unnamed/part_001 cuts the title at 60 (\<open>metadataFallback_v1_bounds\<close>).
\<close>

theorem generateMetadata_fallback_too_long:
  "fst (generateMetadata api_always_429 env0 reject_all ''topic'' long_keyword [] ''English'' session0)
     = metadataFallback long_keyword
   \<and> length (seoTitle (metadataFallback long_keyword)) = 61
   \<and> length (seoTitle (metadataFallback_v1 long_keyword)) = 60"
  by code_simp

section \<open>Properties of the video resolver\<close>

lemma videoId_examples:
  "videoId regExp WATCH_URL = Some ''dQw4w9WgXcQ''"
  "videoId regExp SHORT_LINK_URL = Some ''dQw4w9WgXcQ''"
  "videoId regExp OTHER_URL = None"
  "videoId regExp_cb WATCH_URL = Some ''dQw4w9WgXcQ''"
  "videoId regExp_cb SHORT_LINK_URL = Some ''dQw4w9WgXcQ''"
  "videoId regExp_cb SHORTS_URL = Some ''dQw4w9WgXcQ''"
  "videoId regExp_cb OTHER_URL = None"
  by code_simp+

lemma findRealYoutubeVideo_derived:
  assumes "findRealYoutubeVideo api ev JSON_parse q s = (Inr v, s')"
  shows "\<exists>vid ttl. videoId regExp (v_url v) = Some vid
           \<and> embedHtml v = iframe vid ttl \<and> thumbnailUrl v = Some (thumbnail vid)"
  using assms
  by (auto simp: findRealYoutubeVideo_def split: prod.splits sum.splits if_splits option.splits)

lemma findRealYoutubeVideo_cb_derived:
  assumes "findRealYoutubeVideo_cb api ev JSON_parse q s = (Inr v, s')"
  shows "\<exists>vid ttl. videoId regExp_cb (v_url v) = Some vid
           \<and> embedHtml v = iframe vid ttl \<and> thumbnailUrl v = Some (thumbnail vid)"
  using assms
  by (auto simp: findRealYoutubeVideo_cb_def Let_def split: prod.splits sum.splits if_splits option.splits)

text \<open>
  Claim C7, evaluated. The pattern of services/geminiService.ts finds no id in the
  shorts address, where the pattern of unnamed/part_006 finds \<open>dQw4w9WgXcQ\<close>; so
  \<open>findRealYoutubeVideo\<close> of services/geminiService.ts throws "Invalid YouTube URL format."
  when the model answers with the shorts address. The other addresses of the claim are
  in \<open>videoId_examples\<close>, and what a returned asset holds in
  \<open>findRealYoutubeVideo_derived\<close> and \<open>findRealYoutubeVideo_cb_derived\<close>.
\<close>

theorem findRealYoutubeVideo_rejects_shorts:
  "videoId regExp SHORTS_URL = None
   \<and> videoId regExp_cb SHORTS_URL = Some ''dQw4w9WgXcQ''
   \<and> fst (findRealYoutubeVideo api_finds_shorts env0 parse_video ''q'' session0)
       = Inl (new_Error ''Invalid YouTube URL format.'')"
  by code_simp

section \<open>Properties of the video injection\<close>

lemma indexOf_bound: "indexOf t e = Some j \<Longrightarrow> j + length e \<le> length t"
proof (induction t arbitrary: j)
  case Nil
  then show ?case by (auto split: if_splits)
next
  case (Cons x xs)
  show ?case
  proof (cases "prefix e (x # xs)")
    case True
    with Cons.prems have "j = 0" by simp
    with prefix_length_le [OF True] show ?thesis by simp
  next
    case False
    with Cons.prems obtain j' where "indexOf xs e = Some j'" "j = Suc j'" by auto
    with Cons.IH show ?thesis by simp
  qed
qed

lemma lazyStar_any:
  "lazyStar (length t) (paths (Cls (\<lambda>c. True))) (t, cap) = map (\<lambda>u. (u, cap)) (rev (suffixes t))"
  by (induction t) simp_all

lemma lazyThen_Nil: "lazyThen e cap [] = (if e = [] then [([], cap)] else [])"
  by (simp add: lazyThen_def)

lemma lazyThen_Cons:
  "lazyThen e cap (x # xs) =
     (if prefix e (x # xs) then [(drop (length e) (x # xs), cap)] else []) @ lazyThen e cap xs"
  by (simp add: lazyThen_def)

lemma lazyThen_first:
  "case indexOf t e of
     None \<Rightarrow> lazyThen e cap t = []
   | Some j \<Rightarrow> (\<exists>more. lazyThen e cap t = (drop (j + length e) t, cap) # more)"
proof (induction t)
  case Nil
  show ?case by (simp add: lazyThen_Nil)
next
  case (Cons x xs)
  show ?case
  proof (cases "prefix e (x # xs)")
    case True
    then show ?thesis by (simp add: lazyThen_Cons)
  next
    case False
    with Cons show ?thesis by (auto simp: lazyThen_Cons split: option.splits)
  qed
qed

lemma paths_videoBlock:
  "paths videoBlock (s, cap) =
     (if prefix VIDEO_OPEN s then lazyThen VIDEO_END cap (drop (length VIDEO_OPEN) s) else [])"
proof -
  have a: "paths (Seq (LazyStar (Cls (\<lambda>c. True))) (Lit VIDEO_END)) (t, cap) = lazyThen VIDEO_END cap t"
    for t
    using lazyStar_any [of t cap] by (simp add: lazyThen_def comp_def)
  have "paths videoBlock (s, cap) =
      (if prefix VIDEO_OPEN s
       then paths (Seq (LazyStar (Cls (\<lambda>c. True))) (Lit VIDEO_END)) (drop (length VIDEO_OPEN) s, cap)
       else [])"
    unfolding videoBlock_def by (simp del: paths.simps(3) paths.simps(6) add: paths.simps(3) [of "Lit VIDEO_OPEN"])
  then show ?thesis by (simp only: a)
qed

lemma replaceAll_skip: "replaceAll r n s = replaceAll r 0 (drop n s)"
  by (induction r n s rule: replaceAll.induct) simp_all

lemma replaceAll_videoBlock_Cons:
  "replaceAll videoBlock 0 (c # cs) =
     (if prefix VIDEO_OPEN (c # cs)
      then (case indexOf (drop (length VIDEO_OPEN) (c # cs)) VIDEO_END of
              None \<Rightarrow> c # replaceAll videoBlock 0 cs
            | Some j \<Rightarrow>
                replaceAll videoBlock 0
                  (drop (length VIDEO_OPEN + j + length VIDEO_END) (c # cs)))
      else c # replaceAll videoBlock 0 cs)"
proof (cases "prefix VIDEO_OPEN (c # cs)")
  case False
  then show ?thesis by (simp add: paths_videoBlock)
next
  case True
  let ?t = "drop (length VIDEO_OPEN) (c # cs)"
  have k: "length VIDEO_OPEN \<le> length (c # cs)" using True by (rule prefix_length_le)
  have k0: "0 < length VIDEO_OPEN" by (simp add: VIDEO_OPEN_def)
  show ?thesis
  proof (cases "indexOf ?t VIDEO_END")
    case None
    with lazyThen_first [where t = ?t and e = VIDEO_END and cap = None] True
    have "paths videoBlock (c # cs, None) = []" by (simp add: paths_videoBlock)
    with True None show ?thesis by simp
  next
    case (Some j)
    with lazyThen_first [where t = ?t and e = VIDEO_END and cap = None]
    obtain more where "lazyThen VIDEO_END None ?t = (drop (j + length VIDEO_END) ?t, None) # more"
      by auto
    with True have p: "paths videoBlock (c # cs, None)
        = (drop (j + length VIDEO_END) ?t, None) # more"
      by (simp add: paths_videoBlock)
    have b: "j + length VIDEO_END \<le> length ?t" using Some by (rule indexOf_bound)
    have len: "length (c # cs) - length (drop (j + length VIDEO_END) ?t)
          = length VIDEO_OPEN + j + length VIDEO_END"
      using b k by simp
    have "replaceAll videoBlock 0 (c # cs)
        = replaceAll videoBlock (length VIDEO_OPEN + j + length VIDEO_END - 1) cs"
      unfolding replaceAll.simps p list.case Let_def fst_conv len using k0 by simp
    also have "\<dots> = replaceAll videoBlock 0 (drop (length VIDEO_OPEN + j + length VIDEO_END) (c # cs))"
      using k0 replaceAll_skip [of videoBlock "length VIDEO_OPEN + j + length VIDEO_END - 1" cs]
      by (cases "length VIDEO_OPEN + j + length VIDEO_END") simp_all
    finally show ?thesis using True Some by simp
  qed
qed

lemma replaceAll_Nil: "replaceAll r 0 [] = []"
  by simp

lemma inject_once:
  "injectVideoIntoHtml SAMPLE_HTML (Some SAMPLE_VIDEO)
     = ''<h1>A</h1><p>Lead</p>'' @ [CHR 0x0A] @ videoSection SAMPLE_VIDEO @ ''<p>Body</p>''"
  by (simp add: injectVideoIntoHtml_def SAMPLE_HTML_def SAMPLE_VIDEO_def substring_def
      replaceAll_videoBlock_Cons VIDEO_OPEN_def del: replaceAll.simps(3))

lemma strip_once:
  "replaceAll videoBlock 0
     (''<h1>A</h1><p>Lead</p>'' @ [CHR 0x0A] @ videoSection SAMPLE_VIDEO @ ''<p>Body</p>'')
   = ''<h1>A</h1><p>Lead</p>'' @ [CHR 0x0A, CHR 0x0A] @ ''<p>Body</p>''"
  by (simp add: replaceAll_videoBlock_Cons VIDEO_OPEN_def VIDEO_END_def videoSection_def
      SAMPLE_VIDEO_def orElse_def del: replaceAll.simps(3))

lemma injectVideoIntoHtml_without_video:
  "injectVideoIntoHtml html None = html"
  "embedHtml v = [] \<Longrightarrow> injectVideoIntoHtml html (Some v) = html"
  by (simp_all add: injectVideoIntoHtml_def)

lemma injectVideoIntoHtml_fallback_order:
  assumes "embedHtml v \<noteq> []"
  shows "injectVideoIntoHtml html (Some v) =
     (let cleanHtml = replaceAll videoBlock 0 html
      in case (indexOf cleanHtml ''</p>'', indexOf cleanHtml ''</h1>'') of
           (Some i, _) \<Rightarrow> take (i + 4) cleanHtml @ [CHR 0x0A] @ videoSection v @ drop (i + 4) cleanHtml
         | (None, Some j) \<Rightarrow> take (j + 5) cleanHtml @ [CHR 0x0A] @ videoSection v @ drop (j + 5) cleanHtml
         | (None, None) \<Rightarrow> videoSection v @ [CHR 0x0A] @ cleanHtml)"
  using assms
  by (simp add: injectVideoIntoHtml_def Let_def substring_def split: option.splits)

lemma strip_once_index:
  "indexOf (''<h1>A</h1><p>Lead</p>'' @ [CHR 0x0A, CHR 0x0A] @ ''<p>Body</p>'') ''</p>'' = Some 17"
  by simp

lemma inject_twice:
  "injectVideoIntoHtml (injectVideoIntoHtml SAMPLE_HTML (Some SAMPLE_VIDEO)) (Some SAMPLE_VIDEO)
     = ''<h1>A</h1><p>Lead</p>'' @ [CHR 0x0A] @ videoSection SAMPLE_VIDEO
         @ [CHR 0x0A, CHR 0x0A] @ ''<p>Body</p>''"
proof -
  let ?once = "''<h1>A</h1><p>Lead</p>'' @ [CHR 0x0A] @ videoSection SAMPLE_VIDEO @ ''<p>Body</p>''"
  let ?clean = "''<h1>A</h1><p>Lead</p>'' @ [CHR 0x0A, CHR 0x0A] @ ''<p>Body</p>''"
  have e: "embedHtml SAMPLE_VIDEO \<noteq> []" by (simp add: SAMPLE_VIDEO_def)
  have "injectVideoIntoHtml (injectVideoIntoHtml SAMPLE_HTML (Some SAMPLE_VIDEO)) (Some SAMPLE_VIDEO)
      = injectVideoIntoHtml ?once (Some SAMPLE_VIDEO)"
    by (simp only: inject_once)
  also have "\<dots> = take (17 + 4) ?clean @ [CHR 0x0A] @ videoSection SAMPLE_VIDEO @ drop (17 + 4) ?clean"
    unfolding injectVideoIntoHtml_fallback_order [OF e] strip_once Let_def strip_once_index
    by (simp only: prod.case option.case)
  also have "\<dots> = ''<h1>A</h1><p>Lead</p>'' @ [CHR 0x0A] @ videoSection SAMPLE_VIDEO
         @ [CHR 0x0A, CHR 0x0A] @ ''<p>Body</p>''"
    by simp
  finally show ?thesis .
qed

text \<open>
  Claim C2, evaluated. For the fragment \<open><h1>A</h1><p>Lead</p><p>Body</p>\<close> and a video
  with the embed markup \<open><iframe></iframe>\<close>, the first injection puts a line break and
  the block after the first \<open></p>\<close>. The second injection removes the block from the
  \<open><div\<close> on, which leaves the line break before it and the one the block starts with,
  and inserts again: its result has two more line breaks after the block than the result
  of the first, so the two differ. What the function does without a video and the order
  of the insertion points are in \<open>injectVideoIntoHtml_without_video\<close> and
  \<open>injectVideoIntoHtml_fallback_order\<close>.
\<close>

theorem injectVideoIntoHtml_twice_differs:
  "injectVideoIntoHtml SAMPLE_HTML (Some SAMPLE_VIDEO)
     = ''<h1>A</h1><p>Lead</p>'' @ [CHR 0x0A] @ videoSection SAMPLE_VIDEO @ ''<p>Body</p>''
   \<and> injectVideoIntoHtml (injectVideoIntoHtml SAMPLE_HTML (Some SAMPLE_VIDEO)) (Some SAMPLE_VIDEO)
     = ''<h1>A</h1><p>Lead</p>'' @ [CHR 0x0A] @ videoSection SAMPLE_VIDEO
         @ [CHR 0x0A, CHR 0x0A] @ ''<p>Body</p>''
   \<and> injectVideoIntoHtml (injectVideoIntoHtml SAMPLE_HTML (Some SAMPLE_VIDEO)) (Some SAMPLE_VIDEO)
     \<noteq> injectVideoIntoHtml SAMPLE_HTML (Some SAMPLE_VIDEO)"
proof (intro conjI)
  show "injectVideoIntoHtml SAMPLE_HTML (Some SAMPLE_VIDEO)
     = ''<h1>A</h1><p>Lead</p>'' @ [CHR 0x0A] @ videoSection SAMPLE_VIDEO @ ''<p>Body</p>''"
    by (rule inject_once)
  show "injectVideoIntoHtml (injectVideoIntoHtml SAMPLE_HTML (Some SAMPLE_VIDEO)) (Some SAMPLE_VIDEO)
     = ''<h1>A</h1><p>Lead</p>'' @ [CHR 0x0A] @ videoSection SAMPLE_VIDEO
         @ [CHR 0x0A, CHR 0x0A] @ ''<p>Body</p>''"
    by (rule inject_twice)
  show "injectVideoIntoHtml (injectVideoIntoHtml SAMPLE_HTML (Some SAMPLE_VIDEO)) (Some SAMPLE_VIDEO)
     \<noteq> injectVideoIntoHtml SAMPLE_HTML (Some SAMPLE_VIDEO)"
  proof
    assume eq: "injectVideoIntoHtml (injectVideoIntoHtml SAMPLE_HTML (Some SAMPLE_VIDEO)) (Some SAMPLE_VIDEO)
       = injectVideoIntoHtml SAMPLE_HTML (Some SAMPLE_VIDEO)"
    have "''<h1>A</h1><p>Lead</p>'' @ [CHR 0x0A] @ videoSection SAMPLE_VIDEO
         @ [CHR 0x0A, CHR 0x0A] @ ''<p>Body</p>''
       = injectVideoIntoHtml (injectVideoIntoHtml SAMPLE_HTML (Some SAMPLE_VIDEO)) (Some SAMPLE_VIDEO)"
      by (rule inject_twice [symmetric])
    also note eq
    also note inject_once
    finally show False by simp
  qed
qed

section \<open>Properties of generateTechnicalSeo\<close>

text \<open>
  Claim C9, as amended. \<open>generateTechnicalSeo\<close> takes no session and calls nothing of the
  network. Its CMS post payload is a function of the article alone: it is the same at
  any time and for any author. Its two outputs together are a function of the time of
  the call, of the article's \<open>siteUrl\<close>, \<open>seoData\<close>, \<open>imageSpecs\<close>, \<open>title\<close> and
  \<open>htmlContent\<close>, and of the author's name.
\<close>

theorem generateTechnicalSeo_frame:
  "wordpressPostJson (generateTechnicalSeo now article author)
     = wordpressPostJson (generateTechnicalSeo now' article author')
   \<and> (a_siteUrl article = a_siteUrl article' \<and> a_seoData article = a_seoData article'
        \<and> a_imageSpecs article = a_imageSpecs article' \<and> a_title article = a_title article'
        \<and> a_htmlContent article = a_htmlContent article'
        \<and> map_option au_name author = map_option au_name author'
      \<longrightarrow> generateTechnicalSeo now article author = generateTechnicalSeo now article' author')"
  by (simp add: generateTechnicalSeo_def schemaGraph_def wpPayload_def heroImageUrl_def)

theorem generateTechnicalSeo_frame_witness:
  "wordpressPostJson (generateTechnicalSeo NOON SAMPLE_ARTICLE None)
     = wordpressPostJson (generateTechnicalSeo MIDNIGHT SAMPLE_ARTICLE (Some SAMPLE_AUTHOR))
   \<and> generateTechnicalSeo NOON SAMPLE_ARTICLE (Some SAMPLE_AUTHOR)
     = generateTechnicalSeo NOON (SAMPLE_ARTICLE\<lparr>a_topic := ''Wind'', a_status := Completed\<rparr>)
         (Some (SAMPLE_AUTHOR\<lparr>au_bio := ''Editor''\<rparr>))"
  using generateTechnicalSeo_frame
      [where now = NOON and article = SAMPLE_ARTICLE and author = None and now' = MIDNIGHT
         and author' = "Some SAMPLE_AUTHOR"]
    generateTechnicalSeo_frame
      [where now = NOON and article = SAMPLE_ARTICLE and author = "Some SAMPLE_AUTHOR"
         and article' = "SAMPLE_ARTICLE\<lparr>a_topic := ''Wind'', a_status := Completed\<rparr>"
         and author' = "Some (SAMPLE_AUTHOR\<lparr>au_bio := ''Editor''\<rparr>)"]
  by (simp add: SAMPLE_ARTICLE_def SAMPLE_AUTHOR_def)

text \<open>
  Claim C9 as stated fails: the structured data holds the time of the call as
  \<open>datePublished\<close> and \<open>dateModified\<close>, so two invocations with the same article and
  author at different times give different \<open>schemaJsonLd\<close> strings (here they differ at
  character 950, inside the date).
\<close>

theorem generateTechnicalSeo_reads_the_clock:
  "schemaJsonLd (generateTechnicalSeo NOON SAMPLE_ARTICLE None)
     \<noteq> schemaJsonLd (generateTechnicalSeo MIDNIGHT SAMPLE_ARTICLE None)"
proof
  assume eq: "schemaJsonLd (generateTechnicalSeo NOON SAMPLE_ARTICLE None)
     = schemaJsonLd (generateTechnicalSeo MIDNIGHT SAMPLE_ARTICLE None)"
  have "schemaJsonLd (generateTechnicalSeo NOON SAMPLE_ARTICLE None) ! 950 = CHR ''1''"
    by code_simp
  moreover have "schemaJsonLd (generateTechnicalSeo MIDNIGHT SAMPLE_ARTICLE None) ! 950 = CHR ''2''"
    by code_simp
  ultimately show False using eq by simp
qed

section \<open>Properties of publishToWordPress\<close>

lemma createPost_requests:
  "h_requests (snd (createPost fetcher baseUrl auth article fm s))
     = h_requests s @ [postRequest baseUrl auth article fm]"
  by (simp add: createPost_def do_fetch_def split: prod.splits sum.splits)

lemma postRequest_no_media:
  "req_body (postRequest baseUrl auth article (Some 0))
     = PostBody \<lparr>pd_title = orElse (a_title article) (a_topic article),
         pd_content = a_htmlContent article,
         pd_status = ''draft'',
         pd_slug = orElse (map_option slug (a_seoData article))
                     (toLowerCase (spacesToDashes (a_targetKeyword article))),
         pd_excerpt = a_metaDescription article,
         featured_media = None,
         comment_status = ''open'',
         ping_status = ''open''\<rparr>"
  by (simp add: postRequest_def)

text \<open>
  Claim C10. The configuration is complete and the article has a hero image with a data
  URL. When the conversion of the image throws, or the upload request throws, or the
  media endpoint answers with a response that is not OK (or with an OK response whose
  body cannot be read), \<open>publishToWordPress\<close> goes on to create the post: the request to
  the posts endpoint is the next one issued, its body has the status \<open>draft\<close> and no
  \<open>featured_media\<close>, and what the function returns or throws is decided by the answer to
  that request alone.
\<close>

theorem publishToWordPress_survives_upload_failure:
  "endpoint cfg \<noteq> [] \<and> username cfg \<noteq> [] \<and> applicationPassword cfg \<noteq> []
   \<and> findHero article = Some heroImage
   \<and> baseUrl = apiBase cfg \<and> auth = authorization btoa cfg
   \<and> (dataURItoBlob atob (i_url heroImage) = Inl e \<and> s1 = s
       \<or> dataURItoBlob atob (i_url heroImage) = Inr b
          \<and> do_fetch fetcher (mediaRequest baseUrl auth article heroImage b) s = (r, s1)
          \<and> (r = Inl e
              \<or> (\<exists>mediaRes. r = Inr mediaRes
                    \<and> (\<not> resp_ok mediaRes \<or> resp_json mediaRes = Inl e
                        \<or> resp_json mediaRes = Inr None))))
   \<longrightarrow> publishToWordPress fetcher atob btoa article cfg s
         = createPost fetcher baseUrl auth article (Some 0) s1
       \<and> h_requests (snd (publishToWordPress fetcher atob btoa article cfg s))
         = h_requests s1 @ [postRequest baseUrl auth article (Some 0)]
       \<and> (\<exists>pd. req_body (postRequest baseUrl auth article (Some 0)) = PostBody pd
                \<and> featured_media pd = None \<and> pd_status pd = ''draft'')
       \<and> fst (publishToWordPress fetcher atob btoa article cfg s)
         = (case readPost (fst (fetcher (postRequest baseUrl auth article (Some 0)) (h_world s1))) of
              Inl err \<Rightarrow> Inl (friendlyError err)
            | Inr v \<Rightarrow> Inr v)"
proof (intro impI)
  assume h: "endpoint cfg \<noteq> [] \<and> username cfg \<noteq> [] \<and> applicationPassword cfg \<noteq> []
   \<and> findHero article = Some heroImage
   \<and> baseUrl = apiBase cfg \<and> auth = authorization btoa cfg
   \<and> (dataURItoBlob atob (i_url heroImage) = Inl e \<and> s1 = s
       \<or> dataURItoBlob atob (i_url heroImage) = Inr b
          \<and> do_fetch fetcher (mediaRequest baseUrl auth article heroImage b) s = (r, s1)
          \<and> (r = Inl e
              \<or> (\<exists>mediaRes. r = Inr mediaRes
                    \<and> (\<not> resp_ok mediaRes \<or> resp_json mediaRes = Inl e
                        \<or> resp_json mediaRes = Inr None))))"
  then have up: "uploadHero fetcher atob baseUrl auth article s = (Some 0, s1)"
    by (auto simp: uploadHero_def)
  with h have p: "publishToWordPress fetcher atob btoa article cfg s
         = createPost fetcher baseUrl auth article (Some 0) s1"
    by (simp add: publishToWordPress_def)
  have q: "fst (createPost fetcher baseUrl auth article (Some 0) s1)
         = (case readPost (fst (fetcher (postRequest baseUrl auth article (Some 0)) (h_world s1))) of
              Inl err \<Rightarrow> Inl (friendlyError err)
            | Inr v \<Rightarrow> Inr v)"
    by (simp add: createPost_def do_fetch_def split: prod.splits sum.splits)
  show "publishToWordPress fetcher atob btoa article cfg s
         = createPost fetcher baseUrl auth article (Some 0) s1
       \<and> h_requests (snd (publishToWordPress fetcher atob btoa article cfg s))
         = h_requests s1 @ [postRequest baseUrl auth article (Some 0)]
       \<and> (\<exists>pd. req_body (postRequest baseUrl auth article (Some 0)) = PostBody pd
                \<and> featured_media pd = None \<and> pd_status pd = ''draft'')
       \<and> fst (publishToWordPress fetcher atob btoa article cfg s)
         = (case readPost (fst (fetcher (postRequest baseUrl auth article (Some 0)) (h_world s1))) of
              Inl err \<Rightarrow> Inl (friendlyError err)
            | Inr v \<Rightarrow> Inr v)"
    using p q by (simp add: createPost_requests postRequest_no_media)
qed

theorem publishToWordPress_survives_upload_failure_witness:
  "fst (publishToWordPress media_down atob_id btoa_id HERO_ARTICLE WP_CONFIG http0)
     = Inr \<lparr>pr_id = Some 7, pr_link = Some ''https://blog.example/?p=7''\<rparr>
   \<and> h_requests (snd (publishToWordPress media_down atob_id btoa_id HERO_ARTICLE WP_CONFIG http0))
     = [mediaRequest WP_BASE WP_AUTH HERO_ARTICLE HERO_IMAGE HERO_BLOB,
        postRequest WP_BASE WP_AUTH HERO_ARTICLE (Some 0)]"
proof -
  let ?s1 = "\<lparr>h_world = Suc 0,
     h_requests = [mediaRequest WP_BASE WP_AUTH HERO_ARTICLE HERO_IMAGE HERO_BLOB]\<rparr> :: nat http"
  have c: "endpoint WP_CONFIG \<noteq> [] \<and> username WP_CONFIG \<noteq> [] \<and> applicationPassword WP_CONFIG \<noteq> []"
    by (simp add: WP_CONFIG_def)
  have f: "findHero HERO_ARTICLE = Some HERO_IMAGE"
    by (simp add: findHero_def HERO_ARTICLE_def HERO_IMAGE_def startsWith_def)
  have b: "WP_BASE = apiBase WP_CONFIG"
    by (simp add: apiBase_def WP_CONFIG_def WP_BASE_def js_includes_def)
  have a: "WP_AUTH = authorization btoa_id WP_CONFIG"
    by (simp add: authorization_def WP_CONFIG_def WP_AUTH_def btoa_id_def)
  have d: "dataURItoBlob atob_id (i_url HERO_IMAGE) = Inr HERO_BLOB"
    by (simp add: dataURItoBlob_def HERO_IMAGE_def atob_id_def HERO_BLOB_def)
  have m: "do_fetch media_down (mediaRequest WP_BASE WP_AUTH HERO_ARTICLE HERO_IMAGE HERO_BLOB) http0
      = (Inr SERVER_ERROR, ?s1)"
    by (simp add: do_fetch_def media_down_def mediaRequest_def http0_def WP_BASE_def)
  have n: "\<not> resp_ok SERVER_ERROR" by (simp add: SERVER_ERROR_def)
  have p: "fst (media_down (postRequest WP_BASE WP_AUTH HERO_ARTICLE (Some 0)) (Suc 0))
      = Inr POST_CREATED"
    by (simp add: media_down_def postRequest_def WP_BASE_def)
  have r: "readPost (Inr POST_CREATED)
      = Inr \<lparr>pr_id = Some 7, pr_link = Some ''https://blog.example/?p=7''\<rparr>"
    by (simp add: readPost_def POST_CREATED_def)
  from publishToWordPress_survives_upload_failure
    [where cfg = WP_CONFIG and article = HERO_ARTICLE and heroImage = HERO_IMAGE
       and baseUrl = WP_BASE and auth = WP_AUTH and btoa = btoa_id and atob = atob_id
       and b = HERO_BLOB and fetcher = media_down and s = http0 and r = "Inr SERVER_ERROR"
       and ?s1.0 = ?s1]
    c f b a d m n
  have "fst (publishToWordPress media_down atob_id btoa_id HERO_ARTICLE WP_CONFIG http0)
      = (case readPost (fst (media_down (postRequest WP_BASE WP_AUTH HERO_ARTICLE (Some 0)) (h_world ?s1))) of
           Inl err \<Rightarrow> Inl (friendlyError err)
         | Inr v \<Rightarrow> Inr v)
    \<and> h_requests (snd (publishToWordPress media_down atob_id btoa_id HERO_ARTICLE WP_CONFIG http0))
      = h_requests ?s1 @ [postRequest WP_BASE WP_AUTH HERO_ARTICLE (Some 0)]"
    by blast
  then show ?thesis by (simp add: p r)
qed

section \<open>Properties of handleGenerate\<close>

lemma handleGenerate_try_effect:
  "handleGenerate_try svc setItem now now' s = (r, s')
   \<Longrightarrow> wz_error s' = wz_error s \<and> currentStep s' = currentStep s
       \<and> isGenerating s' = isGenerating s \<and> wz_authors s' = wz_authors s"
  by (auto simp: handleGenerate_try_def Let_def split: prod.splits sum.splits)

lemma handleGenerate_try_persistence:
  "handleGenerate_try svc setItem now now' s = (r, s')
   \<Longrightarrow> saved s' = saved s \<and> localStorage s' = localStorage s
     \<or> (\<exists>serpData w1 structure w2 htmlBody w3 mediaData w4 seoData w5 completed.
           gs_analyzeSerp svc (a_targetKeyword (wz_article s)) (a_language (wz_article s))
               (wz_world s) = (Inr serpData, w1)
         \<and> gs_generateArticleStructure svc (a_topic (wz_article s))
               (a_targetKeyword (wz_article s)) serpData (a_language (wz_article s)) w1
             = (Inr structure, w2)
         \<and> gs_generateMainContent svc (a_topic (wz_article s))
               (a_targetKeyword (wz_article s)) structure serpData (a_wordCount (wz_article s))
               (a_advancedOptions (wz_article s)) (a_language (wz_article s))
               (a_siteUrl (wz_article s))
               (map_option au_name
                  (find (\<lambda>a. Some (au_id a) = a_authorId (wz_article s)) (wz_authors s))) w2
             = (Inr htmlBody, w3)
         \<and> gs_generateMediaStrategy svc (st_title structure) (a_targetKeyword (wz_article s))
               (a_language (wz_article s)) w3 = (Inr mediaData, w4)
         \<and> gs_generateMetadata svc (a_topic (wz_article s)) (a_targetKeyword (wz_article s))
               htmlBody (a_language (wz_article s)) w4 = (Inr seoData, w5)
         \<and> completed = completedArticle now now' (wz_article s)
               (find (\<lambda>a. Some (au_id a) = a_authorId (wz_article s)) (wz_authors s))
               serpData structure htmlBody mediaData seoData
         \<and> saved s' = saved s @ [completed]
         \<and> (case saveArticle setItem completed (localStorage s) of
              Inr articles \<Rightarrow> localStorage s' = articles
            | Inl e \<Rightarrow> localStorage s' = localStorage s))"
  by (auto simp: handleGenerate_try_def Let_def split: prod.splits sum.splits)

lemma completedArticle_status:
  "a_status (completedArticle now now' article currentAuthor serpData structure htmlBody
               mediaData seoData) = Completed"
  by (simp add: completedArticle_def Let_def)

lemma embeddedMessage_truthy: "embeddedMessage JSON_parse m = Some v \<Longrightarrow> truthy v"
  by (auto simp: embeddedMessage_def split: option.splits prod.splits if_splits)

lemma QUOTA_MSG_nonempty: "QUOTA_MSG \<noteq> []"
  by (simp add: QUOTA_MSG_def)

lemma errorMessage_string:
  assumes "\<And>v. embeddedMessage JSON_parse (orElse (err_message e) ''Erro desconhecido'') = Some v
             \<Longrightarrow> \<exists>m. v = VString m"
  shows "\<exists>msg. errorMessage JSON_parse e = Inr (VString msg) \<and> msg \<noteq> []"
proof (cases "embeddedMessage JSON_parse (orElse (err_message e) ''Erro desconhecido'')")
  case None
  have "orElse (err_message e) ''Erro desconhecido'' \<noteq> []"
    by (simp add: orElse_def split: option.splits)
  with None show ?thesis
    by (simp add: errorMessage_def Let_def QUOTA_MSG_nonempty)
next
  case (Some v)
  with assms obtain m where v: "v = VString m" by blast
  from embeddedMessage_truthy [OF Some] v have "m \<noteq> []" by simp
  with Some v show ?thesis
    by (simp add: errorMessage_def Let_def QUOTA_MSG_nonempty)
qed

lemma errorMessage_not_string:
  assumes "embeddedMessage JSON_parse (orElse (err_message e) ''Erro desconhecido'') = Some v"
    and "\<forall>m. v \<noteq> VString m" "\<forall>xs. v \<noteq> VArray xs"
  shows "errorMessage JSON_parse e = Inl NOT_A_FUNCTION"
  using assms by (cases v) (simp_all add: errorMessage_def Let_def)

lemma handleGenerate_result:
  assumes "a_topic (wz_article s) \<noteq> []" "a_targetKeyword (wz_article s) \<noteq> []"
    and "handleGenerate_try svc setItem now now'
           (s\<lparr>isGenerating := True, wz_error := None, currentStep := 2\<rparr>) = (r, s1)"
  shows "handleGenerate svc JSON_parse setItem now now' s
         = (case r of
              None \<Rightarrow> (None, s1\<lparr>isGenerating := False\<rparr>)
            | Some e \<Rightarrow>
                (case errorMessage JSON_parse e of
                   Inr msg \<Rightarrow>
                     (None, s1\<lparr>wz_error := Some msg, currentStep := 1, isGenerating := False\<rparr>)
                 | Inl typeError \<Rightarrow> (Some typeError, s1\<lparr>isGenerating := False\<rparr>)))"
  using assms by (simp add: handleGenerate_def)

lemma handleGenerate_try_structure_throws:
  assumes "gs_analyzeSerp svc (a_targetKeyword (wz_article s)) (a_language (wz_article s))
               (wz_world s) = (Inr serpData, w1)"
    and "gs_generateArticleStructure svc (a_topic (wz_article s))
               (a_targetKeyword (wz_article s)) serpData (a_language (wz_article s)) w1
             = (Inl e, w2)"
  shows "\<exists>s1. handleGenerate_try svc setItem now now' s = (Some e, s1)
              \<and> saved s1 = saved s \<and> localStorage s1 = localStorage s"
  using assms by (simp add: handleGenerate_try_def Let_def)

lemma handleGenerate_try_body_throws:
  assumes "gs_analyzeSerp svc (a_targetKeyword (wz_article s)) (a_language (wz_article s))
               (wz_world s) = (Inr serpData, w1)"
    and "gs_generateArticleStructure svc (a_topic (wz_article s))
               (a_targetKeyword (wz_article s)) serpData (a_language (wz_article s)) w1
             = (Inr st, w2)"
    and "gs_generateMainContent svc (a_topic (wz_article s))
               (a_targetKeyword (wz_article s)) st serpData (a_wordCount (wz_article s))
               (a_advancedOptions (wz_article s)) (a_language (wz_article s))
               (a_siteUrl (wz_article s))
               (map_option au_name
                  (find (\<lambda>a. Some (au_id a) = a_authorId (wz_article s)) (wz_authors s))) w2
             = (Inl e, w3)"
  shows "\<exists>s1. handleGenerate_try svc setItem now now' s = (Some e, s1)
              \<and> saved s1 = saved s \<and> localStorage s1 = localStorage s"
  using assms by (simp add: handleGenerate_try_def Let_def)

lemma handleGenerate_persistence:
  "saved (snd (handleGenerate svc JSON_parse setItem now now' s)) = saved s
     \<and> localStorage (snd (handleGenerate svc JSON_parse setItem now now' s)) = localStorage s
   \<or> (\<exists>serpData w1 structure w2 htmlBody w3 mediaData w4 seoData w5 completed.
         gs_analyzeSerp svc (a_targetKeyword (wz_article s)) (a_language (wz_article s))
             (wz_world s) = (Inr serpData, w1)
       \<and> gs_generateArticleStructure svc (a_topic (wz_article s))
             (a_targetKeyword (wz_article s)) serpData (a_language (wz_article s)) w1
           = (Inr structure, w2)
       \<and> gs_generateMainContent svc (a_topic (wz_article s))
             (a_targetKeyword (wz_article s)) structure serpData (a_wordCount (wz_article s))
             (a_advancedOptions (wz_article s)) (a_language (wz_article s))
             (a_siteUrl (wz_article s))
             (map_option au_name
                (find (\<lambda>a. Some (au_id a) = a_authorId (wz_article s)) (wz_authors s))) w2
           = (Inr htmlBody, w3)
       \<and> gs_generateMediaStrategy svc (st_title structure) (a_targetKeyword (wz_article s))
             (a_language (wz_article s)) w3 = (Inr mediaData, w4)
       \<and> gs_generateMetadata svc (a_topic (wz_article s)) (a_targetKeyword (wz_article s))
             htmlBody (a_language (wz_article s)) w4 = (Inr seoData, w5)
       \<and> completed = completedArticle now now' (wz_article s)
             (find (\<lambda>a. Some (au_id a) = a_authorId (wz_article s)) (wz_authors s))
             serpData structure htmlBody mediaData seoData
       \<and> a_status completed = Completed
       \<and> saved (snd (handleGenerate svc JSON_parse setItem now now' s)) = saved s @ [completed]
       \<and> (case saveArticle setItem completed (localStorage s) of
            Inr articles \<Rightarrow>
              localStorage (snd (handleGenerate svc JSON_parse setItem now now' s)) = articles
          | Inl err \<Rightarrow>
              localStorage (snd (handleGenerate svc JSON_parse setItem now now' s))
              = localStorage s))"
proof -
  let ?s0 = "s\<lparr>isGenerating := True, wz_error := None, currentStep := 2\<rparr>"
  let ?s' = "snd (handleGenerate svc JSON_parse setItem now now' s)"
  obtain r s1 where t: "handleGenerate_try svc setItem now now' ?s0 = (r, s1)"
    by (cases "handleGenerate_try svc setItem now now' ?s0") blast
  show ?thesis
  proof (cases "a_topic (wz_article s) = [] \<or> a_targetKeyword (wz_article s) = []")
    case True
    then have "saved ?s' = saved s \<and> localStorage ?s' = localStorage s"
      by (auto simp: handleGenerate_def)
    then show ?thesis by blast
  next
    case False
    then have ne: "a_topic (wz_article s) \<noteq> []" "a_targetKeyword (wz_article s) \<noteq> []"
      by simp_all
    have r: "saved ?s' = saved s1" "localStorage ?s' = localStorage s1"
      using handleGenerate_result [OF ne t, of JSON_parse]
      by (simp_all split: option.splits sum.splits)
    have eqs: "wz_article ?s0 = wz_article s" "wz_world ?s0 = wz_world s"
      "wz_authors ?s0 = wz_authors s" "saved ?s0 = saved s"
      "localStorage ?s0 = localStorage s"
      by simp_all
    show ?thesis
      using handleGenerate_try_persistence [OF t] unfolding r eqs
      by (auto simp: completedArticle_status)
  qed
qed

lemma handleGenerate_stage_throws:
  assumes h: "a_topic (wz_article s) \<noteq> [] \<and> a_targetKeyword (wz_article s) \<noteq> []
     \<and> gs_analyzeSerp svc (a_targetKeyword (wz_article s)) (a_language (wz_article s))
           (wz_world s) = (Inr serp, v1)
     \<and> (gs_generateArticleStructure svc (a_topic (wz_article s))
            (a_targetKeyword (wz_article s)) serp (a_language (wz_article s)) v1 = (Inl e, v2)
         \<or> gs_generateArticleStructure svc (a_topic (wz_article s))
              (a_targetKeyword (wz_article s)) serp (a_language (wz_article s)) v1
            = (Inr struct, v2)
           \<and> gs_generateMainContent svc (a_topic (wz_article s))
                (a_targetKeyword (wz_article s)) struct serp (a_wordCount (wz_article s))
                (a_advancedOptions (wz_article s)) (a_language (wz_article s))
                (a_siteUrl (wz_article s))
                (map_option au_name
                   (find (\<lambda>a. Some (au_id a) = a_authorId (wz_article s)) (wz_authors s)))
                v2 = (Inl e, v3))"
  shows "\<exists>s1. handleGenerate svc JSON_parse setItem now now' s
              = (case errorMessage JSON_parse e of
                   Inr msg \<Rightarrow>
                     (None, s1\<lparr>wz_error := Some msg, currentStep := 1, isGenerating := False\<rparr>)
                 | Inl typeError \<Rightarrow> (Some typeError, s1\<lparr>isGenerating := False\<rparr>))
            \<and> saved s1 = saved s \<and> localStorage s1 = localStorage s
            \<and> wz_error s1 = None \<and> currentStep s1 = 2"
proof -
  let ?s0 = "s\<lparr>isGenerating := True, wz_error := None, currentStep := 2\<rparr>"
  from h have ne: "a_topic (wz_article s) \<noteq> []" "a_targetKeyword (wz_article s) \<noteq> []"
    by simp_all
  from h have a: "gs_analyzeSerp svc (a_targetKeyword (wz_article ?s0))
      (a_language (wz_article ?s0)) (wz_world ?s0) = (Inr serp, v1)"
    by simp
  from h consider
      (in_structure) "gs_generateArticleStructure svc (a_topic (wz_article ?s0))
            (a_targetKeyword (wz_article ?s0)) serp (a_language (wz_article ?s0)) v1
          = (Inl e, v2)"
    | (in_body) "gs_generateArticleStructure svc (a_topic (wz_article ?s0))
              (a_targetKeyword (wz_article ?s0)) serp (a_language (wz_article ?s0)) v1
            = (Inr struct, v2)"
        "gs_generateMainContent svc (a_topic (wz_article ?s0))
                (a_targetKeyword (wz_article ?s0)) struct serp (a_wordCount (wz_article ?s0))
                (a_advancedOptions (wz_article ?s0)) (a_language (wz_article ?s0))
                (a_siteUrl (wz_article ?s0))
                (map_option au_name
                   (find (\<lambda>a. Some (au_id a) = a_authorId (wz_article ?s0)) (wz_authors ?s0)))
                v2 = (Inl e, v3)"
    by auto
  then have "\<exists>s1. handleGenerate_try svc setItem now now' ?s0 = (Some e, s1)
              \<and> saved s1 = saved ?s0 \<and> localStorage s1 = localStorage ?s0"
  proof cases
    case in_structure
    from handleGenerate_try_structure_throws [OF a in_structure] show ?thesis .
  next
    case in_body
    from handleGenerate_try_body_throws [OF a in_body] show ?thesis .
  qed
  then obtain s1 where s1: "handleGenerate_try svc setItem now now' ?s0 = (Some e, s1)"
    "saved s1 = saved ?s0" "localStorage s1 = localStorage ?s0" by blast
  from handleGenerate_try_effect [OF s1(1)]
  have f: "wz_error s1 = None" "currentStep s1 = 2" by simp_all
  from handleGenerate_result [OF ne s1(1), of JSON_parse] s1(2,3) f
  show ?thesis by auto
qed

lemma handleGenerate_throw_no_save:
  assumes h: "a_topic (wz_article s) \<noteq> [] \<and> a_targetKeyword (wz_article s) \<noteq> []
     \<and> gs_analyzeSerp svc (a_targetKeyword (wz_article s)) (a_language (wz_article s))
           (wz_world s) = (Inr serp, v1)
     \<and> (gs_generateArticleStructure svc (a_topic (wz_article s))
            (a_targetKeyword (wz_article s)) serp (a_language (wz_article s)) v1 = (Inl e, v2)
         \<or> gs_generateArticleStructure svc (a_topic (wz_article s))
              (a_targetKeyword (wz_article s)) serp (a_language (wz_article s)) v1
            = (Inr struct, v2)
           \<and> gs_generateMainContent svc (a_topic (wz_article s))
                (a_targetKeyword (wz_article s)) struct serp (a_wordCount (wz_article s))
                (a_advancedOptions (wz_article s)) (a_language (wz_article s))
                (a_siteUrl (wz_article s))
                (map_option au_name
                   (find (\<lambda>a. Some (au_id a) = a_authorId (wz_article s)) (wz_authors s)))
                v2 = (Inl e, v3))"
  shows "saved (snd (handleGenerate svc JSON_parse setItem now now' s)) = saved s
       \<and> localStorage (snd (handleGenerate svc JSON_parse setItem now now' s)) = localStorage s
       \<and> \<not> isGenerating (snd (handleGenerate svc JSON_parse setItem now now' s))"
proof -
  from handleGenerate_stage_throws [OF h, of JSON_parse setItem now now']
  obtain s1 where s1: "handleGenerate svc JSON_parse setItem now now' s
              = (case errorMessage JSON_parse e of
                   Inr msg \<Rightarrow>
                     (None, s1\<lparr>wz_error := Some msg, currentStep := 1, isGenerating := False\<rparr>)
                 | Inl typeError \<Rightarrow> (Some typeError, s1\<lparr>isGenerating := False\<rparr>))"
    "saved s1 = saved s" "localStorage s1 = localStorage s"
    by blast
  show ?thesis
    unfolding s1(1) using s1(2,3) by (cases "errorMessage JSON_parse e") simp_all
qed

lemma handleGenerate_error_shown:
  assumes h: "a_topic (wz_article s) \<noteq> [] \<and> a_targetKeyword (wz_article s) \<noteq> []
     \<and> gs_analyzeSerp svc (a_targetKeyword (wz_article s)) (a_language (wz_article s))
           (wz_world s) = (Inr serp, v1)
     \<and> (gs_generateArticleStructure svc (a_topic (wz_article s))
            (a_targetKeyword (wz_article s)) serp (a_language (wz_article s)) v1 = (Inl e, v2)
         \<or> gs_generateArticleStructure svc (a_topic (wz_article s))
              (a_targetKeyword (wz_article s)) serp (a_language (wz_article s)) v1
            = (Inr struct, v2)
           \<and> gs_generateMainContent svc (a_topic (wz_article s))
                (a_targetKeyword (wz_article s)) struct serp (a_wordCount (wz_article s))
                (a_advancedOptions (wz_article s)) (a_language (wz_article s))
                (a_siteUrl (wz_article s))
                (map_option au_name
                   (find (\<lambda>a. Some (au_id a) = a_authorId (wz_article s)) (wz_authors s)))
                v2 = (Inl e, v3))"
    and str: "\<And>v. embeddedMessage JSON_parse (orElse (err_message e) ''Erro desconhecido'')
                   = Some v \<Longrightarrow> \<exists>m. v = VString m"
  shows "\<exists>msg. msg \<noteq> []
          \<and> fst (handleGenerate svc JSON_parse setItem now now' s) = None
          \<and> wz_error (snd (handleGenerate svc JSON_parse setItem now now' s))
              = Some (VString msg)
          \<and> currentStep (snd (handleGenerate svc JSON_parse setItem now now' s)) = 1"
proof -
  from errorMessage_string [of JSON_parse e] str
  obtain msg where m: "errorMessage JSON_parse e = Inr (VString msg)" "msg \<noteq> []" by blast
  from handleGenerate_stage_throws [OF h, of JSON_parse setItem now now'] m
  show ?thesis by auto
qed

lemma handleGenerate_error_hidden:
  assumes h: "a_topic (wz_article s) \<noteq> [] \<and> a_targetKeyword (wz_article s) \<noteq> []
     \<and> gs_analyzeSerp svc (a_targetKeyword (wz_article s)) (a_language (wz_article s))
           (wz_world s) = (Inr serp, v1)
     \<and> (gs_generateArticleStructure svc (a_topic (wz_article s))
            (a_targetKeyword (wz_article s)) serp (a_language (wz_article s)) v1 = (Inl e, v2)
         \<or> gs_generateArticleStructure svc (a_topic (wz_article s))
              (a_targetKeyword (wz_article s)) serp (a_language (wz_article s)) v1
            = (Inr struct, v2)
           \<and> gs_generateMainContent svc (a_topic (wz_article s))
                (a_targetKeyword (wz_article s)) struct serp (a_wordCount (wz_article s))
                (a_advancedOptions (wz_article s)) (a_language (wz_article s))
                (a_siteUrl (wz_article s))
                (map_option au_name
                   (find (\<lambda>a. Some (au_id a) = a_authorId (wz_article s)) (wz_authors s)))
                v2 = (Inl e, v3))"
    and v: "embeddedMessage JSON_parse (orElse (err_message e) ''Erro desconhecido'') = Some v"
      "\<forall>m. v \<noteq> VString m" "\<forall>xs. v \<noteq> VArray xs"
  shows "fst (handleGenerate svc JSON_parse setItem now now' s) = Some NOT_A_FUNCTION
       \<and> wz_error (snd (handleGenerate svc JSON_parse setItem now now' s)) = None
       \<and> currentStep (snd (handleGenerate svc JSON_parse setItem now now' s)) = 2"
  using handleGenerate_stage_throws [OF h, of JSON_parse setItem now now']
    errorMessage_not_string [OF v]
  by auto

lemma embeddedMessage_status_500:
  "embeddedMessage parse_status_500 STATUS_500_MSG = Some (VNumber 500)"
  by (simp add: embeddedMessage_def parse_status_500_def STATUS_500_MSG_def lastIndexOf_def
      substring_def)

text \<open>
  Claim C1, evaluated. The topic and the keyword are filled in, the SERP analysis and the
  structure stage return, and the body stage throws an \<open>Error\<close> with the message
  \<open>fail {"error":{"message":500}}\<close>. The \<open>catch\<close> block finds the embedded object, takes
  its \<open>error.message\<close>, the number 500, as the message, and then calls \<open>includes\<close> on it
  outside the inner \<open>try\<close>: that call throws a \<open>TypeError\<close>, so neither \<open>setError\<close> nor
  \<open>setCurrentStep(1)\<close> runs. The run ends with that \<open>TypeError\<close>, no error message on
  display and the wizard still at step 2; only \<open>isGenerating\<close> is reset. Nothing is saved.
  That a run saves only a completed article and at most once is
  \<open>handleGenerate_persistence\<close>; that a throw of the structure or the body stage never
  saves is \<open>handleGenerate_throw_no_save\<close>; that the error message is shown whenever the
  embedded message, if there is one, is a string is \<open>handleGenerate_error_shown\<close>.
\<close>

theorem handleGenerate_error_not_shown:
  "fst (handleGenerate body_down parse_status_500 storage_has_room NOON MIDNIGHT wizard0)
     = Some NOT_A_FUNCTION
   \<and> wz_error (snd (handleGenerate body_down parse_status_500 storage_has_room NOON MIDNIGHT
        wizard0)) = None
   \<and> currentStep (snd (handleGenerate body_down parse_status_500 storage_has_room NOON MIDNIGHT
        wizard0)) = 2
   \<and> \<not> isGenerating (snd (handleGenerate body_down parse_status_500 storage_has_room NOON
        MIDNIGHT wizard0))
   \<and> saved (snd (handleGenerate body_down parse_status_500 storage_has_room NOON MIDNIGHT
        wizard0)) = []
   \<and> localStorage (snd (handleGenerate body_down parse_status_500 storage_has_room NOON
        MIDNIGHT wizard0)) = []"
proof -
  have t: "a_topic DRAFT_ARTICLE \<noteq> []" "a_targetKeyword DRAFT_ARTICLE \<noteq> []"
    by (simp_all add: DRAFT_ARTICLE_def)
  have m: "errorMessage parse_status_500 (new_Error STATUS_500_MSG) = Inl NOT_A_FUNCTION"
    using embeddedMessage_status_500
    by (simp add: errorMessage_def new_Error_def orElse_def STATUS_500_MSG_def Let_def)
  show ?thesis
    by (simp add: handleGenerate_def handleGenerate_try_def body_down_def stages_ok_def
        wizard0_def t m Let_def)
qed

lemma handleGenerate_structure_down_example:
  "fst (handleGenerate structure_down no_embedded_json storage_has_room NOON MIDNIGHT wizard0)
     = None
   \<and> wz_error (snd (handleGenerate structure_down no_embedded_json storage_has_room NOON
        MIDNIGHT wizard0)) = Some (VString INVALID_JSON_MSG)
   \<and> currentStep (snd (handleGenerate structure_down no_embedded_json storage_has_room NOON
        MIDNIGHT wizard0)) = 1
   \<and> saved (snd (handleGenerate structure_down no_embedded_json storage_has_room NOON MIDNIGHT
        wizard0)) = []
   \<and> localStorage (snd (handleGenerate structure_down no_embedded_json storage_has_room NOON
        MIDNIGHT wizard0)) = []"
proof -
  have t: "a_topic DRAFT_ARTICLE \<noteq> []" "a_targetKeyword DRAFT_ARTICLE \<noteq> []"
    by (simp_all add: DRAFT_ARTICLE_def)
  have m: "errorMessage no_embedded_json (new_Error INVALID_JSON_MSG)
           = Inr (VString INVALID_JSON_MSG)"
    by (simp add: errorMessage_def embeddedMessage_def no_embedded_json_def new_Error_def
        orElse_def INVALID_JSON_MSG_def js_includes_def Let_def)
  show ?thesis
    by (simp add: handleGenerate_def handleGenerate_try_def structure_down_def stages_ok_def
        wizard0_def t m Let_def)
qed

lemma handleGenerate_success_example:
  "saved (snd (handleGenerate stages_ok no_embedded_json storage_has_room NOON MIDNIGHT wizard0))
     = [completedArticle NOON MIDNIGHT DRAFT_ARTICLE None SAMPLE_SERP SAMPLE_STRUCTURE
          SAMPLE_HTML SAMPLE_MEDIA SAMPLE_SEO]
   \<and> localStorage (snd (handleGenerate stages_ok no_embedded_json storage_has_room NOON
        MIDNIGHT wizard0))
     = [completedArticle NOON MIDNIGHT DRAFT_ARTICLE None SAMPLE_SERP SAMPLE_STRUCTURE
          SAMPLE_HTML SAMPLE_MEDIA SAMPLE_SEO]
   \<and> wz_world (snd (handleGenerate stages_ok no_embedded_json storage_has_room NOON MIDNIGHT
        wizard0))
     = [''analyzeSerp'', ''generateArticleStructure'', ''generateMainContent'',
        ''generateMediaStrategy'', ''generateMetadata'']
   \<and> wz_error (snd (handleGenerate stages_ok no_embedded_json storage_has_room NOON MIDNIGHT
        wizard0))
     = None
   \<and> timeouts (snd (handleGenerate stages_ok no_embedded_json storage_has_room NOON MIDNIGHT
        wizard0))
     = [(1000, 3)]"
proof -
  have t: "a_topic DRAFT_ARTICLE \<noteq> []" "a_targetKeyword DRAFT_ARTICLE \<noteq> []"
    "a_authorId DRAFT_ARTICLE = Some []"
    by (simp_all add: DRAFT_ARTICLE_def)
  have f: "au_id SAMPLE_AUTHOR \<noteq> []" by (simp add: SAMPLE_AUTHOR_def)
  show ?thesis
    using f by (simp add: handleGenerate_def handleGenerate_try_def stages_ok_def wizard0_def t
        saveArticle_def findIndex_def storage_has_room_def Let_def)
qed

lemma combineHtml_example:
  "combineHtml SAMPLE_HTML SAMPLE_VIDEO
   = ''<h1>A</h1><p>Lead</p>'' @ [CHR 0x0A] @ wizardVideoSection SAMPLE_VIDEO @ ''<p>Body</p>''"
  by (simp add: combineHtml_def SAMPLE_HTML_def SAMPLE_VIDEO_def wizardVideoSection_def
      trim_def trimEnd_def isSpace_def orElse_def)

lemma saveArticle_twice:
  "setItem [a] \<Longrightarrow> setItem [spread a b] \<Longrightarrow> a_id b = a_id a
   \<Longrightarrow> saveArticle setItem a [] = Inr [a] \<and> saveArticle setItem b [a] = Inr [spread a b]"
  by (simp add: saveArticle_def findIndex_def)

end
